theory Spec2Isabelle
  imports Main "HOL-Library.Word"
begin

unbundle bit_operations_syntax

section \<open>Failures\<close>

text \<open>
  \<^verbatim>\<open>CHECK_HR\<close> aborts the run with the failing HRESULT (an ATL exception, or a failed
  TAEF verification). A run that aborts is the \<open>Inl\<close> branch of a sum. Dereferencing a
  null or dangling pointer is a failure of its own. \<open>HR_EXTERNAL\<close> is a failing HRESULT
  handed back by a collaborator (device, compiler).
\<close>

datatype failure =
    E_INVALIDARG
  | INTSAFE_E_ARITHMETIC_OVERFLOW
  | AccessViolation
  | HR_EXTERNAL "32 word"

text \<open>The two success codes a reading function hands back.\<close>

datatype HR = S_OK | S_FALSE

section \<open>C strings\<close>

text \<open>
  \<^verbatim>\<open>LPCSTR\<close> and \<^verbatim>\<open>LPCWSTR\<close> values are modelled by their content, a \<open>string\<close>
  without the terminating NUL; a nullable pointer is a \<open>string option\<close>. The conversion
  between wide and narrow characters (\<^verbatim>\<open>CW2A\<close>, \<^verbatim>\<open>CA2W\<close>) is the identity on this
  content. \<^verbatim>\<open>_stricmp\<close> and \<^verbatim>\<open>_wcsicmp\<close> compare after folding \<open>A\<close>..\<open>Z\<close> to lower
  case, which sets the bit of value 32 in the code of the letter; \<^verbatim>\<open>_wcsnicmp\<close> does so
  on the first \<open>n\<close> characters.
\<close>

definition tolower_c :: "char \<Rightarrow> char" where
  "tolower_c c =
     (if 65 \<le> (of_char c :: nat) \<and> (of_char c :: nat) \<le> 90
      then (case c of Char b0 b1 b2 b3 b4 b5 b6 b7 \<Rightarrow> Char b0 b1 b2 b3 b4 True b6 b7)
      else c)"

definition stricmp_eq :: "string \<Rightarrow> string \<Rightarrow> bool" where
  "stricmp_eq a b = (map tolower_c a = map tolower_c b)"

definition strnicmp_eq :: "string \<Rightarrow> string \<Rightarrow> nat \<Rightarrow> bool" where
  "strnicmp_eq a b n = (map tolower_c (take n a) = map tolower_c (take n b))"


section \<open>The C runtime\<close>

text \<open>
  The C library is not part of the repository. The three things the parser takes from
  it are parameters of the model:
  \<^item> \<^verbatim>\<open>wcstof\<close>, which converts the leading literal of a text to a \<^verbatim>\<open>float\<close> and may
    set \<^verbatim>\<open>errno\<close> to \<^verbatim>\<open>ERANGE\<close>;
  \<^item> \<^verbatim>\<open>_wtol\<close>, which converts the leading integer of a text to a (32-bit) \<^verbatim>\<open>long\<close>
    and may set \<^verbatim>\<open>errno\<close> to \<^verbatim>\<open>ERANGE\<close>;
  \<^item> the macro \<^verbatim>\<open>NAN\<close> of \<^verbatim>\<open>math.h\<close>.
  A \<^verbatim>\<open>float\<close> is its IEEE-754 binary32 bit pattern. The flag returned with a value
  says whether the call set \<^verbatim>\<open>errno\<close> to \<^verbatim>\<open>ERANGE\<close>.
\<close>

record CRT =
  wcstof :: "string \<Rightarrow> 32 word \<times> bool"
  wtol :: "string \<Rightarrow> 32 word \<times> bool"
  NAN :: "32 word"

text \<open>
  \<^verbatim>\<open>INFINITY\<close>, \<^verbatim>\<open>FLT_MIN\<close> (the smallest positive normal number, \<open>2\<^sup>-\<^sup>1\<^sup>2\<^sup>6\<close>), the
  quotient \<^verbatim>\<open>FLT_MIN / 2\<close> (\<open>2\<^sup>-\<^sup>1\<^sup>2\<^sup>7\<close>, exact) and unary minus, which flips the sign
  bit.
\<close>

definition INFINITY :: "32 word" where
  "INFINITY = 0x7F800000"

definition FLT_MIN :: "32 word" where
  "FLT_MIN = 0x00800000"

definition FLT_MIN_div_2 :: "32 word" where
  "FLT_MIN_div_2 = 0x00400000"

definition fneg :: "32 word \<Rightarrow> 32 word" where
  "fneg f = f XOR 0x80000000"

text \<open>
  \<^verbatim>\<open>BYTE *pB = (BYTE *)&fVal\<close> followed by four reads: the bytes of the value in memory
  order, which is little-endian on the machines the test runs on.
\<close>

definition float_bytes :: "32 word \<Rightarrow> 8 word list" where
  "float_bytes f =
     [ucast f, ucast (drop_bit 8 f), ucast (drop_bit 16 f), ucast (drop_bit 24 f)]"

section \<open>The parser's effects\<close>

text \<open>
  The parser reads and writes one piece of global state, \<^verbatim>\<open>errno\<close>: the state carried
  here is whether \<^verbatim>\<open>errno == ERANGE\<close>. A parsing step takes that state and either
  aborts or returns its value and the new state.
\<close>

type_synonym 'a parse = "bool \<Rightarrow> failure + ('a \<times> bool)"

definition returnP :: "'a \<Rightarrow> 'a parse" where
  "returnP a = (\<lambda>errno. Inr (a, errno))"

definition failP :: "failure \<Rightarrow> 'a parse" where
  "failP hr = (\<lambda>errno. Inl hr)"

definition bindP :: "'a parse \<Rightarrow> ('a \<Rightarrow> 'b parse) \<Rightarrow> 'b parse" where
  "bindP m f = (\<lambda>errno. case m errno of Inl hr \<Rightarrow> Inl hr | Inr (a, errno') \<Rightarrow> f a errno')"

definition CHECK_HR :: "failure + 'a \<Rightarrow> 'a parse" where
  "CHECK_HR r = (\<lambda>errno. case r of Inl hr \<Rightarrow> Inl hr | Inr a \<Rightarrow> Inr (a, errno))"

definition CHECK_HR_value :: "failure + (HR \<times> 'a) \<Rightarrow> 'a parse" where
  "CHECK_HR_value r = (\<lambda>errno. case r of Inl hr \<Rightarrow> Inl hr | Inr (_, a) \<Rightarrow> Inr (a, errno))"

section \<open>Enumerator values\<close>

text \<open>
  The enumerators of \<^verbatim>\<open>dxgiformat.h\<close> and \<^verbatim>\<open>d3d12.h\<close> that the source names, with
  their values in those headers.
\<close>

abbreviation (input) D3D12_INPUT_CLASSIFICATION_PER_INSTANCE_DATA :: "32 word" where "D3D12_INPUT_CLASSIFICATION_PER_INSTANCE_DATA \<equiv> 1"
abbreviation (input) D3D12_INPUT_CLASSIFICATION_PER_VERTEX_DATA :: "32 word" where "D3D12_INPUT_CLASSIFICATION_PER_VERTEX_DATA \<equiv> 0"
abbreviation (input) DXGI_FORMAT_UNKNOWN :: "32 word" where "DXGI_FORMAT_UNKNOWN \<equiv> 0"
abbreviation (input) DXGI_FORMAT_R32G32B32A32_TYPELESS :: "32 word" where "DXGI_FORMAT_R32G32B32A32_TYPELESS \<equiv> 1"
abbreviation (input) DXGI_FORMAT_R32G32B32A32_FLOAT :: "32 word" where "DXGI_FORMAT_R32G32B32A32_FLOAT \<equiv> 2"
abbreviation (input) DXGI_FORMAT_R32G32B32A32_UINT :: "32 word" where "DXGI_FORMAT_R32G32B32A32_UINT \<equiv> 3"
abbreviation (input) DXGI_FORMAT_R32G32B32A32_SINT :: "32 word" where "DXGI_FORMAT_R32G32B32A32_SINT \<equiv> 4"
abbreviation (input) DXGI_FORMAT_R32G32B32_TYPELESS :: "32 word" where "DXGI_FORMAT_R32G32B32_TYPELESS \<equiv> 5"
abbreviation (input) DXGI_FORMAT_R32G32B32_FLOAT :: "32 word" where "DXGI_FORMAT_R32G32B32_FLOAT \<equiv> 6"
abbreviation (input) DXGI_FORMAT_R32G32B32_UINT :: "32 word" where "DXGI_FORMAT_R32G32B32_UINT \<equiv> 7"
abbreviation (input) DXGI_FORMAT_R32G32B32_SINT :: "32 word" where "DXGI_FORMAT_R32G32B32_SINT \<equiv> 8"
abbreviation (input) DXGI_FORMAT_R16G16B16A16_TYPELESS :: "32 word" where "DXGI_FORMAT_R16G16B16A16_TYPELESS \<equiv> 9"
abbreviation (input) DXGI_FORMAT_R16G16B16A16_FLOAT :: "32 word" where "DXGI_FORMAT_R16G16B16A16_FLOAT \<equiv> 10"
abbreviation (input) DXGI_FORMAT_R16G16B16A16_UNORM :: "32 word" where "DXGI_FORMAT_R16G16B16A16_UNORM \<equiv> 11"
abbreviation (input) DXGI_FORMAT_R16G16B16A16_UINT :: "32 word" where "DXGI_FORMAT_R16G16B16A16_UINT \<equiv> 12"
abbreviation (input) DXGI_FORMAT_R16G16B16A16_SNORM :: "32 word" where "DXGI_FORMAT_R16G16B16A16_SNORM \<equiv> 13"
abbreviation (input) DXGI_FORMAT_R16G16B16A16_SINT :: "32 word" where "DXGI_FORMAT_R16G16B16A16_SINT \<equiv> 14"
abbreviation (input) DXGI_FORMAT_R32G32_TYPELESS :: "32 word" where "DXGI_FORMAT_R32G32_TYPELESS \<equiv> 15"
abbreviation (input) DXGI_FORMAT_R32G32_FLOAT :: "32 word" where "DXGI_FORMAT_R32G32_FLOAT \<equiv> 16"
abbreviation (input) DXGI_FORMAT_R32G32_UINT :: "32 word" where "DXGI_FORMAT_R32G32_UINT \<equiv> 17"
abbreviation (input) DXGI_FORMAT_R32G32_SINT :: "32 word" where "DXGI_FORMAT_R32G32_SINT \<equiv> 18"
abbreviation (input) DXGI_FORMAT_R32G8X24_TYPELESS :: "32 word" where "DXGI_FORMAT_R32G8X24_TYPELESS \<equiv> 19"
abbreviation (input) DXGI_FORMAT_D32_FLOAT_S8X24_UINT :: "32 word" where "DXGI_FORMAT_D32_FLOAT_S8X24_UINT \<equiv> 20"
abbreviation (input) DXGI_FORMAT_R32_FLOAT_X8X24_TYPELESS :: "32 word" where "DXGI_FORMAT_R32_FLOAT_X8X24_TYPELESS \<equiv> 21"
abbreviation (input) DXGI_FORMAT_X32_TYPELESS_G8X24_UINT :: "32 word" where "DXGI_FORMAT_X32_TYPELESS_G8X24_UINT \<equiv> 22"
abbreviation (input) DXGI_FORMAT_R10G10B10A2_TYPELESS :: "32 word" where "DXGI_FORMAT_R10G10B10A2_TYPELESS \<equiv> 23"
abbreviation (input) DXGI_FORMAT_R10G10B10A2_UNORM :: "32 word" where "DXGI_FORMAT_R10G10B10A2_UNORM \<equiv> 24"
abbreviation (input) DXGI_FORMAT_R10G10B10A2_UINT :: "32 word" where "DXGI_FORMAT_R10G10B10A2_UINT \<equiv> 25"
abbreviation (input) DXGI_FORMAT_R11G11B10_FLOAT :: "32 word" where "DXGI_FORMAT_R11G11B10_FLOAT \<equiv> 26"
abbreviation (input) DXGI_FORMAT_R8G8B8A8_TYPELESS :: "32 word" where "DXGI_FORMAT_R8G8B8A8_TYPELESS \<equiv> 27"
abbreviation (input) DXGI_FORMAT_R8G8B8A8_UNORM :: "32 word" where "DXGI_FORMAT_R8G8B8A8_UNORM \<equiv> 28"
abbreviation (input) DXGI_FORMAT_R8G8B8A8_UNORM_SRGB :: "32 word" where "DXGI_FORMAT_R8G8B8A8_UNORM_SRGB \<equiv> 29"
abbreviation (input) DXGI_FORMAT_R8G8B8A8_UINT :: "32 word" where "DXGI_FORMAT_R8G8B8A8_UINT \<equiv> 30"
abbreviation (input) DXGI_FORMAT_R8G8B8A8_SNORM :: "32 word" where "DXGI_FORMAT_R8G8B8A8_SNORM \<equiv> 31"
abbreviation (input) DXGI_FORMAT_R8G8B8A8_SINT :: "32 word" where "DXGI_FORMAT_R8G8B8A8_SINT \<equiv> 32"
abbreviation (input) DXGI_FORMAT_R16G16_TYPELESS :: "32 word" where "DXGI_FORMAT_R16G16_TYPELESS \<equiv> 33"
abbreviation (input) DXGI_FORMAT_R16G16_FLOAT :: "32 word" where "DXGI_FORMAT_R16G16_FLOAT \<equiv> 34"
abbreviation (input) DXGI_FORMAT_R16G16_UNORM :: "32 word" where "DXGI_FORMAT_R16G16_UNORM \<equiv> 35"
abbreviation (input) DXGI_FORMAT_R16G16_UINT :: "32 word" where "DXGI_FORMAT_R16G16_UINT \<equiv> 36"
abbreviation (input) DXGI_FORMAT_R16G16_SNORM :: "32 word" where "DXGI_FORMAT_R16G16_SNORM \<equiv> 37"
abbreviation (input) DXGI_FORMAT_R16G16_SINT :: "32 word" where "DXGI_FORMAT_R16G16_SINT \<equiv> 38"
abbreviation (input) DXGI_FORMAT_R32_TYPELESS :: "32 word" where "DXGI_FORMAT_R32_TYPELESS \<equiv> 39"
abbreviation (input) DXGI_FORMAT_D32_FLOAT :: "32 word" where "DXGI_FORMAT_D32_FLOAT \<equiv> 40"
abbreviation (input) DXGI_FORMAT_R32_FLOAT :: "32 word" where "DXGI_FORMAT_R32_FLOAT \<equiv> 41"
abbreviation (input) DXGI_FORMAT_R32_UINT :: "32 word" where "DXGI_FORMAT_R32_UINT \<equiv> 42"
abbreviation (input) DXGI_FORMAT_R32_SINT :: "32 word" where "DXGI_FORMAT_R32_SINT \<equiv> 43"
abbreviation (input) DXGI_FORMAT_R24G8_TYPELESS :: "32 word" where "DXGI_FORMAT_R24G8_TYPELESS \<equiv> 44"
abbreviation (input) DXGI_FORMAT_D24_UNORM_S8_UINT :: "32 word" where "DXGI_FORMAT_D24_UNORM_S8_UINT \<equiv> 45"
abbreviation (input) DXGI_FORMAT_R24_UNORM_X8_TYPELESS :: "32 word" where "DXGI_FORMAT_R24_UNORM_X8_TYPELESS \<equiv> 46"
abbreviation (input) DXGI_FORMAT_X24_TYPELESS_G8_UINT :: "32 word" where "DXGI_FORMAT_X24_TYPELESS_G8_UINT \<equiv> 47"
abbreviation (input) DXGI_FORMAT_R8G8_TYPELESS :: "32 word" where "DXGI_FORMAT_R8G8_TYPELESS \<equiv> 48"
abbreviation (input) DXGI_FORMAT_R8G8_UNORM :: "32 word" where "DXGI_FORMAT_R8G8_UNORM \<equiv> 49"
abbreviation (input) DXGI_FORMAT_R8G8_UINT :: "32 word" where "DXGI_FORMAT_R8G8_UINT \<equiv> 50"
abbreviation (input) DXGI_FORMAT_R8G8_SNORM :: "32 word" where "DXGI_FORMAT_R8G8_SNORM \<equiv> 51"
abbreviation (input) DXGI_FORMAT_R8G8_SINT :: "32 word" where "DXGI_FORMAT_R8G8_SINT \<equiv> 52"
abbreviation (input) DXGI_FORMAT_R16_TYPELESS :: "32 word" where "DXGI_FORMAT_R16_TYPELESS \<equiv> 53"
abbreviation (input) DXGI_FORMAT_R16_FLOAT :: "32 word" where "DXGI_FORMAT_R16_FLOAT \<equiv> 54"
abbreviation (input) DXGI_FORMAT_D16_UNORM :: "32 word" where "DXGI_FORMAT_D16_UNORM \<equiv> 55"
abbreviation (input) DXGI_FORMAT_R16_UNORM :: "32 word" where "DXGI_FORMAT_R16_UNORM \<equiv> 56"
abbreviation (input) DXGI_FORMAT_R16_UINT :: "32 word" where "DXGI_FORMAT_R16_UINT \<equiv> 57"
abbreviation (input) DXGI_FORMAT_R16_SNORM :: "32 word" where "DXGI_FORMAT_R16_SNORM \<equiv> 58"
abbreviation (input) DXGI_FORMAT_R16_SINT :: "32 word" where "DXGI_FORMAT_R16_SINT \<equiv> 59"
abbreviation (input) DXGI_FORMAT_R8_TYPELESS :: "32 word" where "DXGI_FORMAT_R8_TYPELESS \<equiv> 60"
abbreviation (input) DXGI_FORMAT_R8_UNORM :: "32 word" where "DXGI_FORMAT_R8_UNORM \<equiv> 61"
abbreviation (input) DXGI_FORMAT_R8_UINT :: "32 word" where "DXGI_FORMAT_R8_UINT \<equiv> 62"
abbreviation (input) DXGI_FORMAT_R8_SNORM :: "32 word" where "DXGI_FORMAT_R8_SNORM \<equiv> 63"
abbreviation (input) DXGI_FORMAT_R8_SINT :: "32 word" where "DXGI_FORMAT_R8_SINT \<equiv> 64"
abbreviation (input) DXGI_FORMAT_A8_UNORM :: "32 word" where "DXGI_FORMAT_A8_UNORM \<equiv> 65"
abbreviation (input) DXGI_FORMAT_R1_UNORM :: "32 word" where "DXGI_FORMAT_R1_UNORM \<equiv> 66"
abbreviation (input) DXGI_FORMAT_R9G9B9E5_SHAREDEXP :: "32 word" where "DXGI_FORMAT_R9G9B9E5_SHAREDEXP \<equiv> 67"
abbreviation (input) DXGI_FORMAT_R8G8_B8G8_UNORM :: "32 word" where "DXGI_FORMAT_R8G8_B8G8_UNORM \<equiv> 68"
abbreviation (input) DXGI_FORMAT_G8R8_G8B8_UNORM :: "32 word" where "DXGI_FORMAT_G8R8_G8B8_UNORM \<equiv> 69"
abbreviation (input) DXGI_FORMAT_BC1_TYPELESS :: "32 word" where "DXGI_FORMAT_BC1_TYPELESS \<equiv> 70"
abbreviation (input) DXGI_FORMAT_BC1_UNORM :: "32 word" where "DXGI_FORMAT_BC1_UNORM \<equiv> 71"
abbreviation (input) DXGI_FORMAT_BC1_UNORM_SRGB :: "32 word" where "DXGI_FORMAT_BC1_UNORM_SRGB \<equiv> 72"
abbreviation (input) DXGI_FORMAT_BC2_TYPELESS :: "32 word" where "DXGI_FORMAT_BC2_TYPELESS \<equiv> 73"
abbreviation (input) DXGI_FORMAT_BC2_UNORM :: "32 word" where "DXGI_FORMAT_BC2_UNORM \<equiv> 74"
abbreviation (input) DXGI_FORMAT_BC2_UNORM_SRGB :: "32 word" where "DXGI_FORMAT_BC2_UNORM_SRGB \<equiv> 75"
abbreviation (input) DXGI_FORMAT_BC3_TYPELESS :: "32 word" where "DXGI_FORMAT_BC3_TYPELESS \<equiv> 76"
abbreviation (input) DXGI_FORMAT_BC3_UNORM :: "32 word" where "DXGI_FORMAT_BC3_UNORM \<equiv> 77"
abbreviation (input) DXGI_FORMAT_BC3_UNORM_SRGB :: "32 word" where "DXGI_FORMAT_BC3_UNORM_SRGB \<equiv> 78"
abbreviation (input) DXGI_FORMAT_BC4_TYPELESS :: "32 word" where "DXGI_FORMAT_BC4_TYPELESS \<equiv> 79"
abbreviation (input) DXGI_FORMAT_BC4_UNORM :: "32 word" where "DXGI_FORMAT_BC4_UNORM \<equiv> 80"
abbreviation (input) DXGI_FORMAT_BC4_SNORM :: "32 word" where "DXGI_FORMAT_BC4_SNORM \<equiv> 81"
abbreviation (input) DXGI_FORMAT_BC5_TYPELESS :: "32 word" where "DXGI_FORMAT_BC5_TYPELESS \<equiv> 82"
abbreviation (input) DXGI_FORMAT_BC5_UNORM :: "32 word" where "DXGI_FORMAT_BC5_UNORM \<equiv> 83"
abbreviation (input) DXGI_FORMAT_BC5_SNORM :: "32 word" where "DXGI_FORMAT_BC5_SNORM \<equiv> 84"
abbreviation (input) DXGI_FORMAT_B5G6R5_UNORM :: "32 word" where "DXGI_FORMAT_B5G6R5_UNORM \<equiv> 85"
abbreviation (input) DXGI_FORMAT_B5G5R5A1_UNORM :: "32 word" where "DXGI_FORMAT_B5G5R5A1_UNORM \<equiv> 86"
abbreviation (input) DXGI_FORMAT_B8G8R8A8_UNORM :: "32 word" where "DXGI_FORMAT_B8G8R8A8_UNORM \<equiv> 87"
abbreviation (input) DXGI_FORMAT_B8G8R8X8_UNORM :: "32 word" where "DXGI_FORMAT_B8G8R8X8_UNORM \<equiv> 88"
abbreviation (input) DXGI_FORMAT_R10G10B10_XR_BIAS_A2_UNORM :: "32 word" where "DXGI_FORMAT_R10G10B10_XR_BIAS_A2_UNORM \<equiv> 89"
abbreviation (input) DXGI_FORMAT_B8G8R8A8_TYPELESS :: "32 word" where "DXGI_FORMAT_B8G8R8A8_TYPELESS \<equiv> 90"
abbreviation (input) DXGI_FORMAT_B8G8R8A8_UNORM_SRGB :: "32 word" where "DXGI_FORMAT_B8G8R8A8_UNORM_SRGB \<equiv> 91"
abbreviation (input) DXGI_FORMAT_B8G8R8X8_TYPELESS :: "32 word" where "DXGI_FORMAT_B8G8R8X8_TYPELESS \<equiv> 92"
abbreviation (input) DXGI_FORMAT_B8G8R8X8_UNORM_SRGB :: "32 word" where "DXGI_FORMAT_B8G8R8X8_UNORM_SRGB \<equiv> 93"
abbreviation (input) DXGI_FORMAT_BC6H_TYPELESS :: "32 word" where "DXGI_FORMAT_BC6H_TYPELESS \<equiv> 94"
abbreviation (input) DXGI_FORMAT_BC6H_UF16 :: "32 word" where "DXGI_FORMAT_BC6H_UF16 \<equiv> 95"
abbreviation (input) DXGI_FORMAT_BC6H_SF16 :: "32 word" where "DXGI_FORMAT_BC6H_SF16 \<equiv> 96"
abbreviation (input) DXGI_FORMAT_BC7_TYPELESS :: "32 word" where "DXGI_FORMAT_BC7_TYPELESS \<equiv> 97"
abbreviation (input) DXGI_FORMAT_BC7_UNORM :: "32 word" where "DXGI_FORMAT_BC7_UNORM \<equiv> 98"
abbreviation (input) DXGI_FORMAT_BC7_UNORM_SRGB :: "32 word" where "DXGI_FORMAT_BC7_UNORM_SRGB \<equiv> 99"
abbreviation (input) DXGI_FORMAT_AYUV :: "32 word" where "DXGI_FORMAT_AYUV \<equiv> 100"
abbreviation (input) DXGI_FORMAT_Y410 :: "32 word" where "DXGI_FORMAT_Y410 \<equiv> 101"
abbreviation (input) DXGI_FORMAT_Y416 :: "32 word" where "DXGI_FORMAT_Y416 \<equiv> 102"
abbreviation (input) DXGI_FORMAT_NV12 :: "32 word" where "DXGI_FORMAT_NV12 \<equiv> 103"
abbreviation (input) DXGI_FORMAT_P010 :: "32 word" where "DXGI_FORMAT_P010 \<equiv> 104"
abbreviation (input) DXGI_FORMAT_P016 :: "32 word" where "DXGI_FORMAT_P016 \<equiv> 105"
abbreviation (input) DXGI_FORMAT_420_OPAQUE :: "32 word" where "DXGI_FORMAT_420_OPAQUE \<equiv> 106"
abbreviation (input) DXGI_FORMAT_YUY2 :: "32 word" where "DXGI_FORMAT_YUY2 \<equiv> 107"
abbreviation (input) DXGI_FORMAT_Y210 :: "32 word" where "DXGI_FORMAT_Y210 \<equiv> 108"
abbreviation (input) DXGI_FORMAT_Y216 :: "32 word" where "DXGI_FORMAT_Y216 \<equiv> 109"
abbreviation (input) DXGI_FORMAT_NV11 :: "32 word" where "DXGI_FORMAT_NV11 \<equiv> 110"
abbreviation (input) DXGI_FORMAT_AI44 :: "32 word" where "DXGI_FORMAT_AI44 \<equiv> 111"
abbreviation (input) DXGI_FORMAT_IA44 :: "32 word" where "DXGI_FORMAT_IA44 \<equiv> 112"
abbreviation (input) DXGI_FORMAT_P8 :: "32 word" where "DXGI_FORMAT_P8 \<equiv> 113"
abbreviation (input) DXGI_FORMAT_A8P8 :: "32 word" where "DXGI_FORMAT_A8P8 \<equiv> 114"
abbreviation (input) DXGI_FORMAT_B4G4R4A4_UNORM :: "32 word" where "DXGI_FORMAT_B4G4R4A4_UNORM \<equiv> 115"
abbreviation (input) DXGI_FORMAT_P208 :: "32 word" where "DXGI_FORMAT_P208 \<equiv> 130"
abbreviation (input) DXGI_FORMAT_V208 :: "32 word" where "DXGI_FORMAT_V208 \<equiv> 131"
abbreviation (input) DXGI_FORMAT_V408 :: "32 word" where "DXGI_FORMAT_V408 \<equiv> 132"
abbreviation (input) D3D12_HEAP_TYPE_DEFAULT :: "32 word" where "D3D12_HEAP_TYPE_DEFAULT \<equiv> 1"
abbreviation (input) D3D12_HEAP_TYPE_UPLOAD :: "32 word" where "D3D12_HEAP_TYPE_UPLOAD \<equiv> 2"
abbreviation (input) D3D12_HEAP_TYPE_READBACK :: "32 word" where "D3D12_HEAP_TYPE_READBACK \<equiv> 3"
abbreviation (input) D3D12_HEAP_TYPE_CUSTOM :: "32 word" where "D3D12_HEAP_TYPE_CUSTOM \<equiv> 4"
abbreviation (input) D3D12_CPU_PAGE_PROPERTY_UNKNOWN :: "32 word" where "D3D12_CPU_PAGE_PROPERTY_UNKNOWN \<equiv> 0"
abbreviation (input) D3D12_CPU_PAGE_PROPERTY_NOT_AVAILABLE :: "32 word" where "D3D12_CPU_PAGE_PROPERTY_NOT_AVAILABLE \<equiv> 1"
abbreviation (input) D3D12_CPU_PAGE_PROPERTY_WRITE_COMBINE :: "32 word" where "D3D12_CPU_PAGE_PROPERTY_WRITE_COMBINE \<equiv> 2"
abbreviation (input) D3D12_CPU_PAGE_PROPERTY_WRITE_BACK :: "32 word" where "D3D12_CPU_PAGE_PROPERTY_WRITE_BACK \<equiv> 3"
abbreviation (input) D3D12_MEMORY_POOL_UNKNOWN :: "32 word" where "D3D12_MEMORY_POOL_UNKNOWN \<equiv> 0"
abbreviation (input) D3D12_MEMORY_POOL_L0 :: "32 word" where "D3D12_MEMORY_POOL_L0 \<equiv> 1"
abbreviation (input) D3D12_MEMORY_POOL_L1 :: "32 word" where "D3D12_MEMORY_POOL_L1 \<equiv> 2"
abbreviation (input) D3D12_RESOURCE_DIMENSION_UNKNOWN :: "32 word" where "D3D12_RESOURCE_DIMENSION_UNKNOWN \<equiv> 0"
abbreviation (input) D3D12_RESOURCE_DIMENSION_BUFFER :: "32 word" where "D3D12_RESOURCE_DIMENSION_BUFFER \<equiv> 1"
abbreviation (input) D3D12_RESOURCE_DIMENSION_TEXTURE1D :: "32 word" where "D3D12_RESOURCE_DIMENSION_TEXTURE1D \<equiv> 2"
abbreviation (input) D3D12_RESOURCE_DIMENSION_TEXTURE2D :: "32 word" where "D3D12_RESOURCE_DIMENSION_TEXTURE2D \<equiv> 3"
abbreviation (input) D3D12_RESOURCE_DIMENSION_TEXTURE3D :: "32 word" where "D3D12_RESOURCE_DIMENSION_TEXTURE3D \<equiv> 4"
abbreviation (input) D3D12_TEXTURE_LAYOUT_UNKNOWN :: "32 word" where "D3D12_TEXTURE_LAYOUT_UNKNOWN \<equiv> 0"
abbreviation (input) D3D12_TEXTURE_LAYOUT_ROW_MAJOR :: "32 word" where "D3D12_TEXTURE_LAYOUT_ROW_MAJOR \<equiv> 1"
abbreviation (input) D3D12_TEXTURE_LAYOUT_64KB_UNDEFINED_SWIZZLE :: "32 word" where "D3D12_TEXTURE_LAYOUT_64KB_UNDEFINED_SWIZZLE \<equiv> 2"
abbreviation (input) D3D12_TEXTURE_LAYOUT_64KB_STANDARD_SWIZZLE :: "32 word" where "D3D12_TEXTURE_LAYOUT_64KB_STANDARD_SWIZZLE \<equiv> 3"
abbreviation (input) D3D12_RESOURCE_FLAG_NONE :: "32 word" where "D3D12_RESOURCE_FLAG_NONE \<equiv> 0"
abbreviation (input) D3D12_RESOURCE_FLAG_ALLOW_RENDER_TARGET :: "32 word" where "D3D12_RESOURCE_FLAG_ALLOW_RENDER_TARGET \<equiv> 1"
abbreviation (input) D3D12_RESOURCE_FLAG_ALLOW_DEPTH_STENCIL :: "32 word" where "D3D12_RESOURCE_FLAG_ALLOW_DEPTH_STENCIL \<equiv> 2"
abbreviation (input) D3D12_RESOURCE_FLAG_ALLOW_UNORDERED_ACCESS :: "32 word" where "D3D12_RESOURCE_FLAG_ALLOW_UNORDERED_ACCESS \<equiv> 4"
abbreviation (input) D3D12_RESOURCE_FLAG_DENY_SHADER_RESOURCE :: "32 word" where "D3D12_RESOURCE_FLAG_DENY_SHADER_RESOURCE \<equiv> 8"
abbreviation (input) D3D12_RESOURCE_FLAG_ALLOW_CROSS_ADAPTER :: "32 word" where "D3D12_RESOURCE_FLAG_ALLOW_CROSS_ADAPTER \<equiv> 0x10"
abbreviation (input) D3D12_RESOURCE_FLAG_ALLOW_SIMULTANEOUS_ACCESS :: "32 word" where "D3D12_RESOURCE_FLAG_ALLOW_SIMULTANEOUS_ACCESS \<equiv> 0x20"
abbreviation (input) D3D12_HEAP_FLAG_NONE :: "32 word" where "D3D12_HEAP_FLAG_NONE \<equiv> 0"
abbreviation (input) D3D12_HEAP_FLAG_SHARED :: "32 word" where "D3D12_HEAP_FLAG_SHARED \<equiv> 1"
abbreviation (input) D3D12_HEAP_FLAG_DENY_BUFFERS :: "32 word" where "D3D12_HEAP_FLAG_DENY_BUFFERS \<equiv> 4"
abbreviation (input) D3D12_HEAP_FLAG_ALLOW_DISPLAY :: "32 word" where "D3D12_HEAP_FLAG_ALLOW_DISPLAY \<equiv> 8"
abbreviation (input) D3D12_HEAP_FLAG_SHARED_CROSS_ADAPTER :: "32 word" where "D3D12_HEAP_FLAG_SHARED_CROSS_ADAPTER \<equiv> 0x20"
abbreviation (input) D3D12_HEAP_FLAG_DENY_RT_DS_TEXTURES :: "32 word" where "D3D12_HEAP_FLAG_DENY_RT_DS_TEXTURES \<equiv> 0x40"
abbreviation (input) D3D12_HEAP_FLAG_DENY_NON_RT_DS_TEXTURES :: "32 word" where "D3D12_HEAP_FLAG_DENY_NON_RT_DS_TEXTURES \<equiv> 0x80"
abbreviation (input) D3D12_HEAP_FLAG_ALLOW_ALL_BUFFERS_AND_TEXTURES :: "32 word" where "D3D12_HEAP_FLAG_ALLOW_ALL_BUFFERS_AND_TEXTURES \<equiv> 0"
abbreviation (input) D3D12_HEAP_FLAG_ALLOW_ONLY_BUFFERS :: "32 word" where "D3D12_HEAP_FLAG_ALLOW_ONLY_BUFFERS \<equiv> 0xC0"
abbreviation (input) D3D12_HEAP_FLAG_ALLOW_ONLY_NON_RT_DS_TEXTURES :: "32 word" where "D3D12_HEAP_FLAG_ALLOW_ONLY_NON_RT_DS_TEXTURES \<equiv> 0x44"
abbreviation (input) D3D12_HEAP_FLAG_ALLOW_ONLY_RT_DS_TEXTURES :: "32 word" where "D3D12_HEAP_FLAG_ALLOW_ONLY_RT_DS_TEXTURES \<equiv> 0x84"
abbreviation (input) D3D12_RESOURCE_STATE_COMMON :: "32 word" where "D3D12_RESOURCE_STATE_COMMON \<equiv> 0"
abbreviation (input) D3D12_RESOURCE_STATE_VERTEX_AND_CONSTANT_BUFFER :: "32 word" where "D3D12_RESOURCE_STATE_VERTEX_AND_CONSTANT_BUFFER \<equiv> 1"
abbreviation (input) D3D12_RESOURCE_STATE_INDEX_BUFFER :: "32 word" where "D3D12_RESOURCE_STATE_INDEX_BUFFER \<equiv> 2"
abbreviation (input) D3D12_RESOURCE_STATE_RENDER_TARGET :: "32 word" where "D3D12_RESOURCE_STATE_RENDER_TARGET \<equiv> 4"
abbreviation (input) D3D12_RESOURCE_STATE_UNORDERED_ACCESS :: "32 word" where "D3D12_RESOURCE_STATE_UNORDERED_ACCESS \<equiv> 8"
abbreviation (input) D3D12_RESOURCE_STATE_DEPTH_WRITE :: "32 word" where "D3D12_RESOURCE_STATE_DEPTH_WRITE \<equiv> 0x10"
abbreviation (input) D3D12_RESOURCE_STATE_DEPTH_READ :: "32 word" where "D3D12_RESOURCE_STATE_DEPTH_READ \<equiv> 0x20"
abbreviation (input) D3D12_RESOURCE_STATE_NON_PIXEL_SHADER_RESOURCE :: "32 word" where "D3D12_RESOURCE_STATE_NON_PIXEL_SHADER_RESOURCE \<equiv> 0x40"
abbreviation (input) D3D12_RESOURCE_STATE_PIXEL_SHADER_RESOURCE :: "32 word" where "D3D12_RESOURCE_STATE_PIXEL_SHADER_RESOURCE \<equiv> 0x80"
abbreviation (input) D3D12_RESOURCE_STATE_STREAM_OUT :: "32 word" where "D3D12_RESOURCE_STATE_STREAM_OUT \<equiv> 0x100"
abbreviation (input) D3D12_RESOURCE_STATE_INDIRECT_ARGUMENT :: "32 word" where "D3D12_RESOURCE_STATE_INDIRECT_ARGUMENT \<equiv> 0x200"
abbreviation (input) D3D12_RESOURCE_STATE_COPY_DEST :: "32 word" where "D3D12_RESOURCE_STATE_COPY_DEST \<equiv> 0x400"
abbreviation (input) D3D12_RESOURCE_STATE_COPY_SOURCE :: "32 word" where "D3D12_RESOURCE_STATE_COPY_SOURCE \<equiv> 0x800"
abbreviation (input) D3D12_RESOURCE_STATE_RESOLVE_DEST :: "32 word" where "D3D12_RESOURCE_STATE_RESOLVE_DEST \<equiv> 0x1000"
abbreviation (input) D3D12_RESOURCE_STATE_RESOLVE_SOURCE :: "32 word" where "D3D12_RESOURCE_STATE_RESOLVE_SOURCE \<equiv> 0x2000"
abbreviation (input) D3D12_RESOURCE_STATE_GENERIC_READ :: "32 word" where "D3D12_RESOURCE_STATE_GENERIC_READ \<equiv> 0xAC3"
abbreviation (input) D3D12_RESOURCE_STATE_PRESENT :: "32 word" where "D3D12_RESOURCE_STATE_PRESENT \<equiv> 0"
abbreviation (input) D3D12_RESOURCE_STATE_PREDICATION :: "32 word" where "D3D12_RESOURCE_STATE_PREDICATION \<equiv> 0x200"
abbreviation (input) D3D12_DESCRIPTOR_HEAP_TYPE_CBV_SRV_UAV :: "32 word" where "D3D12_DESCRIPTOR_HEAP_TYPE_CBV_SRV_UAV \<equiv> 0"
abbreviation (input) D3D12_DESCRIPTOR_HEAP_TYPE_SAMPLER :: "32 word" where "D3D12_DESCRIPTOR_HEAP_TYPE_SAMPLER \<equiv> 1"
abbreviation (input) D3D12_DESCRIPTOR_HEAP_TYPE_RTV :: "32 word" where "D3D12_DESCRIPTOR_HEAP_TYPE_RTV \<equiv> 2"
abbreviation (input) D3D12_DESCRIPTOR_HEAP_TYPE_DSV :: "32 word" where "D3D12_DESCRIPTOR_HEAP_TYPE_DSV \<equiv> 3"
abbreviation (input) D3D12_DESCRIPTOR_HEAP_FLAG_NONE :: "32 word" where "D3D12_DESCRIPTOR_HEAP_FLAG_NONE \<equiv> 0"
abbreviation (input) D3D12_DESCRIPTOR_HEAP_FLAG_SHADER_VISIBLE :: "32 word" where "D3D12_DESCRIPTOR_HEAP_FLAG_SHADER_VISIBLE \<equiv> 1"
abbreviation (input) D3D12_UAV_DIMENSION_UNKNOWN :: "32 word" where "D3D12_UAV_DIMENSION_UNKNOWN \<equiv> 0"
abbreviation (input) D3D12_UAV_DIMENSION_BUFFER :: "32 word" where "D3D12_UAV_DIMENSION_BUFFER \<equiv> 1"
abbreviation (input) D3D12_UAV_DIMENSION_TEXTURE1D :: "32 word" where "D3D12_UAV_DIMENSION_TEXTURE1D \<equiv> 2"
abbreviation (input) D3D12_UAV_DIMENSION_TEXTURE1DARRAY :: "32 word" where "D3D12_UAV_DIMENSION_TEXTURE1DARRAY \<equiv> 3"
abbreviation (input) D3D12_UAV_DIMENSION_TEXTURE2D :: "32 word" where "D3D12_UAV_DIMENSION_TEXTURE2D \<equiv> 4"
abbreviation (input) D3D12_UAV_DIMENSION_TEXTURE2DARRAY :: "32 word" where "D3D12_UAV_DIMENSION_TEXTURE2DARRAY \<equiv> 5"
abbreviation (input) D3D12_UAV_DIMENSION_TEXTURE3D :: "32 word" where "D3D12_UAV_DIMENSION_TEXTURE3D \<equiv> 8"
abbreviation (input) D3D12_BUFFER_UAV_FLAG_NONE :: "32 word" where "D3D12_BUFFER_UAV_FLAG_NONE \<equiv> 0"
abbreviation (input) D3D12_BUFFER_UAV_FLAG_RAW :: "32 word" where "D3D12_BUFFER_UAV_FLAG_RAW \<equiv> 1"
abbreviation (input) D3D12_APPEND_ALIGNED_ELEMENT :: "32 word" where "D3D12_APPEND_ALIGNED_ELEMENT \<equiv> 0xFFFFFFFF"

section \<open>Name tables\<close>

datatype ParserEnumKind =
    INPUT_CLASSIFICATION
  | DXGI_FORMAT
  | HEAP_TYPE
  | CPU_PAGE_PROPERTY
  | MEMORY_POOL
  | RESOURCE_DIMENSION
  | TEXTURE_LAYOUT
  | RESOURCE_FLAG
  | HEAP_FLAG
  | RESOURCE_STATE
  | DESCRIPTOR_HEAP_TYPE
  | DESCRIPTOR_HEAP_FLAG
  | UAV_DIMENSION

type_synonym ParserEnumValue = "string \<times> 32 word"

type_synonym ParserEnumTable = "ParserEnumValue list \<times> ParserEnumKind"

definition INPUT_CLASSIFICATION_TABLE :: "ParserEnumValue list" where
  "INPUT_CLASSIFICATION_TABLE =
     [(''INSTANCE'', D3D12_INPUT_CLASSIFICATION_PER_INSTANCE_DATA),
      (''VERTEX'', D3D12_INPUT_CLASSIFICATION_PER_VERTEX_DATA)]"

definition DXGI_FORMAT_TABLE :: "ParserEnumValue list" where
  "DXGI_FORMAT_TABLE =
     [(''UNKNOWN'', DXGI_FORMAT_UNKNOWN),
      (''R32G32B32A32_TYPELESS'', DXGI_FORMAT_R32G32B32A32_TYPELESS),
      (''R32G32B32A32_FLOAT'', DXGI_FORMAT_R32G32B32A32_FLOAT),
      (''R32G32B32A32_UINT'', DXGI_FORMAT_R32G32B32A32_UINT),
      (''R32G32B32A32_SINT'', DXGI_FORMAT_R32G32B32A32_SINT),
      (''R32G32B32_TYPELESS'', DXGI_FORMAT_R32G32B32_TYPELESS),
      (''R32G32B32_FLOAT'', DXGI_FORMAT_R32G32B32_FLOAT),
      (''R32G32B32_UINT'', DXGI_FORMAT_R32G32B32_UINT),
      (''R32G32B32_SINT'', DXGI_FORMAT_R32G32B32_SINT),
      (''R16G16B16A16_TYPELESS'', DXGI_FORMAT_R16G16B16A16_TYPELESS),
      (''R16G16B16A16_FLOAT'', DXGI_FORMAT_R16G16B16A16_FLOAT),
      (''R16G16B16A16_UNORM'', DXGI_FORMAT_R16G16B16A16_UNORM),
      (''R16G16B16A16_UINT'', DXGI_FORMAT_R16G16B16A16_UINT),
      (''R16G16B16A16_SNORM'', DXGI_FORMAT_R16G16B16A16_SNORM),
      (''R16G16B16A16_SINT'', DXGI_FORMAT_R16G16B16A16_SINT),
      (''R32G32_TYPELESS'', DXGI_FORMAT_R32G32_TYPELESS),
      (''R32G32_FLOAT'', DXGI_FORMAT_R32G32_FLOAT),
      (''R32G32_UINT'', DXGI_FORMAT_R32G32_UINT),
      (''R32G32_SINT'', DXGI_FORMAT_R32G32_SINT),
      (''R32G8X24_TYPELESS'', DXGI_FORMAT_R32G8X24_TYPELESS),
      (''D32_FLOAT_S8X24_UINT'', DXGI_FORMAT_D32_FLOAT_S8X24_UINT),
      (''R32_FLOAT_X8X24_TYPELESS'', DXGI_FORMAT_R32_FLOAT_X8X24_TYPELESS),
      (''X32_TYPELESS_G8X24_UINT'', DXGI_FORMAT_X32_TYPELESS_G8X24_UINT),
      (''R10G10B10A2_TYPELESS'', DXGI_FORMAT_R10G10B10A2_TYPELESS),
      (''R10G10B10A2_UNORM'', DXGI_FORMAT_R10G10B10A2_UNORM),
      (''R10G10B10A2_UINT'', DXGI_FORMAT_R10G10B10A2_UINT),
      (''R11G11B10_FLOAT'', DXGI_FORMAT_R11G11B10_FLOAT),
      (''R8G8B8A8_TYPELESS'', DXGI_FORMAT_R8G8B8A8_TYPELESS),
      (''R8G8B8A8_UNORM'', DXGI_FORMAT_R8G8B8A8_UNORM),
      (''R8G8B8A8_UNORM_SRGB'', DXGI_FORMAT_R8G8B8A8_UNORM_SRGB),
      (''R8G8B8A8_UINT'', DXGI_FORMAT_R8G8B8A8_UINT),
      (''R8G8B8A8_SNORM'', DXGI_FORMAT_R8G8B8A8_SNORM),
      (''R8G8B8A8_SINT'', DXGI_FORMAT_R8G8B8A8_SINT),
      (''R16G16_TYPELESS'', DXGI_FORMAT_R16G16_TYPELESS),
      (''R16G16_FLOAT'', DXGI_FORMAT_R16G16_FLOAT),
      (''R16G16_UNORM'', DXGI_FORMAT_R16G16_UNORM),
      (''R16G16_UINT'', DXGI_FORMAT_R16G16_UINT),
      (''R16G16_SNORM'', DXGI_FORMAT_R16G16_SNORM),
      (''R16G16_SINT'', DXGI_FORMAT_R16G16_SINT),
      (''R32_TYPELESS'', DXGI_FORMAT_R32_TYPELESS),
      (''D32_FLOAT'', DXGI_FORMAT_D32_FLOAT),
      (''R32_FLOAT'', DXGI_FORMAT_R32_FLOAT),
      (''R32_UINT'', DXGI_FORMAT_R32_UINT),
      (''R32_SINT'', DXGI_FORMAT_R32_SINT),
      (''R24G8_TYPELESS'', DXGI_FORMAT_R24G8_TYPELESS),
      (''D24_UNORM_S8_UINT'', DXGI_FORMAT_D24_UNORM_S8_UINT),
      (''R24_UNORM_X8_TYPELESS'', DXGI_FORMAT_R24_UNORM_X8_TYPELESS),
      (''X24_TYPELESS_G8_UINT'', DXGI_FORMAT_X24_TYPELESS_G8_UINT),
      (''R8G8_TYPELESS'', DXGI_FORMAT_R8G8_TYPELESS),
      (''R8G8_UNORM'', DXGI_FORMAT_R8G8_UNORM),
      (''R8G8_UINT'', DXGI_FORMAT_R8G8_UINT),
      (''R8G8_SNORM'', DXGI_FORMAT_R8G8_SNORM),
      (''R8G8_SINT'', DXGI_FORMAT_R8G8_SINT),
      (''R16_TYPELESS'', DXGI_FORMAT_R16_TYPELESS),
      (''R16_FLOAT'', DXGI_FORMAT_R16_FLOAT),
      (''D16_UNORM'', DXGI_FORMAT_D16_UNORM),
      (''R16_UNORM'', DXGI_FORMAT_R16_UNORM),
      (''R16_UINT'', DXGI_FORMAT_R16_UINT),
      (''R16_SNORM'', DXGI_FORMAT_R16_SNORM),
      (''R16_SINT'', DXGI_FORMAT_R16_SINT),
      (''R8_TYPELESS'', DXGI_FORMAT_R8_TYPELESS),
      (''R8_UNORM'', DXGI_FORMAT_R8_UNORM),
      (''R8_UINT'', DXGI_FORMAT_R8_UINT),
      (''R8_SNORM'', DXGI_FORMAT_R8_SNORM),
      (''R8_SINT'', DXGI_FORMAT_R8_SINT),
      (''A8_UNORM'', DXGI_FORMAT_A8_UNORM),
      (''R1_UNORM'', DXGI_FORMAT_R1_UNORM),
      (''R9G9B9E5_SHAREDEXP'', DXGI_FORMAT_R9G9B9E5_SHAREDEXP),
      (''R8G8_B8G8_UNORM'', DXGI_FORMAT_R8G8_B8G8_UNORM),
      (''G8R8_G8B8_UNORM'', DXGI_FORMAT_G8R8_G8B8_UNORM),
      (''BC1_TYPELESS'', DXGI_FORMAT_BC1_TYPELESS),
      (''BC1_UNORM'', DXGI_FORMAT_BC1_UNORM),
      (''BC1_UNORM_SRGB'', DXGI_FORMAT_BC1_UNORM_SRGB),
      (''BC2_TYPELESS'', DXGI_FORMAT_BC2_TYPELESS),
      (''BC2_UNORM'', DXGI_FORMAT_BC2_UNORM),
      (''BC2_UNORM_SRGB'', DXGI_FORMAT_BC2_UNORM_SRGB),
      (''BC3_TYPELESS'', DXGI_FORMAT_BC3_TYPELESS),
      (''BC3_UNORM'', DXGI_FORMAT_BC3_UNORM),
      (''BC3_UNORM_SRGB'', DXGI_FORMAT_BC3_UNORM_SRGB),
      (''BC4_TYPELESS'', DXGI_FORMAT_BC4_TYPELESS),
      (''BC4_UNORM'', DXGI_FORMAT_BC4_UNORM),
      (''BC4_SNORM'', DXGI_FORMAT_BC4_SNORM),
      (''BC5_TYPELESS'', DXGI_FORMAT_BC5_TYPELESS),
      (''BC5_UNORM'', DXGI_FORMAT_BC5_UNORM),
      (''BC5_SNORM'', DXGI_FORMAT_BC5_SNORM),
      (''B5G6R5_UNORM'', DXGI_FORMAT_B5G6R5_UNORM),
      (''B5G5R5A1_UNORM'', DXGI_FORMAT_B5G5R5A1_UNORM),
      (''B8G8R8A8_UNORM'', DXGI_FORMAT_B8G8R8A8_UNORM),
      (''B8G8R8X8_UNORM'', DXGI_FORMAT_B8G8R8X8_UNORM),
      (''R10G10B10_XR_BIAS_A2_UNORM'', DXGI_FORMAT_R10G10B10_XR_BIAS_A2_UNORM),
      (''B8G8R8A8_TYPELESS'', DXGI_FORMAT_B8G8R8A8_TYPELESS),
      (''B8G8R8A8_UNORM_SRGB'', DXGI_FORMAT_B8G8R8A8_UNORM_SRGB),
      (''B8G8R8X8_TYPELESS'', DXGI_FORMAT_B8G8R8X8_TYPELESS),
      (''B8G8R8X8_UNORM_SRGB'', DXGI_FORMAT_B8G8R8X8_UNORM_SRGB),
      (''BC6H_TYPELESS'', DXGI_FORMAT_BC6H_TYPELESS),
      (''BC6H_UF16'', DXGI_FORMAT_BC6H_UF16),
      (''BC6H_SF16'', DXGI_FORMAT_BC6H_SF16),
      (''BC7_TYPELESS'', DXGI_FORMAT_BC7_TYPELESS),
      (''BC7_UNORM'', DXGI_FORMAT_BC7_UNORM),
      (''BC7_UNORM_SRGB'', DXGI_FORMAT_BC7_UNORM_SRGB),
      (''AYUV'', DXGI_FORMAT_AYUV),
      (''Y410'', DXGI_FORMAT_Y410),
      (''Y416'', DXGI_FORMAT_Y416),
      (''NV12'', DXGI_FORMAT_NV12),
      (''P010'', DXGI_FORMAT_P010),
      (''P016'', DXGI_FORMAT_P016),
      (''420_OPAQUE'', DXGI_FORMAT_420_OPAQUE),
      (''YUY2'', DXGI_FORMAT_YUY2),
      (''Y210'', DXGI_FORMAT_Y210),
      (''Y216'', DXGI_FORMAT_Y216),
      (''NV11'', DXGI_FORMAT_NV11),
      (''AI44'', DXGI_FORMAT_AI44),
      (''IA44'', DXGI_FORMAT_IA44),
      (''P8'', DXGI_FORMAT_P8),
      (''A8P8'', DXGI_FORMAT_A8P8),
      (''B4G4R4A4_UNORM'', DXGI_FORMAT_B4G4R4A4_UNORM),
      (''P208'', DXGI_FORMAT_P208),
      (''V208'', DXGI_FORMAT_V208),
      (''V408'', DXGI_FORMAT_V408)]"

definition HEAP_TYPE_TABLE :: "ParserEnumValue list" where
  "HEAP_TYPE_TABLE =
     [(''DEFAULT'', D3D12_HEAP_TYPE_DEFAULT),
      (''UPLOAD'', D3D12_HEAP_TYPE_UPLOAD),
      (''READBACK'', D3D12_HEAP_TYPE_READBACK),
      (''CUSTOM'', D3D12_HEAP_TYPE_CUSTOM)]"

definition CPU_PAGE_PROPERTY_TABLE :: "ParserEnumValue list" where
  "CPU_PAGE_PROPERTY_TABLE =
     [(''UNKNOWN'', D3D12_CPU_PAGE_PROPERTY_UNKNOWN),
      (''NOT_AVAILABLE'', D3D12_CPU_PAGE_PROPERTY_NOT_AVAILABLE),
      (''WRITE_COMBINE'', D3D12_CPU_PAGE_PROPERTY_WRITE_COMBINE),
      (''WRITE_BACK'', D3D12_CPU_PAGE_PROPERTY_WRITE_BACK)]"

definition MEMORY_POOL_TABLE :: "ParserEnumValue list" where
  "MEMORY_POOL_TABLE =
     [(''UNKNOWN'', D3D12_MEMORY_POOL_UNKNOWN),
      (''L0 '', D3D12_MEMORY_POOL_L0),
      (''L1'', D3D12_MEMORY_POOL_L1)]"

definition RESOURCE_DIMENSION_TABLE :: "ParserEnumValue list" where
  "RESOURCE_DIMENSION_TABLE =
     [(''UNKNOWN'', D3D12_RESOURCE_DIMENSION_UNKNOWN),
      (''BUFFER'', D3D12_RESOURCE_DIMENSION_BUFFER),
      (''TEXTURE1D'', D3D12_RESOURCE_DIMENSION_TEXTURE1D),
      (''TEXTURE2D'', D3D12_RESOURCE_DIMENSION_TEXTURE2D),
      (''TEXTURE3D'', D3D12_RESOURCE_DIMENSION_TEXTURE3D)]"

definition TEXTURE_LAYOUT_TABLE :: "ParserEnumValue list" where
  "TEXTURE_LAYOUT_TABLE =
     [(''UNKNOWN'', D3D12_TEXTURE_LAYOUT_UNKNOWN),
      (''ROW_MAJOR'', D3D12_TEXTURE_LAYOUT_ROW_MAJOR),
      (''UNDEFINED_SWIZZLE'', D3D12_TEXTURE_LAYOUT_64KB_UNDEFINED_SWIZZLE),
      (''STANDARD_SWIZZLE'', D3D12_TEXTURE_LAYOUT_64KB_STANDARD_SWIZZLE)]"

definition RESOURCE_FLAG_TABLE :: "ParserEnumValue list" where
  "RESOURCE_FLAG_TABLE =
     [(''NONE'', D3D12_RESOURCE_FLAG_NONE),
      (''ALLOW_RENDER_TARGET'', D3D12_RESOURCE_FLAG_ALLOW_RENDER_TARGET),
      (''ALLOW_DEPTH_STENCIL'', D3D12_RESOURCE_FLAG_ALLOW_DEPTH_STENCIL),
      (''ALLOW_UNORDERED_ACCESS'', D3D12_RESOURCE_FLAG_ALLOW_UNORDERED_ACCESS),
      (''DENY_SHADER_RESOURCE'', D3D12_RESOURCE_FLAG_DENY_SHADER_RESOURCE),
      (''ALLOW_CROSS_ADAPTER'', D3D12_RESOURCE_FLAG_ALLOW_CROSS_ADAPTER),
      (''ALLOW_SIMULTANEOUS_ACCESS'', D3D12_RESOURCE_FLAG_ALLOW_SIMULTANEOUS_ACCESS)]"

definition HEAP_FLAG_TABLE :: "ParserEnumValue list" where
  "HEAP_FLAG_TABLE =
     [(''NONE'', D3D12_HEAP_FLAG_NONE),
      (''SHARED'', D3D12_HEAP_FLAG_SHARED),
      (''DENY_BUFFERS'', D3D12_HEAP_FLAG_DENY_BUFFERS),
      (''ALLOW_DISPLAY'', D3D12_HEAP_FLAG_ALLOW_DISPLAY),
      (''SHARED_CROSS_ADAPTER'', D3D12_HEAP_FLAG_SHARED_CROSS_ADAPTER),
      (''DENY_RT_DS_TEXTURES'', D3D12_HEAP_FLAG_DENY_RT_DS_TEXTURES),
      (''DENY_NON_RT_DS_TEXTURES'', D3D12_HEAP_FLAG_DENY_NON_RT_DS_TEXTURES),
      (''ALLOW_ALL_BUFFERS_AND_TEXTURES'', D3D12_HEAP_FLAG_ALLOW_ALL_BUFFERS_AND_TEXTURES),
      (''ALLOW_ONLY_BUFFERS'', D3D12_HEAP_FLAG_ALLOW_ONLY_BUFFERS),
      (''ALLOW_ONLY_NON_RT_DS_TEXTURES'', D3D12_HEAP_FLAG_ALLOW_ONLY_NON_RT_DS_TEXTURES),
      (''ALLOW_ONLY_RT_DS_TEXTURES'', D3D12_HEAP_FLAG_ALLOW_ONLY_RT_DS_TEXTURES)]"

definition RESOURCE_STATE_TABLE :: "ParserEnumValue list" where
  "RESOURCE_STATE_TABLE =
     [(''COMMON'', D3D12_RESOURCE_STATE_COMMON),
      (''VERTEX_AND_CONSTANT_BUFFER'', D3D12_RESOURCE_STATE_VERTEX_AND_CONSTANT_BUFFER),
      (''INDEX_BUFFER'', D3D12_RESOURCE_STATE_INDEX_BUFFER),
      (''RENDER_TARGET'', D3D12_RESOURCE_STATE_RENDER_TARGET),
      (''UNORDERED_ACCESS'', D3D12_RESOURCE_STATE_UNORDERED_ACCESS),
      (''DEPTH_WRITE'', D3D12_RESOURCE_STATE_DEPTH_WRITE),
      (''DEPTH_READ'', D3D12_RESOURCE_STATE_DEPTH_READ),
      (''NON_PIXEL_SHADER_RESOURCE'', D3D12_RESOURCE_STATE_NON_PIXEL_SHADER_RESOURCE),
      (''PIXEL_SHADER_RESOURCE'', D3D12_RESOURCE_STATE_PIXEL_SHADER_RESOURCE),
      (''STREAM_OUT'', D3D12_RESOURCE_STATE_STREAM_OUT),
      (''INDIRECT_ARGUMENT'', D3D12_RESOURCE_STATE_INDIRECT_ARGUMENT),
      (''COPY_DEST'', D3D12_RESOURCE_STATE_COPY_DEST),
      (''COPY_SOURCE'', D3D12_RESOURCE_STATE_COPY_SOURCE),
      (''RESOLVE_DEST'', D3D12_RESOURCE_STATE_RESOLVE_DEST),
      (''RESOLVE_SOURCE'', D3D12_RESOURCE_STATE_RESOLVE_SOURCE),
      (''GENERIC_READ'', D3D12_RESOURCE_STATE_GENERIC_READ),
      (''PRESENT'', D3D12_RESOURCE_STATE_PRESENT),
      (''PREDICATION'', D3D12_RESOURCE_STATE_PREDICATION)]"

definition DESCRIPTOR_HEAP_TYPE_TABLE :: "ParserEnumValue list" where
  "DESCRIPTOR_HEAP_TYPE_TABLE =
     [(''CBV_SRV_UAV'', D3D12_DESCRIPTOR_HEAP_TYPE_CBV_SRV_UAV),
      (''SAMPLER'', D3D12_DESCRIPTOR_HEAP_TYPE_SAMPLER),
      (''RTV'', D3D12_DESCRIPTOR_HEAP_TYPE_RTV),
      (''DSV'', D3D12_DESCRIPTOR_HEAP_TYPE_DSV)]"

definition DESCRIPTOR_HEAP_FLAG_TABLE :: "ParserEnumValue list" where
  "DESCRIPTOR_HEAP_FLAG_TABLE =
     [(''NONE'', D3D12_DESCRIPTOR_HEAP_FLAG_NONE),
      (''SHADER_VISIBLE'', D3D12_DESCRIPTOR_HEAP_FLAG_SHADER_VISIBLE)]"

definition UAV_DIMENSION_TABLE :: "ParserEnumValue list" where
  "UAV_DIMENSION_TABLE =
     [(''UNKNOWN'', D3D12_UAV_DIMENSION_UNKNOWN),
      (''BUFFER'', D3D12_UAV_DIMENSION_BUFFER),
      (''TEXTURE1D'', D3D12_UAV_DIMENSION_TEXTURE1D),
      (''TEXTURE1DARRAY'', D3D12_UAV_DIMENSION_TEXTURE1DARRAY),
      (''TEXTURE2D'', D3D12_UAV_DIMENSION_TEXTURE2D),
      (''TEXTURE2DARRAY'', D3D12_UAV_DIMENSION_TEXTURE2DARRAY),
      (''TEXTURE3D'', D3D12_UAV_DIMENSION_TEXTURE3D)]"

definition g_ParserEnumTables :: "ParserEnumTable list" where
  "g_ParserEnumTables =
     [(INPUT_CLASSIFICATION_TABLE, INPUT_CLASSIFICATION),
      (DXGI_FORMAT_TABLE, DXGI_FORMAT),
      (HEAP_TYPE_TABLE, HEAP_TYPE),
      (CPU_PAGE_PROPERTY_TABLE, CPU_PAGE_PROPERTY),
      (MEMORY_POOL_TABLE, MEMORY_POOL),
      (RESOURCE_DIMENSION_TABLE, RESOURCE_DIMENSION),
      (TEXTURE_LAYOUT_TABLE, TEXTURE_LAYOUT),
      (RESOURCE_FLAG_TABLE, RESOURCE_FLAG),
      (HEAP_FLAG_TABLE, HEAP_FLAG),
      (RESOURCE_STATE_TABLE, RESOURCE_STATE),
      (DESCRIPTOR_HEAP_TYPE_TABLE, DESCRIPTOR_HEAP_TYPE),
      (DESCRIPTOR_HEAP_FLAG_TABLE, DESCRIPTOR_HEAP_FLAG),
      (UAV_DIMENSION_TABLE, UAV_DIMENSION)]"

text \<open>
  \<^verbatim>\<open>GetEnumValue\<close>: the inner loop over the values of one table, and the outer loop over
  the tables, which skips the tables of another kind. The first name that matches
  without regard to case gives the value; no match is \<^verbatim>\<open>E_INVALIDARG\<close>.
\<close>

fun GetEnumValue_values :: "string \<Rightarrow> ParserEnumValue list \<Rightarrow> 32 word option" where
  "GetEnumValue_values name [] = None"
| "GetEnumValue_values name ((Name, Value) # Values) =
     (if stricmp_eq name Name then Some Value else GetEnumValue_values name Values)"

fun GetEnumValue_tables ::
  "string \<Rightarrow> ParserEnumKind \<Rightarrow> ParserEnumTable list \<Rightarrow> failure + 32 word" where
  "GetEnumValue_tables name K [] = Inl E_INVALIDARG"
| "GetEnumValue_tables name K ((Values, Kind) # Ts) =
     (if Kind \<noteq> K then GetEnumValue_tables name K Ts
      else (case GetEnumValue_values name Values of
              Some Value \<Rightarrow> Inr Value
            | None \<Rightarrow> GetEnumValue_tables name K Ts))"

definition GetEnumValue :: "string \<Rightarrow> ParserEnumKind \<Rightarrow> failure + 32 word" where
  "GetEnumValue name K = GetEnumValue_tables name K g_ParserEnumTables"

section \<open>Format sizes\<close>

text \<open>
  \<^verbatim>\<open>GetByteSizeForFormat\<close>: the \<^verbatim>\<open>case\<close> labels of the switch with the value each
  returns; the \<^verbatim>\<open>default\<close> label fails with \<^verbatim>\<open>E_INVALIDARG\<close>.
\<close>

definition GetByteSizeForFormat_cases :: "(32 word \<times> 32 word) list" where
  "GetByteSizeForFormat_cases =
     [(DXGI_FORMAT_R32G32B32A32_TYPELESS, 16),
      (DXGI_FORMAT_R32G32B32A32_FLOAT, 16),
      (DXGI_FORMAT_R32G32B32A32_UINT, 16),
      (DXGI_FORMAT_R32G32B32A32_SINT, 16),
      (DXGI_FORMAT_R32G32B32_TYPELESS, 12),
      (DXGI_FORMAT_R32G32B32_FLOAT, 12),
      (DXGI_FORMAT_R32G32B32_UINT, 12),
      (DXGI_FORMAT_R32G32B32_SINT, 12),
      (DXGI_FORMAT_R16G16B16A16_TYPELESS, 8),
      (DXGI_FORMAT_R16G16B16A16_FLOAT, 8),
      (DXGI_FORMAT_R16G16B16A16_UNORM, 8),
      (DXGI_FORMAT_R16G16B16A16_UINT, 8),
      (DXGI_FORMAT_R16G16B16A16_SNORM, 8),
      (DXGI_FORMAT_R16G16B16A16_SINT, 8),
      (DXGI_FORMAT_R32G32_TYPELESS, 8),
      (DXGI_FORMAT_R32G32_FLOAT, 8),
      (DXGI_FORMAT_R32G32_UINT, 8),
      (DXGI_FORMAT_R32G32_SINT, 8),
      (DXGI_FORMAT_R32G8X24_TYPELESS, 8),
      (DXGI_FORMAT_D32_FLOAT_S8X24_UINT, 4),
      (DXGI_FORMAT_R32_FLOAT_X8X24_TYPELESS, 4),
      (DXGI_FORMAT_X32_TYPELESS_G8X24_UINT, 4),
      (DXGI_FORMAT_R10G10B10A2_TYPELESS, 4),
      (DXGI_FORMAT_R10G10B10A2_UNORM, 4),
      (DXGI_FORMAT_R10G10B10A2_UINT, 4),
      (DXGI_FORMAT_R11G11B10_FLOAT, 4),
      (DXGI_FORMAT_R8G8B8A8_TYPELESS, 4),
      (DXGI_FORMAT_R8G8B8A8_UNORM, 4),
      (DXGI_FORMAT_R8G8B8A8_UNORM_SRGB, 4),
      (DXGI_FORMAT_R8G8B8A8_UINT, 4),
      (DXGI_FORMAT_R8G8B8A8_SNORM, 4),
      (DXGI_FORMAT_R8G8B8A8_SINT, 4),
      (DXGI_FORMAT_R16G16_TYPELESS, 4),
      (DXGI_FORMAT_R16G16_FLOAT, 4),
      (DXGI_FORMAT_R16G16_UNORM, 4),
      (DXGI_FORMAT_R16G16_UINT, 4),
      (DXGI_FORMAT_R16G16_SNORM, 4),
      (DXGI_FORMAT_R16G16_SINT, 4),
      (DXGI_FORMAT_R32_TYPELESS, 4),
      (DXGI_FORMAT_D32_FLOAT, 4),
      (DXGI_FORMAT_R32_FLOAT, 4),
      (DXGI_FORMAT_R32_UINT, 4),
      (DXGI_FORMAT_R32_SINT, 4),
      (DXGI_FORMAT_R24G8_TYPELESS, 4),
      (DXGI_FORMAT_D24_UNORM_S8_UINT, 4),
      (DXGI_FORMAT_R24_UNORM_X8_TYPELESS, 4),
      (DXGI_FORMAT_X24_TYPELESS_G8_UINT, 4),
      (DXGI_FORMAT_R8G8_TYPELESS, 2),
      (DXGI_FORMAT_R8G8_UNORM, 2),
      (DXGI_FORMAT_R8G8_UINT, 2),
      (DXGI_FORMAT_R8G8_SNORM, 2),
      (DXGI_FORMAT_R8G8_SINT, 2),
      (DXGI_FORMAT_R16_TYPELESS, 2),
      (DXGI_FORMAT_R16_FLOAT, 2),
      (DXGI_FORMAT_D16_UNORM, 2),
      (DXGI_FORMAT_R16_UNORM, 2),
      (DXGI_FORMAT_R16_UINT, 2),
      (DXGI_FORMAT_R16_SNORM, 2),
      (DXGI_FORMAT_R16_SINT, 2),
      (DXGI_FORMAT_R8_TYPELESS, 1),
      (DXGI_FORMAT_R8_UNORM, 1),
      (DXGI_FORMAT_R8_UINT, 1),
      (DXGI_FORMAT_R8_SNORM, 1),
      (DXGI_FORMAT_R8_SINT, 1),
      (DXGI_FORMAT_A8_UNORM, 1),
      (DXGI_FORMAT_R1_UNORM, 1)]"

definition GetByteSizeForFormat :: "32 word \<Rightarrow> failure + 32 word" where
  "GetByteSizeForFormat v =
     (case map_of GetByteSizeForFormat_cases v of
        Some n \<Rightarrow> Inr n
      | None \<Rightarrow> Inl E_INVALIDARG)"

section \<open>The XML reader\<close>

text \<open>
  The tokenizer (\<^verbatim>\<open>IXmlReader\<close>) is a collaborator. The model gives the parser its
  output: the sequence of nodes still to be read, the head being the node the reader
  stands on. \<^verbatim>\<open>Read\<close> moves to the next node and answers \<^verbatim>\<open>S_FALSE\<close> when there is
  none. A reader at the end of its input has node type \<^verbatim>\<open>XmlNodeType_None\<close>. Failures of
  the tokenizer itself (malformed markup) are outside the model.
\<close>

datatype XmlNodeType =
    XmlNodeType_None
  | XmlNodeType_Element
  | XmlNodeType_Attribute
  | XmlNodeType_Text
  | XmlNodeType_CDATA
  | XmlNodeType_ProcessingInstruction
  | XmlNodeType_Comment
  | XmlNodeType_DocumentType
  | XmlNodeType_Whitespace
  | XmlNodeType_EndElement
  | XmlNodeType_XmlDeclaration

record XmlNode =
  NodeType :: XmlNodeType
  LocalName :: string
  Value :: string
  Attributes :: "(string \<times> string) list"
  EmptyElement :: bool
  Depth :: nat

type_synonym IXmlReader = "XmlNode list"

definition GetNodeType :: "IXmlReader \<Rightarrow> XmlNodeType" where
  "GetNodeType pReader = (case pReader of [] \<Rightarrow> XmlNodeType_None | n # _ \<Rightarrow> NodeType n)"

definition IsEmptyElement :: "IXmlReader \<Rightarrow> bool" where
  "IsEmptyElement pReader = (case pReader of [] \<Rightarrow> False | n # _ \<Rightarrow> EmptyElement n)"

text \<open>
  \<^verbatim>\<open>MoveToAttributeByName\<close> followed by \<^verbatim>\<open>GetValue\<close> and \<^verbatim>\<open>MoveToElement\<close>: the value
  of the attribute of that name on the current node, or nothing (\<^verbatim>\<open>S_FALSE\<close>).
\<close>

definition MoveToAttributeByName :: "IXmlReader \<Rightarrow> string \<Rightarrow> string option" where
  "MoveToAttributeByName pReader pAttrName =
     (case pReader of [] \<Rightarrow> None | n # _ \<Rightarrow> map_of (Attributes n) pAttrName)"

text \<open>
  \<^verbatim>\<open>ShaderOpParser::ReadAtElementName\<close>: reads on until the reader stands on an element
  of the given name; \<open>False\<close> when the input ends first.
\<close>

fun ReadAtElementName :: "IXmlReader \<Rightarrow> string \<Rightarrow> bool \<times> IXmlReader" where
  "ReadAtElementName [] pName = (False, [])"
| "ReadAtElementName (n # ns) pName =
     (if NodeType n = XmlNodeType_Element \<and> LocalName n = pName then (True, n # ns)
      else ReadAtElementName ns pName)"

section \<open>Reading attributes\<close>

text \<open>
  \<^verbatim>\<open>ReadAttrEnumT\<close>. An absent attribute gives the default and \<^verbatim>\<open>S_FALSE\<close>. The prefix
  test compares the attribute's \<^emph>\<open>name\<close> with the text on the length of the prefix, as the
  source does; when it succeeds the text pointer moves on by the length of the prefix,
  which leaves the text when the text is shorter.
\<close>

definition ReadAttrEnumT ::
  "IXmlReader \<Rightarrow> string \<Rightarrow> ParserEnumKind \<Rightarrow> 32 word \<Rightarrow> string \<Rightarrow> failure + (HR \<times> 32 word)" where
  "ReadAttrEnumT pReader pAttrName K defaultValue pStripPrefix =
     (case MoveToAttributeByName pReader pAttrName of
        None \<Rightarrow> Inr (S_FALSE, defaultValue)
      | Some pText \<Rightarrow>
          if pStripPrefix \<noteq> [] \<and> strnicmp_eq pAttrName pText (length pStripPrefix) then
            (if length pStripPrefix \<le> length pText
             then map_sum id (Pair S_OK) (GetEnumValue (drop (length pStripPrefix) pText) K)
             else Inl AccessViolation)
          else map_sum id (Pair S_OK) (GetEnumValue pText K))"

definition ReadAttrINPUT_CLASSIFICATION :: "IXmlReader \<Rightarrow> string \<Rightarrow> failure + (HR \<times> 32 word)" where
  "ReadAttrINPUT_CLASSIFICATION pReader pAttrName =
     ReadAttrEnumT pReader pAttrName INPUT_CLASSIFICATION D3D12_INPUT_CLASSIFICATION_PER_VERTEX_DATA []"

definition ReadAttrDESCRIPTOR_HEAP_TYPE :: "IXmlReader \<Rightarrow> string \<Rightarrow> failure + (HR \<times> 32 word)" where
  "ReadAttrDESCRIPTOR_HEAP_TYPE pReader pAttrName =
     ReadAttrEnumT pReader pAttrName DESCRIPTOR_HEAP_TYPE D3D12_DESCRIPTOR_HEAP_TYPE_CBV_SRV_UAV []"

definition ReadAttrDESCRIPTOR_HEAP_FLAGS :: "IXmlReader \<Rightarrow> string \<Rightarrow> failure + (HR \<times> 32 word)" where
  "ReadAttrDESCRIPTOR_HEAP_FLAGS pReader pAttrName =
     ReadAttrEnumT pReader pAttrName DESCRIPTOR_HEAP_FLAG D3D12_DESCRIPTOR_HEAP_FLAG_SHADER_VISIBLE []"

definition ReadAttrDXGI_FORMAT :: "IXmlReader \<Rightarrow> string \<Rightarrow> failure + (HR \<times> 32 word)" where
  "ReadAttrDXGI_FORMAT pReader pAttrName =
     ReadAttrEnumT pReader pAttrName DXGI_FORMAT DXGI_FORMAT_UNKNOWN ''DXGI_FORMAT_''"

definition ReadAttrHEAP_TYPE :: "IXmlReader \<Rightarrow> string \<Rightarrow> failure + (HR \<times> 32 word)" where
  "ReadAttrHEAP_TYPE pReader pAttrName =
     ReadAttrEnumT pReader pAttrName HEAP_TYPE D3D12_HEAP_TYPE_DEFAULT []"

definition ReadAttrCPU_PAGE_PROPERTY :: "IXmlReader \<Rightarrow> string \<Rightarrow> failure + (HR \<times> 32 word)" where
  "ReadAttrCPU_PAGE_PROPERTY pReader pAttrName =
     ReadAttrEnumT pReader pAttrName CPU_PAGE_PROPERTY D3D12_CPU_PAGE_PROPERTY_UNKNOWN []"

definition ReadAttrMEMORY_POOL :: "IXmlReader \<Rightarrow> string \<Rightarrow> failure + (HR \<times> 32 word)" where
  "ReadAttrMEMORY_POOL pReader pAttrName =
     ReadAttrEnumT pReader pAttrName MEMORY_POOL D3D12_MEMORY_POOL_UNKNOWN []"

definition ReadAttrRESOURCE_DIMENSION :: "IXmlReader \<Rightarrow> string \<Rightarrow> failure + (HR \<times> 32 word)" where
  "ReadAttrRESOURCE_DIMENSION pReader pAttrName =
     ReadAttrEnumT pReader pAttrName RESOURCE_DIMENSION D3D12_RESOURCE_DIMENSION_BUFFER []"

definition ReadAttrTEXTURE_LAYOUT :: "IXmlReader \<Rightarrow> string \<Rightarrow> failure + (HR \<times> 32 word)" where
  "ReadAttrTEXTURE_LAYOUT pReader pAttrName =
     ReadAttrEnumT pReader pAttrName TEXTURE_LAYOUT D3D12_TEXTURE_LAYOUT_UNKNOWN []"

definition ReadAttrRESOURCE_FLAGS :: "IXmlReader \<Rightarrow> string \<Rightarrow> failure + (HR \<times> 32 word)" where
  "ReadAttrRESOURCE_FLAGS pReader pAttrName =
     ReadAttrEnumT pReader pAttrName RESOURCE_FLAG D3D12_RESOURCE_FLAG_NONE []"

definition ReadAttrHEAP_FLAGS :: "IXmlReader \<Rightarrow> string \<Rightarrow> failure + (HR \<times> 32 word)" where
  "ReadAttrHEAP_FLAGS pReader pAttrName =
     ReadAttrEnumT pReader pAttrName HEAP_FLAG D3D12_HEAP_FLAG_NONE []"

definition ReadAttrRESOURCE_STATES :: "IXmlReader \<Rightarrow> string \<Rightarrow> failure + (HR \<times> 32 word)" where
  "ReadAttrRESOURCE_STATES pReader pAttrName =
     ReadAttrEnumT pReader pAttrName RESOURCE_STATE D3D12_RESOURCE_STATE_COMMON []"

definition ReadAttrUAV_DIMENSION :: "IXmlReader \<Rightarrow> string \<Rightarrow> failure + (HR \<times> 32 word)" where
  "ReadAttrUAV_DIMENSION pReader pAttrName =
     ReadAttrEnumT pReader pAttrName UAV_DIMENSION D3D12_UAV_DIMENSION_BUFFER []"

text \<open>
  \<^verbatim>\<open>ReadAttrStr\<close>: the attribute's text, interned in the string table of the operation
  (see \<open>string_table_insert\<close> below), or the null pointer. It never fails.
\<close>

definition ReadAttrStr :: "IXmlReader \<Rightarrow> string \<Rightarrow> string option" where
  "ReadAttrStr pReader pAttrName = MoveToAttributeByName pReader pAttrName"

definition ReadAttrBOOL :: "IXmlReader \<Rightarrow> string \<Rightarrow> bool \<Rightarrow> bool" where
  "ReadAttrBOOL pReader pAttrName defaultValue =
     (case MoveToAttributeByName pReader pAttrName of
        None \<Rightarrow> defaultValue
      | Some pText \<Rightarrow> stricmp_eq pText ''true'')"

text \<open>
  \<^verbatim>\<open>ReadAttrUINT64\<close>: \<^verbatim>\<open>long long ll = _wtol(pText); if (errno == ERANGE)
  CHECK_HR(E_INVALIDARG); *pValue = ll;\<close>. The \<^verbatim>\<open>long\<close> is sign-extended. The test reads
  \<^verbatim>\<open>errno\<close> as it stands, whoever set it.
\<close>

definition ReadAttrUINT64 :: "CRT \<Rightarrow> IXmlReader \<Rightarrow> string \<Rightarrow> 64 word \<Rightarrow> 64 word parse" where
  "ReadAttrUINT64 crt pReader pAttrName defaultValue =
     (\<lambda>errno.
        case MoveToAttributeByName pReader pAttrName of
          None \<Rightarrow> Inr (defaultValue, errno)
        | Some pText \<Rightarrow>
            (case wtol crt pText of
               (ll, erange) \<Rightarrow>
                 if errno \<or> erange then Inl E_INVALIDARG
                 else Inr (scast ll, errno \<or> erange)))"

text \<open>\<^verbatim>\<open>UInt64ToUInt\<close> and \<^verbatim>\<open>UInt64ToUInt16\<close> of \<^verbatim>\<open>intsafe.h\<close>.\<close>

definition UInt64ToUInt :: "64 word \<Rightarrow> failure + 32 word" where
  "UInt64ToUInt u = (if u \<le> 0xFFFFFFFF then Inr (ucast u) else Inl INTSAFE_E_ARITHMETIC_OVERFLOW)"

definition UInt64ToUInt16 :: "64 word \<Rightarrow> failure + 16 word" where
  "UInt64ToUInt16 u = (if u \<le> 0xFFFF then Inr (ucast u) else Inl INTSAFE_E_ARITHMETIC_OVERFLOW)"

definition ReadAttrUINT :: "CRT \<Rightarrow> IXmlReader \<Rightarrow> string \<Rightarrow> 32 word \<Rightarrow> 32 word parse" where
  "ReadAttrUINT crt pReader pAttrName defaultValue =
     bindP (ReadAttrUINT64 crt pReader pAttrName (ucast defaultValue))
       (\<lambda>u64. CHECK_HR (UInt64ToUInt u64))"

definition ReadAttrUINT16 :: "CRT \<Rightarrow> IXmlReader \<Rightarrow> string \<Rightarrow> 16 word \<Rightarrow> 16 word parse" where
  "ReadAttrUINT16 crt pReader pAttrName defaultValue =
     bindP (ReadAttrUINT64 crt pReader pAttrName (ucast defaultValue))
       (\<lambda>u64. CHECK_HR (UInt64ToUInt16 u64))"

section \<open>Descriptors\<close>

text \<open>
  \<^verbatim>\<open>D3D12_UNORDERED_ACCESS_VIEW_DESC\<close>: the format, the view dimension and a union with
  one member for each dimension. The union is a datatype with one constructor for each
  member; the overlap of the members in memory is not modelled.
\<close>

datatype D3D12_UAV_VIEW =
    Buffer (FirstElement: "64 word") (NumElements: "32 word") (StructureByteStride: "32 word")
      (CounterOffsetInBytes: "64 word") (BufferFlags: "32 word")
  | Texture1D (MipSlice: "32 word")
  | Texture1DArray (MipSlice: "32 word") (FirstArraySlice: "32 word") (ArraySize: "32 word")
  | Texture2D (MipSlice: "32 word") (PlaneSlice: "32 word")
  | Texture2DArray (MipSlice: "32 word") (FirstArraySlice: "32 word") (ArraySize: "32 word")
      (PlaneSlice: "32 word")
  | Texture3D (MipSlice: "32 word") (FirstWSlice: "32 word") (WSize: "32 word")

record D3D12_UNORDERED_ACCESS_VIEW_DESC =
  UavFormat :: "32 word"
  ViewDimension :: "32 word"
  View :: D3D12_UAV_VIEW

record ShaderOpDescriptor =
  d_Name :: "string option"
  d_ResName :: "string option"
  d_CounterName :: "string option"
  d_Kind :: "string option"
  UavDesc :: D3D12_UNORDERED_ACCESS_VIEW_DESC

text \<open>
  The \<^verbatim>\<open>switch\<close> of \<^verbatim>\<open>ParseDescriptor\<close> on the view dimension. A dimension without a
  \<^verbatim>\<open>case\<close> label leaves the union as it was.
\<close>

definition ParseDescriptor_switch ::
  "CRT \<Rightarrow> IXmlReader \<Rightarrow> HR \<Rightarrow> D3D12_UNORDERED_ACCESS_VIEW_DESC \<Rightarrow>
     D3D12_UNORDERED_ACCESS_VIEW_DESC parse" where
  "ParseDescriptor_switch crt pReader hrFormat uav =
     (if ViewDimension uav = D3D12_UAV_DIMENSION_BUFFER then
        bindP (ReadAttrUINT64 crt pReader ''FirstElement'' 0) (\<lambda>firstElement.
        bindP (ReadAttrUINT crt pReader ''NumElements'' 0) (\<lambda>numElements.
        bindP (ReadAttrUINT crt pReader ''StructureByteStride'' 0) (\<lambda>structureByteStride.
        bindP (ReadAttrUINT64 crt pReader ''CounterOffsetInBytes'' 0) (\<lambda>counterOffsetInBytes.
          let pFlags = ReadAttrStr pReader ''Flags'';
              flags = (case pFlags of
                         None \<Rightarrow> D3D12_BUFFER_UAV_FLAG_NONE
                       | Some f \<Rightarrow>
                           if f \<noteq> [] \<and> stricmp_eq f ''RAW'' then D3D12_BUFFER_UAV_FLAG_RAW
                           else D3D12_BUFFER_UAV_FLAG_NONE)
          in returnP (uav
               \<lparr> UavFormat :=
                   (if hrFormat = S_FALSE \<and> flags AND D3D12_BUFFER_UAV_FLAG_RAW \<noteq> 0
                    then DXGI_FORMAT_R32_TYPELESS else UavFormat uav),
                 View := Buffer firstElement numElements structureByteStride
                           counterOffsetInBytes flags \<rparr>)))))
      else if ViewDimension uav = D3D12_UAV_DIMENSION_TEXTURE1D then
        bindP (ReadAttrUINT crt pReader ''MipSlice'' 0) (\<lambda>mipSlice.
          returnP (uav \<lparr> View := Texture1D mipSlice \<rparr>))
      else if ViewDimension uav = D3D12_UAV_DIMENSION_TEXTURE1DARRAY then
        bindP (ReadAttrUINT crt pReader ''MipSlice'' 0) (\<lambda>mipSlice.
        bindP (ReadAttrUINT crt pReader ''FirstArraySlice'' 0) (\<lambda>firstArraySlice.
        bindP (ReadAttrUINT crt pReader ''ArraySize'' 0) (\<lambda>arraySize.
          returnP (uav \<lparr> View := Texture1DArray mipSlice firstArraySlice arraySize \<rparr>))))
      else if ViewDimension uav = D3D12_UAV_DIMENSION_TEXTURE2D then
        bindP (ReadAttrUINT crt pReader ''MipSlice'' 0) (\<lambda>mipSlice.
        bindP (ReadAttrUINT crt pReader ''PlaneSlice'' 0) (\<lambda>planeSlice.
          returnP (uav \<lparr> View := Texture2D mipSlice planeSlice \<rparr>)))
      else if ViewDimension uav = D3D12_UAV_DIMENSION_TEXTURE2DARRAY then
        bindP (ReadAttrUINT crt pReader ''MipSlice'' 0) (\<lambda>mipSlice.
        bindP (ReadAttrUINT crt pReader ''FirstArraySlice'' 0) (\<lambda>firstArraySlice.
        bindP (ReadAttrUINT crt pReader ''ArraySize'' 0) (\<lambda>arraySize.
        bindP (ReadAttrUINT crt pReader ''MipSlice'' 0) (\<lambda>planeSlice.
          returnP (uav \<lparr> View := Texture2DArray mipSlice firstArraySlice arraySize planeSlice \<rparr>)))))
      else if ViewDimension uav = D3D12_UAV_DIMENSION_TEXTURE3D then
        bindP (ReadAttrUINT crt pReader ''MipSlice'' 0) (\<lambda>mipSlice.
        bindP (ReadAttrUINT crt pReader ''FirstWSlice'' 0) (\<lambda>firstWSlice.
        bindP (ReadAttrUINT crt pReader ''WSize'' 0) (\<lambda>wSize.
          returnP (uav \<lparr> View := Texture3D mipSlice firstWSlice wSize \<rparr>))))
      else returnP uav)"

text \<open>
  \<^verbatim>\<open>ShaderOpParser::ParseDescriptor\<close>. When no \<^verbatim>\<open>Descriptor\<close> element is found the
  descriptor handed in is left as it is. The kind is checked last, after every
  attribute has been read.
\<close>

definition ParseDescriptor_kind :: "ShaderOpDescriptor \<Rightarrow> ShaderOpDescriptor parse" where
  "ParseDescriptor_kind pDesc =
     (case d_Kind pDesc of
        None \<Rightarrow> failP E_INVALIDARG
      | Some K \<Rightarrow>
          if \<not> stricmp_eq K ''UAV'' \<and> \<not> stricmp_eq K ''SRV'' \<and>
             \<not> stricmp_eq K ''CBV'' \<and> \<not> stricmp_eq K ''RTV''
          then failP E_INVALIDARG
          else returnP pDesc)"

definition ParseDescriptor_attributes ::
  "CRT \<Rightarrow> IXmlReader \<Rightarrow> ShaderOpDescriptor \<Rightarrow> ShaderOpDescriptor parse" where
  "ParseDescriptor_attributes crt pReader pDesc =
     (let name = ReadAttrStr pReader ''Name'';
          resName = ReadAttrStr pReader ''ResName'';
          counterName = ReadAttrStr pReader ''CounterName'';
          kind = ReadAttrStr pReader ''Kind''
      in
        bindP (CHECK_HR (ReadAttrDXGI_FORMAT pReader ''Format'')) (\<lambda>(hrFormat, format).
        bindP (CHECK_HR_value (ReadAttrUAV_DIMENSION pReader ''Dimension'')) (\<lambda>viewDimension.
        bindP (ParseDescriptor_switch crt pReader hrFormat
                 ((UavDesc pDesc) \<lparr> UavFormat := format, ViewDimension := viewDimension \<rparr>))
          (\<lambda>uav.
             let resName' = (if name \<noteq> None \<and> resName = None then name else resName);
                 name' = (if resName' \<noteq> None \<and> name = None then resName' else name)
             in returnP \<lparr> d_Name = name', d_ResName = resName',
                          d_CounterName = counterName, d_Kind = kind, UavDesc = uav \<rparr>))))"

definition ParseDescriptor ::
  "CRT \<Rightarrow> IXmlReader \<Rightarrow> ShaderOpDescriptor \<Rightarrow> ShaderOpDescriptor parse" where
  "ParseDescriptor crt pReader pDesc =
     (case ReadAtElementName pReader ''Descriptor'' of
        (False, _) \<Rightarrow> returnP pDesc
      | (True, pReader') \<Rightarrow>
          bindP (ParseDescriptor_attributes crt pReader' pDesc) ParseDescriptor_kind)"

section \<open>Resources\<close>

record D3D12_HEAP_PROPERTIES =
  Type :: "32 word"
  CPUPageProperty :: "32 word"
  MemoryPoolPreference :: "32 word"
  CreationNodeMask :: "32 word"
  VisibleNodeMask :: "32 word"

record DXGI_SAMPLE_DESC =
  Count :: "32 word"
  Quality :: "32 word"

record D3D12_RESOURCE_DESC =
  Dimension :: "32 word"
  Alignment :: "64 word"
  Width :: "64 word"
  Height :: "32 word"
  DepthOrArraySize :: "16 word"
  MipLevels :: "16 word"
  Format :: "32 word"
  SampleDesc :: DXGI_SAMPLE_DESC
  Layout :: "32 word"
  Flags :: "32 word"

record ShaderOpResource =
  r_Name :: "string option"
  r_Init :: "string option"
  ReadBack :: bool
  HeapProperties :: D3D12_HEAP_PROPERTIES
  Desc :: D3D12_RESOURCE_DESC
  HeapFlags :: "32 word"
  InitialResourceState :: "32 word"
  TransitionTo :: "32 word"
  InitBytes :: "8 word list"

text \<open>The block of \<^verbatim>\<open>ParseResource\<close> under \<^verbatim>\<open>// Set some fixed values.\<close>\<close>

definition SetFixedValues :: "D3D12_RESOURCE_DESC \<Rightarrow> D3D12_RESOURCE_DESC" where
  "SetFixedValues desc0 =
     (let desc1 =
            (if Dimension desc0 = D3D12_RESOURCE_DIMENSION_BUFFER then
               desc0 \<lparr> Height := 1, DepthOrArraySize := 1, MipLevels := 1,
                       Format := DXGI_FORMAT_UNKNOWN,
                       SampleDesc := \<lparr> Count = 1, Quality = 0 \<rparr>,
                       Layout := D3D12_TEXTURE_LAYOUT_ROW_MAJOR \<rparr>
             else desc0);
          desc2 =
            (if Dimension desc1 = D3D12_RESOURCE_DIMENSION_TEXTURE1D then
               desc1 \<lparr> Height := (if Height desc1 = 0 then 1 else Height desc1),
                       DepthOrArraySize :=
                         (if DepthOrArraySize desc1 = 0 then 1 else DepthOrArraySize desc1),
                       SampleDesc :=
                         (if Count (SampleDesc desc1) = 0
                          then (SampleDesc desc1) \<lparr> Count := 1 \<rparr> else SampleDesc desc1) \<rparr>
             else desc1)
      in
        if Dimension desc2 = D3D12_RESOURCE_DIMENSION_TEXTURE2D then
          desc2 \<lparr> DepthOrArraySize :=
                    (if DepthOrArraySize desc2 = 0 then 1 else DepthOrArraySize desc2),
                  SampleDesc :=
                    (if Count (SampleDesc desc2) = 0
                     then (SampleDesc desc2) \<lparr> Count := 1 \<rparr> else SampleDesc desc2) \<rparr>
        else desc2)"

subsection \<open>The byte payload\<close>

definition isByteInitSeparator :: "char \<Rightarrow> bool" where
  "isByteInitSeparator c =
     (c = CHR '' '' \<or> c = CHR 0x09 \<or> c = CHR 0x0D \<or> c = CHR 0x0A \<or>
      c = CHR ''{'' \<or> c = CHR ''}'' \<or> c = CHR '','')"

definition SkipByteInitSeparators :: "string \<Rightarrow> string" where
  "SkipByteInitSeparators pText = dropWhile isByteInitSeparator pText"

definition FindByteInitSeparators :: "string \<Rightarrow> string" where
  "FindByteInitSeparators pText = dropWhile (\<lambda>c. \<not> isByteInitSeparator c) pText"

text \<open>
  The chain of \<^verbatim>\<open>_wcsicmp\<close> tests that gives a literal its value. Each test compares
  \<^verbatim>\<open>pText\<close>, the text from the start of the literal to the end of the text node, with
  the sentinel. The last branch hands the same text to \<^verbatim>\<open>wcstof\<close>.
\<close>

definition ByteInitValue :: "CRT \<Rightarrow> string \<Rightarrow> 32 word \<times> bool" where
  "ByteInitValue crt pText =
     (if stricmp_eq pText ''nan'' then (NAN crt, False)
      else if stricmp_eq pText ''-inf'' then (INFINITY, False)
      else if stricmp_eq pText ''inf'' \<or> stricmp_eq pText ''+inf'' then (fneg INFINITY, False)
      else if stricmp_eq pText ''-denorm'' then (fneg FLT_MIN_div_2, False)
      else if stricmp_eq pText ''denorm'' then (FLT_MIN_div_2, False)
      else wcstof crt pText)"

text \<open>
  The loop \<^verbatim>\<open>while (*pText)\<close> over one text node: skip the separators, stop when the
  text ends, find the end of the literal, push the four bytes of its value, go on from
  the end of the literal.
\<close>

function ParseByteInitText :: "CRT \<Rightarrow> string \<Rightarrow> 8 word list \<Rightarrow> bool \<Rightarrow> 8 word list \<times> bool" where
  "ParseByteInitText crt pText V errno =
     (if pText = [] then (V, errno)
      else if SkipByteInitSeparators pText = [] then (V, errno)
      else ParseByteInitText crt
             (FindByteInitSeparators (SkipByteInitSeparators pText))
             (V @ float_bytes (fst (ByteInitValue crt (SkipByteInitSeparators pText))))
             (errno \<or> snd (ByteInitValue crt (SkipByteInitSeparators pText))))"
  by pat_completeness auto
termination
proof (relation "measure (\<lambda>(crt, pText, V, errno). length pText)")
  show "wf (measure (\<lambda>(crt, pText, V, errno). length pText))"
    by simp
next
  fix crt :: CRT and pText :: string and V :: "8 word list" and errno :: bool
  assume ne: "SkipByteInitSeparators pText \<noteq> []"
  then obtain c cs where cs: "dropWhile isByteInitSeparator pText = c # cs"
    by (cases "dropWhile isByteInitSeparator pText") (simp_all add: SkipByteInitSeparators_def)
  then have "\<not> isByteInitSeparator c"
    using hd_dropWhile [of isByteInitSeparator pText] by simp
  then have "length (dropWhile (\<lambda>c. \<not> isByteInitSeparator c) (c # cs)) \<le> length cs"
    by (simp add: length_dropWhile_le)
  moreover have "length (c # cs) \<le> length pText"
    using cs length_dropWhile_le [of isByteInitSeparator pText] by simp
  ultimately show
    "((crt, FindByteInitSeparators (SkipByteInitSeparators pText),
       V @ float_bytes (fst (ByteInitValue crt (SkipByteInitSeparators pText))),
       errno \<or> snd (ByteInitValue crt (SkipByteInitSeparators pText))),
      (crt, pText, V, errno)) \<in> measure (\<lambda>(crt, pText, V, errno). length pText)"
    using cs by (simp add: SkipByteInitSeparators_def FindByteInitSeparators_def)
qed

declare ParseByteInitText.simps [simp del]

text \<open>
  The loop of \<^verbatim>\<open>ParseResource\<close> over the nodes, from the node the reader stands on: it
  ends at the first end tag or at the end of the input, and takes the payload of the
  text nodes (and of no other kind of node).
\<close>

fun ParseResource_nodes :: "CRT \<Rightarrow> IXmlReader \<Rightarrow> 8 word list \<Rightarrow> bool \<Rightarrow> 8 word list \<times> bool" where
  "ParseResource_nodes crt [] V errno = (V, errno)"
| "ParseResource_nodes crt (n # ns) V errno =
     (if NodeType n = XmlNodeType_EndElement then (V, errno)
      else if NodeType n = XmlNodeType_Text then
        (case ParseByteInitText crt (Value n) V errno of
           (V', errno') \<Rightarrow> ParseResource_nodes crt ns V' errno')
      else ParseResource_nodes crt ns V errno)"

text \<open>The attributes of \<^verbatim>\<open>ParseResource\<close>, in the order the source reads them.\<close>

definition ParseResource_attributes ::
  "CRT \<Rightarrow> IXmlReader \<Rightarrow> ShaderOpResource \<Rightarrow> ShaderOpResource parse" where
  "ParseResource_attributes crt pReader pResource =
     (let name = ReadAttrStr pReader ''Name'';
          init = ReadAttrStr pReader ''Init'';
          readBack = ReadAttrBOOL pReader ''ReadBack'' False
      in
        bindP (CHECK_HR_value (ReadAttrHEAP_TYPE pReader ''HeapType'')) (\<lambda>heapType.
        bindP (CHECK_HR_value (ReadAttrCPU_PAGE_PROPERTY pReader ''CPUPageProperty'')) (\<lambda>cpuPageProperty.
        bindP (CHECK_HR_value (ReadAttrMEMORY_POOL pReader ''MemoryPoolPreference'')) (\<lambda>memoryPoolPreference.
        bindP (ReadAttrUINT crt pReader ''CreationNodeMask'' 0) (\<lambda>creationNodeMask.
        bindP (ReadAttrUINT crt pReader ''VisibleNodeMask'' 0) (\<lambda>visibleNodeMask.
        bindP (CHECK_HR_value (ReadAttrRESOURCE_DIMENSION pReader ''Dimension'')) (\<lambda>dimension.
        bindP (ReadAttrUINT64 crt pReader ''Alignment'' 0) (\<lambda>alignment.
        bindP (ReadAttrUINT64 crt pReader ''Width'' 0) (\<lambda>width.
        bindP (ReadAttrUINT crt pReader ''Height'' 0) (\<lambda>height.
        bindP (ReadAttrUINT16 crt pReader ''DepthOrArraySize'' 0) (\<lambda>depthOrArraySize.
        bindP (ReadAttrUINT16 crt pReader ''MipLevels'' 0) (\<lambda>mipLevels.
        bindP (CHECK_HR_value (ReadAttrDXGI_FORMAT pReader ''Format'')) (\<lambda>format.
        bindP (ReadAttrUINT crt pReader ''SampleCount'' 0) (\<lambda>sampleCount.
        bindP (ReadAttrUINT crt pReader ''SampleQual'' 0) (\<lambda>sampleQual.
        bindP (CHECK_HR_value (ReadAttrTEXTURE_LAYOUT pReader ''Layout'')) (\<lambda>layout.
        bindP (CHECK_HR_value (ReadAttrRESOURCE_FLAGS pReader ''Flags'')) (\<lambda>flags.
        bindP (CHECK_HR_value (ReadAttrHEAP_FLAGS pReader ''HeapFlags'')) (\<lambda>heapFlags.
        bindP (CHECK_HR_value (ReadAttrRESOURCE_STATES pReader ''InitialResourceState'')) (\<lambda>initialResourceState.
        bindP (CHECK_HR_value (ReadAttrRESOURCE_STATES pReader ''TransitionTo'')) (\<lambda>transitionTo.
          returnP
            \<lparr> r_Name = name, r_Init = init, ReadBack = readBack,
              HeapProperties =
                \<lparr> Type = heapType, CPUPageProperty = cpuPageProperty,
                  MemoryPoolPreference = memoryPoolPreference,
                  CreationNodeMask = creationNodeMask, VisibleNodeMask = visibleNodeMask \<rparr>,
              Desc =
                \<lparr> Dimension = dimension, Alignment = alignment, Width = width, Height = height,
                  DepthOrArraySize = depthOrArraySize, MipLevels = mipLevels, Format = format,
                  SampleDesc = \<lparr> Count = sampleCount, Quality = sampleQual \<rparr>,
                  Layout = layout, Flags = flags \<rparr>,
              HeapFlags = heapFlags, InitialResourceState = initialResourceState,
              TransitionTo = transitionTo,
              InitBytes = InitBytes pResource \<rparr>))))))))))))))))))))"

text \<open>
  \<^verbatim>\<open>ShaderOpParser::ParseResource\<close>: the attributes, the fixed values, and unless the
  element is empty the payload, appended to \<^verbatim>\<open>InitBytes\<close>. When no \<^verbatim>\<open>Resource\<close> element
  is found the resource handed in is left as it is.
\<close>

definition ParseResource :: "CRT \<Rightarrow> IXmlReader \<Rightarrow> ShaderOpResource \<Rightarrow> ShaderOpResource parse" where
  "ParseResource crt pReader pResource =
     (case ReadAtElementName pReader ''Resource'' of
        (False, _) \<Rightarrow> returnP pResource
      | (True, pReader') \<Rightarrow>
          bindP (ParseResource_attributes crt pReader' pResource) (\<lambda>r0.
            let r = r0 \<lparr> Desc := SetFixedValues (Desc r0) \<rparr> in
            if IsEmptyElement pReader' then returnP r
            else (\<lambda>errno.
                    case ParseResource_nodes crt pReader' (InitBytes r) errno of
                      (V, errno') \<Rightarrow> Inr (r \<lparr> InitBytes := V \<rparr>, errno'))))"

section \<open>The execution engine\<close>

subsection \<open>The device\<close>

text \<open>
  The device is a collaborator. The model hands it each request together with the number
  of requests made before, and takes its answer: a failing HRESULT, or the handle of the
  object created. Handles are numbers. \<^verbatim>\<open>CreateCommandList\<close> stands for the three
  creations of \<^verbatim>\<open>CommandListRefs::CreateForDevice\<close>, \<^verbatim>\<open>CloseAndExecute\<close> for the closing
  of a command list, its submission and the wait on the fence.
\<close>

datatype Command =
    UpdateSubresources nat nat "8 word list"
  | ResourceBarrier nat "32 word" "32 word"
  | SetComputeRootConstantBufferView "32 word" "64 word"
  | SetComputeRootUnorderedAccessView "32 word" "64 word"
  | SetComputeRootShaderResourceView "32 word" "64 word"
  | SetComputeRootDescriptorTable "32 word" "64 word"
  | SetGraphicsRootConstantBufferView "32 word" "64 word"
  | SetGraphicsRootUnorderedAccessView "32 word" "64 word"
  | SetGraphicsRootShaderResourceView "32 word" "64 word"
  | SetGraphicsRootDescriptorTable "32 word" "64 word"

datatype DeviceRequest =
    CreateCommittedResource D3D12_HEAP_PROPERTIES "32 word" D3D12_RESOURCE_DESC "32 word"
  | CreateCommandList bool
  | CloseAndExecute "Command list"

record Device =
  Respond :: "nat \<Rightarrow> DeviceRequest \<Rightarrow> failure + nat"
  GetGPUVirtualAddress :: "nat \<Rightarrow> 64 word"
  GetGPUDescriptorHandleForHeapStart :: "nat \<Rightarrow> 64 word"

subsection \<open>The state of a run\<close>

text \<open>
  \<^verbatim>\<open>ShaderOpResourceData\<close>: \<^verbatim>\<open>ShaderOpRes\<close> points at an element of the resource list and
  is its index here. The maps of the engine are keyed by interned names; the key here is
  the content of the name, which interning makes the same thing (see
  \<open>string_table_insert\<close>).
\<close>

record ShaderOpResourceData =
  ShaderOpRes :: nat
  Resource :: nat
  ResourceState :: "32 word"
  rd_ReadBack :: "nat option"

record ShaderOpRootValue =
  rv_ResName :: "string option"
  rv_HeapName :: "string option"
  rv_Index :: "32 word"

record ShaderOpTest =
  Resources :: "ShaderOpResource list"
  RootValues :: "ShaderOpRootValue list"
  m_ResourceData :: "string option \<rightharpoonup> ShaderOpResourceData"
  m_DescriptorHeapsByName :: "string option \<rightharpoonup> nat"
  m_pQueryBuffer :: "nat option"
  m_FenceValue :: "64 word"
  DeviceCalls :: nat

definition bindE :: "failure + 'a \<Rightarrow> ('a \<Rightarrow> failure + 'b) \<Rightarrow> failure + 'b" where
  "bindE r f = (case r of Inl hr \<Rightarrow> Inl hr | Inr a \<Rightarrow> f a)"

definition request :: "Device \<Rightarrow> ShaderOpTest \<Rightarrow> DeviceRequest \<Rightarrow> failure + (nat \<times> ShaderOpTest)" where
  "request dev st req =
     (case Respond dev (DeviceCalls st) req of
        Inl hr \<Rightarrow> Inl hr
      | Inr h \<Rightarrow> Inr (h, st \<lparr> DeviceCalls := Suc (DeviceCalls st) \<rparr>))"

text \<open>\<^verbatim>\<open>CD3DX12_HEAP_PROPERTIES(type)\<close> and \<^verbatim>\<open>CD3DX12_RESOURCE_DESC::Buffer(width)\<close> of \<^verbatim>\<open>d3dx12.h\<close>.\<close>

definition CD3DX12_HEAP_PROPERTIES :: "32 word \<Rightarrow> D3D12_HEAP_PROPERTIES" where
  "CD3DX12_HEAP_PROPERTIES t =
     \<lparr> Type = t, CPUPageProperty = D3D12_CPU_PAGE_PROPERTY_UNKNOWN,
       MemoryPoolPreference = D3D12_MEMORY_POOL_UNKNOWN,
       CreationNodeMask = 1, VisibleNodeMask = 1 \<rparr>"

definition CD3DX12_RESOURCE_DESC_Buffer :: "64 word \<Rightarrow> D3D12_RESOURCE_DESC" where
  "CD3DX12_RESOURCE_DESC_Buffer width =
     \<lparr> Dimension = D3D12_RESOURCE_DIMENSION_BUFFER, Alignment = 0, Width = width, Height = 1,
       DepthOrArraySize = 1, MipLevels = 1, Format = DXGI_FORMAT_UNKNOWN,
       SampleDesc = \<lparr> Count = 1, Quality = 0 \<rparr>,
       Layout = D3D12_TEXTURE_LAYOUT_ROW_MAJOR, Flags = D3D12_RESOURCE_FLAG_NONE \<rparr>"

subsection \<open>CreateResources\<close>

text \<open>
  The first part of the loop body of \<^verbatim>\<open>ShaderOpTest::CreateResources\<close>: the kind of
  initializer, the bytes to upload and the width the initializer gives the resource.
  The result is \<^verbatim>\<open>hasInit\<close>, \<^verbatim>\<open>values\<close> and the resource with its width resolved.
  \<^verbatim>\<open>m_InitCallbackFn\<close> is the caller's: it takes the name and the buffer and returns the
  buffer it leaves.
\<close>

definition Init_is :: "string \<Rightarrow> ShaderOpResource \<Rightarrow> bool" where
  "Init_is kind R = (case r_Init R of None \<Rightarrow> False | Some i \<Rightarrow> stricmp_eq kind i)"

definition CreateResources_init ::
  "(string option \<Rightarrow> 8 word list \<Rightarrow> 8 word list) \<Rightarrow> ShaderOpResource \<Rightarrow>
     failure + (bool \<times> 8 word list \<times> ShaderOpResource)" where
  "CreateResources_init m_InitCallbackFn R =
     (let initByName = Init_is ''byname'' R;
          initZero = Init_is ''zero'' R;
          initFromBytes = Init_is ''frombytes'' R;
          hasInit = (initByName \<or> initZero \<or> initFromBytes);
          isBuffer = (Dimension (Desc R) = D3D12_RESOURCE_DIMENSION_BUFFER)
      in
        if \<not> hasInit then Inr (hasInit, [], R)
        else
          bindE (if isBuffer then Inr (replicate (unat (Width (Desc R))) 0)
                 else bindE (GetByteSizeForFormat (Format (Desc R))) (\<lambda>size.
                        Inr (replicate
                               (unat (Width (Desc R) * ucast (Height (Desc R)) * ucast size)) 0)))
            (\<lambda>values.
               if initZero then Inr (hasInit, replicate (length values) 0, R)
               else if initByName then
                 (let values' = m_InitCallbackFn (r_Name R) values
                  in Inr (hasInit, values',
                          if isBuffer
                          then R \<lparr> Desc := (Desc R) \<lparr> Width := word_of_nat (length values') \<rparr> \<rparr>
                          else R))
               else
                 (let values' = InitBytes R
                  in if Width (Desc R) = 0 then
                       (if isBuffer then
                          Inr (hasInit, values',
                               R \<lparr> Desc := (Desc R) \<lparr> Width := word_of_nat (length values') \<rparr> \<rparr>)
                        else if Dimension (Desc R) = D3D12_RESOURCE_DIMENSION_TEXTURE1D then
                          bindE (GetByteSizeForFormat (Format (Desc R))) (\<lambda>size.
                            Inr (hasInit, values',
                                 R \<lparr> Desc := (Desc R)
                                        \<lparr> Width := word_of_nat (length values') div ucast size \<rparr> \<rparr>))
                        else Inr (hasInit, values', R))
                     else Inr (hasInit, values', R))))"

text \<open>The description of the upload resource.\<close>

definition uploadDesc :: "ShaderOpResource \<Rightarrow> failure + D3D12_RESOURCE_DESC" where
  "uploadDesc R =
     (if Dimension (Desc R) = D3D12_RESOURCE_DIMENSION_BUFFER
      then Inr ((Desc R) \<lparr> Flags := D3D12_RESOURCE_FLAG_NONE \<rparr>)
      else bindE (GetByteSizeForFormat (Format (Desc R))) (\<lambda>size.
             Inr ((Desc R)
                    \<lparr> Dimension := D3D12_RESOURCE_DIMENSION_BUFFER,
                      Width := Width (Desc R) * ucast (Height (Desc R)) * ucast size,
                      Height := 1, MipLevels := 1, Format := DXGI_FORMAT_UNKNOWN,
                      Layout := D3D12_TEXTURE_LAYOUT_ROW_MAJOR,
                      Flags := D3D12_RESOURCE_FLAG_NONE \<rparr>)))"

definition readbackWidth :: "ShaderOpResource \<Rightarrow> failure + 64 word" where
  "readbackWidth R =
     (if Dimension (Desc R) = D3D12_RESOURCE_DIMENSION_BUFFER then Inr (Width (Desc R))
      else bindE (GetByteSizeForFormat (Format (Desc R))) (\<lambda>size.
             Inr (ucast (Height (Desc R)) * Width (Desc R) * ucast size)))"

text \<open>
  The loop body for the resource at index \<open>i\<close>. A resource whose name already has
  runtime data is passed over (\<^verbatim>\<open>continue\<close>), untouched.
\<close>

definition CreateResources_body ::
  "Device \<Rightarrow> (string option \<Rightarrow> 8 word list \<Rightarrow> 8 word list) \<Rightarrow> nat \<Rightarrow> ShaderOpResource \<Rightarrow>
     ShaderOpTest \<times> Command list \<Rightarrow> failure + (ShaderOpTest \<times> Command list)" where
  "CreateResources_body dev m_InitCallbackFn i R0 acc =
     (case acc of (st0, pList0) \<Rightarrow>
        if m_ResourceData st0 (r_Name R0) \<noteq> None then Inr (st0, pList0)
        else
          bindE (CreateResources_init m_InitCallbackFn R0) (\<lambda>(hasInit, values, R).
          bindE (request dev (st0 \<lparr> Resources := (Resources st0)[i := R] \<rparr>)
                   (CreateCommittedResource (HeapProperties R) (HeapFlags R) (Desc R)
                      (InitialResourceState R))) (\<lambda>(pResource, st1).
          bindE (if hasInit then
                   bindE (uploadDesc R) (\<lambda>desc.
                   bindE (request dev st1
                            (CreateCommittedResource
                               (CD3DX12_HEAP_PROPERTIES D3D12_HEAP_TYPE_UPLOAD)
                               D3D12_HEAP_FLAG_NONE desc D3D12_RESOURCE_STATE_GENERIC_READ))
                     (\<lambda>(pIntermediate, st2).
                        Inr (st2, pList0 @ [UpdateSubresources pResource pIntermediate values])))
                 else Inr (st1, pList0)) (\<lambda>(st2, pList1).
          bindE (if ReadBack R then
                   bindE (readbackWidth R) (\<lambda>width.
                   bindE (request dev st2
                            (CreateCommittedResource
                               (CD3DX12_HEAP_PROPERTIES D3D12_HEAP_TYPE_READBACK)
                               D3D12_HEAP_FLAG_NONE (CD3DX12_RESOURCE_DESC_Buffer width)
                               D3D12_RESOURCE_STATE_COPY_DEST))
                     (\<lambda>(pReadbackResource, st3). Inr (Some pReadbackResource, st3)))
                 else Inr (None, st2)) (\<lambda>(readBack, st3).
            let D = \<lparr> ShaderOpRes = i, Resource = pResource,
                      ResourceState = InitialResourceState R, rd_ReadBack = readBack \<rparr>
            in if TransitionTo R \<noteq> ResourceState D then
                 Inr (st3 \<lparr> m_ResourceData :=
                              (m_ResourceData st3)
                                (r_Name R \<mapsto> D \<lparr> ResourceState := TransitionTo R \<rparr>) \<rparr>,
                      pList1 @ [ResourceBarrier (Resource D) (ResourceState D) (TransitionTo R)])
               else
                 Inr (st3 \<lparr> m_ResourceData := (m_ResourceData st3)(r_Name R \<mapsto> D) \<rparr>,
                      pList1))))))"

fun CreateResources_loop ::
  "Device \<Rightarrow> (string option \<Rightarrow> 8 word list \<Rightarrow> 8 word list) \<Rightarrow> nat \<Rightarrow> ShaderOpResource list \<Rightarrow>
     ShaderOpTest \<times> Command list \<Rightarrow> failure + (ShaderOpTest \<times> Command list)" where
  "CreateResources_loop dev cb i [] acc = Inr acc"
| "CreateResources_loop dev cb i (R # Rs) acc =
     (case CreateResources_body dev cb i R acc of
        Inl hr \<Rightarrow> Inl hr
      | Inr acc' \<Rightarrow> CreateResources_loop dev cb (Suc i) Rs acc')"

text \<open>
  \<^verbatim>\<open>ShaderOpTest::CreateResources\<close>: the command list, the loop over the declared
  resources, the buffer for the query results (88 bytes, the size of
  \<^verbatim>\<open>D3D12_QUERY_DATA_PIPELINE_STATISTICS\<close>), the submission and the fence.
\<close>

definition CreateResources ::
  "Device \<Rightarrow> (string option \<Rightarrow> 8 word list \<Rightarrow> 8 word list) \<Rightarrow> ShaderOpTest \<Rightarrow> failure + ShaderOpTest" where
  "CreateResources dev m_InitCallbackFn st =
     bindE (request dev st (CreateCommandList True)) (\<lambda>(h, st1).
     bindE (CreateResources_loop dev m_InitCallbackFn 0 (Resources st1) (st1, [])) (\<lambda>(st2, pList).
     bindE (request dev st2
              (CreateCommittedResource (CD3DX12_HEAP_PROPERTIES D3D12_HEAP_TYPE_READBACK)
                 D3D12_HEAP_FLAG_NONE (CD3DX12_RESOURCE_DESC_Buffer 88)
                 D3D12_RESOURCE_STATE_COPY_DEST)) (\<lambda>(pReadbackResource, st3).
     bindE (request dev st3 (CloseAndExecute pList)) (\<lambda>(h', st4).
       Inr (st4 \<lparr> m_pQueryBuffer := Some pReadbackResource,
                  m_FenceValue := m_FenceValue st4 + 1 \<rparr>)))))"

subsection \<open>SetRootValues\<close>

text \<open>
  The commands one root value records. The slot is the position in the list when
  \<^verbatim>\<open>Index\<close> is zero. A resource name is looked at first, a heap name only when there is
  no resource name. A resource without runtime data is \<^verbatim>\<open>E_INVALIDARG\<close>; a heap name
  without a heap makes \<^verbatim>\<open>operator[]\<close> hand back a null pointer, which is dereferenced.
\<close>

definition SetRootValues_body ::
  "Device \<Rightarrow> ShaderOpTest \<Rightarrow> bool \<Rightarrow> nat \<Rightarrow> ShaderOpRootValue \<Rightarrow> failure + Command list" where
  "SetRootValues_body dev st isCompute i V =
     (let idx = (if rv_Index V = 0 then word_of_nat i else rv_Index V)
      in
        case rv_ResName V of
          Some resName \<Rightarrow>
            (case m_ResourceData st (Some resName) of
               None \<Rightarrow> Inl E_INVALIDARG
             | Some D \<Rightarrow>
                 if ShaderOpRes D < length (Resources st) then
                   (let transitionTo = TransitionTo (Resources st ! ShaderOpRes D);
                        address = GetGPUVirtualAddress dev (Resource D)
                    in
                      if isCompute then
                        (if transitionTo = D3D12_RESOURCE_STATE_VERTEX_AND_CONSTANT_BUFFER
                         then Inr [SetComputeRootConstantBufferView idx address]
                         else if transitionTo = D3D12_RESOURCE_STATE_UNORDERED_ACCESS
                         then Inr [SetComputeRootUnorderedAccessView idx address]
                         else Inr [SetComputeRootShaderResourceView idx address])
                      else
                        (if transitionTo = D3D12_RESOURCE_STATE_VERTEX_AND_CONSTANT_BUFFER
                         then Inr [SetGraphicsRootConstantBufferView idx address]
                         else if transitionTo = D3D12_RESOURCE_STATE_UNORDERED_ACCESS
                         then Inr [SetGraphicsRootUnorderedAccessView idx address]
                         else Inr [SetGraphicsRootShaderResourceView idx address]))
                 else Inl AccessViolation)
        | None \<Rightarrow>
            (case rv_HeapName V of
               Some heapName \<Rightarrow>
                 (case m_DescriptorHeapsByName st (Some heapName) of
                    None \<Rightarrow> Inl AccessViolation
                  | Some heap \<Rightarrow>
                      (let heapBase = GetGPUDescriptorHandleForHeapStart dev heap
                       in if isCompute then Inr [SetComputeRootDescriptorTable idx heapBase]
                          else Inr [SetGraphicsRootDescriptorTable idx heapBase]))
             | None \<Rightarrow> Inr []))"

fun SetRootValues_loop ::
  "Device \<Rightarrow> ShaderOpTest \<Rightarrow> bool \<Rightarrow> nat \<Rightarrow> ShaderOpRootValue list \<Rightarrow> Command list \<Rightarrow>
     failure + Command list" where
  "SetRootValues_loop dev st isCompute i [] pList = Inr pList"
| "SetRootValues_loop dev st isCompute i (V # Vs) pList =
     (case SetRootValues_body dev st isCompute i V of
        Inl hr \<Rightarrow> Inl hr
      | Inr cmds \<Rightarrow> SetRootValues_loop dev st isCompute (Suc i) Vs (pList @ cmds))"

definition SetRootValues :: "Device \<Rightarrow> ShaderOpTest \<Rightarrow> Command list \<Rightarrow> bool \<Rightarrow> failure + Command list" where
  "SetRootValues dev st pList isCompute =
     SetRootValues_loop dev st isCompute 0 (RootValues st) pList"

subsection \<open>CreateShaders\<close>



text \<open>
  \<^verbatim>\<open>#define CHECK_HR(x) { if (!g_OutputStrFn) VERIFY_SUCCEEDED(x); else {
  HRESULT _check_hr = (x); if (FAILED(_check_hr)) AtlThrow(x); } }\<close>

  The macro names its argument twice. When the argument is a call that fails and an
  output function is set, the call is made a second time and the HRESULT thrown is the
  one the second call hands back. A call is a function of the state of the outside world
  \<open>'w\<close>; it returns its HRESULT, its out-parameter and the world it leaves.
\<close>

definition FAILED :: "32 word \<Rightarrow> bool" where
  "FAILED hr = (sint hr < 0)"

definition CHECK_HR_call ::
  "bool \<Rightarrow> ('w \<Rightarrow> (32 word \<times> 'a) \<times> 'w) \<Rightarrow> 'w \<Rightarrow> (failure + 'a) \<times> 'w" where
  "CHECK_HR_call g_OutputStrFn x w =
     (case x w of
        ((hr, a), w1) \<Rightarrow>
          if \<not> FAILED hr then (Inr a, w1)
          else if \<not> g_OutputStrFn then (Inl (HR_EXTERNAL hr), w1)
          else (case x w1 of ((hr', a'), w2) \<Rightarrow> (Inl (HR_EXTERNAL hr'), w2)))"








section \<open>The string table\<close>

text \<open>
  \<^verbatim>\<open>string_table\<close> owns a vector of character buffers, \<^verbatim>\<open>m_strings\<close>, and a set of
  pointers to them, \<^verbatim>\<open>m_values\<close>. A pointer to a stored string is the index of its
  buffer in \<^verbatim>\<open>m_strings\<close>: each buffer is an allocation of its own, moving the vector
  into \<^verbatim>\<open>m_strings\<close> keeps the buffer, and nothing is ever removed.
\<close>

record string_table =
  m_values :: "nat list"
  m_strings :: "string list"

definition string_at :: "string_table \<Rightarrow> nat \<Rightarrow> string option" where
  "string_at t p = (if p < length (m_strings t) then Some (m_strings t ! p) else None)"

text \<open>
  Modelled from the spec: the hash and the equality of the set, \<^verbatim>\<open>HashStr\<close> and
  \<^verbatim>\<open>PredStr\<close>, are declared in the header \<^verbatim>\<open>ShaderOpTest.h\<close>, which is not among the
  sources. The specification has strings deduplicated by content, so \<^verbatim>\<open>PredStr\<close>
  compares the characters of the two strings, and \<^verbatim>\<open>find\<close> returns a stored pointer
  whose string has the content looked for.
\<close>

definition PredStr :: "string_table \<Rightarrow> string \<Rightarrow> nat \<Rightarrow> bool" where
  "PredStr t pValue p = (string_at t p = Some pValue)"

text \<open>\<^verbatim>\<open>LPCSTR string_table::insert(LPCSTR pValue)\<close>: the pointer returned and the table left.\<close>

definition string_table_insert :: "string_table \<Rightarrow> string \<Rightarrow> nat \<times> string_table" where
  "string_table_insert t pValue =
     (case find (PredStr t pValue) (m_values t) of
        None \<Rightarrow>
          (let result = length (m_strings t)
           in (result, t \<lparr> m_values := result # m_values t,
                           m_strings := m_strings t @ [pValue] \<rparr>))
      | Some i \<Rightarrow> (i, t))"

definition string_table_empty :: string_table where
  "string_table_empty = \<lparr> m_values = [], m_strings = [] \<rparr>"

text \<open>A sequence of insertions: the pointers returned, in order, and the table left.\<close>

fun string_table_inserts :: "string_table \<Rightarrow> string list \<Rightarrow> nat list \<times> string_table" where
  "string_table_inserts t [] = ([], t)"
| "string_table_inserts t (s # ss) =
     (case string_table_insert t s of
        (p, t') \<Rightarrow> (case string_table_inserts t' ss of (ps, t'') \<Rightarrow> (p # ps, t'')))"

section \<open>The words of the specification\<close>

subsection \<open>Target profiles\<close>

text \<open>
  A target profile is a stage, an underscore and a version: \<open>cs_6_0\<close>, \<open>ps_5_1\<close>,
  \<open>vs_4_0_level_9_1\<close>, \<open>lib_6_3\<close>. The stage is the text before the first underscore,
  two or three lower-case letters; the version is a major number of one digit, an
  underscore and a minor part. The major version is the number after the first
  underscore.
\<close>

definition is_digit :: "char \<Rightarrow> bool" where
  "is_digit c = (let n = (of_char c :: nat) in 48 \<le> n \<and> n \<le> 57)"


definition is_upper :: "char \<Rightarrow> bool" where
  "is_upper c = (let n = (of_char c :: nat) in 65 \<le> n \<and> n \<le> 90)"

definition digits_value :: "string \<Rightarrow> nat" where
  "digits_value ds = foldl (\<lambda>a c. a * 10 + (of_char c - 48)) 0 ds"










subsection \<open>Letter case\<close>

text \<open>
  Two characters that are the same letter in either case, and two names that differ in
  the case of their letters only.
\<close>

definition same_letter :: "char \<Rightarrow> char \<Rightarrow> bool" where
  "same_letter c d =
     (c = d \<or> (is_upper c \<and> (of_char d :: nat) = of_char c + 32) \<or>
      (is_upper d \<and> (of_char c :: nat) = of_char d + 32))"

definition case_variation :: "string \<Rightarrow> string \<Rightarrow> bool" where
  "case_variation s name = list_all2 same_letter s name"

subsection \<open>Descriptor kinds\<close>

text \<open>The kinds a descriptor may have: UAV, SRV, CBV and RTV, in any letter case.\<close>

definition Kind_is_known :: "string option \<Rightarrow> bool" where
  "Kind_is_known kind =
     (case kind of
        None \<Rightarrow> False
      | Some K \<Rightarrow> stricmp_eq K ''UAV'' \<or> stricmp_eq K ''SRV'' \<or>
                  stricmp_eq K ''CBV'' \<or> stricmp_eq K ''RTV'')"

subsection \<open>The literals of a byte payload\<close>

text \<open>
  The literals of a text are its maximal runs of characters that are not separators.
  \<open>literals\<close> splits the text at the separators; \<open>literal_tails\<close> gives, for each
  literal in order, the text from its first character on.
\<close>

fun split_literals :: "string \<Rightarrow> string \<Rightarrow> string list" where
  "split_literals cur [] = (if cur = [] then [] else [cur])"
| "split_literals cur (c # cs) =
     (if isByteInitSeparator c
      then (if cur = [] then split_literals [] cs else cur # split_literals [] cs)
      else split_literals (cur @ [c]) cs)"

definition literals :: "string \<Rightarrow> string list" where
  "literals text = split_literals [] text"

fun literal_tails_from :: "bool \<Rightarrow> string \<Rightarrow> string list" where
  "literal_tails_from inside [] = []"
| "literal_tails_from inside (c # cs) =
     (if isByteInitSeparator c then literal_tails_from False cs
      else if inside then literal_tails_from True cs
      else (c # cs) # literal_tails_from True cs)"

definition literal_tails :: "string \<Rightarrow> string list" where
  "literal_tails text = literal_tails_from False text"

text \<open>
  The sentinels and the values they stand for: \<open>nan\<close> for the NaN of the C library,
  \<open>inf\<close> and \<open>+inf\<close> for negative infinity, \<open>-inf\<close> for positive infinity, \<open>denorm\<close> for
  \<^verbatim>\<open>FLT_MIN / 2\<close> and \<open>-denorm\<close> for its negation, in any letter case.
\<close>

definition is_sentinel :: "string \<Rightarrow> bool" where
  "is_sentinel tok =
     (stricmp_eq tok ''nan'' \<or> stricmp_eq tok ''inf'' \<or> stricmp_eq tok ''+inf'' \<or>
      stricmp_eq tok ''-inf'' \<or> stricmp_eq tok ''denorm'' \<or> stricmp_eq tok ''-denorm'')"

definition sentinel_value :: "CRT \<Rightarrow> string \<Rightarrow> 32 word" where
  "sentinel_value crt tok =
     (if stricmp_eq tok ''nan'' then NAN crt
      else if stricmp_eq tok ''inf'' \<or> stricmp_eq tok ''+inf'' then fneg INFINITY
      else if stricmp_eq tok ''-inf'' then INFINITY
      else if stricmp_eq tok ''denorm'' then FLT_MIN_div_2
      else fneg FLT_MIN_div_2)"

subsection \<open>IEEE-754 binary32\<close>

text \<open>
  The fields of a bit pattern, the classes the claims name, and the magnitude of a
  finite value counted in units of \<open>2\<^sup>-\<^sup>1\<^sup>4\<^sup>9\<close>, the smallest positive subnormal number.
\<close>

definition f32_exponent :: "32 word \<Rightarrow> nat" where
  "f32_exponent f = unat (drop_bit 23 f AND 0xFF)"

definition f32_mantissa :: "32 word \<Rightarrow> nat" where
  "f32_mantissa f = unat (f AND 0x7FFFFF)"

definition f32_negative :: "32 word \<Rightarrow> bool" where
  "f32_negative f = (f AND 0x80000000 \<noteq> 0)"

definition f32_is_nan :: "32 word \<Rightarrow> bool" where
  "f32_is_nan f = (f32_exponent f = 255 \<and> f32_mantissa f \<noteq> 0)"

definition f32_is_infinity :: "32 word \<Rightarrow> bool" where
  "f32_is_infinity f = (f32_exponent f = 255 \<and> f32_mantissa f = 0)"

definition f32_is_subnormal :: "32 word \<Rightarrow> bool" where
  "f32_is_subnormal f = (f32_exponent f = 0 \<and> f32_mantissa f \<noteq> 0)"

definition f32_units :: "32 word \<Rightarrow> nat" where
  "f32_units f =
     (if f32_exponent f = 0 then f32_mantissa f
      else (2 ^ 23 + f32_mantissa f) * 2 ^ (f32_exponent f - 1))"

subsection \<open>A C runtime\<close>

text \<open>
  An instance of the C runtime, after the C standard, for the examples: \<open>wtol_model\<close>
  reads white space, a sign and decimal digits, and saturates with \<^verbatim>\<open>ERANGE\<close>;
  \<open>wcstof_model\<close> reads white space, a sign and then \<open>inf\<close>, \<open>nan\<close> or a decimal
  literal with an optional exponent, rounds to the nearest value (ties to even), and
  returns zero when no literal is there. Hexadecimal literals and NaN payloads are not
  covered. \<^verbatim>\<open>ERANGE\<close> is set on overflow and when a nonzero literal gives a result below
  \<^verbatim>\<open>FLT_MIN\<close>.
\<close>

definition isspace_c :: "char \<Rightarrow> bool" where
  "isspace_c c = (let n = (of_char c :: nat) in n = 32 \<or> (9 \<le> n \<and> n \<le> 13))"

definition read_sign :: "string \<Rightarrow> bool \<times> string" where
  "read_sign s =
     (case s of
        [] \<Rightarrow> (False, [])
      | c # cs \<Rightarrow> if c = CHR ''-'' then (True, cs) else if c = CHR ''+'' then (False, cs)
                  else (False, s))"

definition wtol_model :: "string \<Rightarrow> 32 word \<times> bool" where
  "wtol_model s =
     (case read_sign (dropWhile isspace_c s) of
        (neg, s') \<Rightarrow>
          (let v = int (digits_value (takeWhile is_digit s'));
               sv = (if neg then - v else v)
           in if sv > 2147483647 then (0x7FFFFFFF, True)
              else if sv < - 2147483648 then (0x80000000, True)
              else (word_of_int sv, False)))"

definition round_half_even :: "nat \<Rightarrow> nat \<Rightarrow> nat" where
  "round_half_even a b =
     (let d = a div b; r = a mod b
      in if 2 * r < b then d else if b < 2 * r then d + 1 else if even d then d else d + 1)"

text \<open>
  The number of binary digits of a natural number. A magnitude of \<open>y\<close> units of
  \<open>2\<^sup>-\<^sup>1\<^sup>4\<^sup>9\<close> (rounded down) is rounded to 24 digits: \<open>k\<close> is the number of
  digits dropped, and the exponent field of the result unless the rounding carries.
\<close>

function bit_length :: "nat \<Rightarrow> nat" where
  "bit_length n = (if n = 0 then 0 else 1 + bit_length (n div 2))"
  by pat_completeness auto
termination
  by (relation "measure (\<lambda>n. n)") auto

declare bit_length.simps [simp del]

definition f32_of_ratio :: "nat \<Rightarrow> nat \<Rightarrow> 32 word \<times> bool" where
  "f32_of_ratio num den =
     (if num = 0 \<or> den = 0 then (0, False)
      else
        (let k = bit_length (num * 2 ^ 149 div den) - 24;
             m = round_half_even (num * 2 ^ 149) (den * 2 ^ k);
             bits = k * 2 ^ 23 + m
         in if bits \<ge> 0x7F800000 then (INFINITY, True)
            else (word_of_nat bits, bits < 0x00800000)))"

definition read_exponent :: "string \<Rightarrow> int" where
  "read_exponent s =
     (case s of
        [] \<Rightarrow> 0
      | c # cs \<Rightarrow>
          if c = CHR ''e'' \<or> c = CHR ''E'' then
            (case read_sign cs of
               (neg, ds) \<Rightarrow>
                 if takeWhile is_digit ds = [] then 0
                 else (let e = int (digits_value (takeWhile is_digit ds))
                       in if neg then - e else e))
          else 0)"

definition decimal_literal :: "string \<Rightarrow> string \<times> string \<times> string" where
  "decimal_literal s =
     (case dropWhile is_digit s of
        [] \<Rightarrow> (takeWhile is_digit s, [], [])
      | c # cs \<Rightarrow>
          if c = CHR ''.'' then (takeWhile is_digit s, takeWhile is_digit cs, dropWhile is_digit cs)
          else (takeWhile is_digit s, [], c # cs))"

definition decimal_ratio :: "string \<Rightarrow> string \<Rightarrow> int \<Rightarrow> nat \<times> nat" where
  "decimal_ratio ipart fpart ex =
     (if ex \<ge> int (length fpart)
      then (digits_value (ipart @ fpart) * 10 ^ nat (ex - int (length fpart)), 1)
      else (digits_value (ipart @ fpart), 10 ^ nat (int (length fpart) - ex)))"

definition wcstof_model :: "string \<Rightarrow> 32 word \<times> bool" where
  "wcstof_model s =
     (case read_sign (dropWhile isspace_c s) of
        (neg, s') \<Rightarrow>
          if stricmp_eq (take 3 s') ''inf'' then (if neg then fneg INFINITY else INFINITY, False)
          else if stricmp_eq (take 3 s') ''nan'' then (if neg then fneg 0x7FC00000 else 0x7FC00000, False)
          else
            (case decimal_literal s' of
               (ipart, fpart, rest) \<Rightarrow>
                 if ipart = [] \<and> fpart = [] then (0, False)
                 else
                   (case decimal_ratio ipart fpart (read_exponent rest) of
                      (num, den) \<Rightarrow>
                        (case f32_of_ratio num den of
                           (f, erange) \<Rightarrow> (if neg then fneg f else f, erange)))))"

definition crt_model :: CRT where
  "crt_model = \<lparr> wcstof = wcstof_model, wtol = wtol_model, NAN = 0x7FC00000 \<rparr>"


subsection \<open>Root values, as the specification describes them\<close>

text \<open>
  The kind of view a resource is bound as is a function of its declared target state
  alone; the slot is the position of the root value when its \<^verbatim>\<open>Index\<close> is zero. A root
  value is bound to a resource when it names one, and to a heap when it names a heap
  and no resource.
\<close>

datatype BindingKind = ConstantBufferView | UnorderedAccessView | ShaderResourceView

definition binding_kind :: "32 word \<Rightarrow> BindingKind" where
  "binding_kind transitionTo =
     (if transitionTo = D3D12_RESOURCE_STATE_VERTEX_AND_CONSTANT_BUFFER then ConstantBufferView
      else if transitionTo = D3D12_RESOURCE_STATE_UNORDERED_ACCESS then UnorderedAccessView
      else ShaderResourceView)"

definition root_slot :: "nat \<Rightarrow> ShaderOpRootValue \<Rightarrow> 32 word" where
  "root_slot i V = (if rv_Index V = 0 then word_of_nat i else rv_Index V)"

fun bind_view :: "bool \<Rightarrow> BindingKind \<Rightarrow> 32 word \<Rightarrow> 64 word \<Rightarrow> Command" where
  "bind_view True ConstantBufferView slot address = SetComputeRootConstantBufferView slot address"
| "bind_view True UnorderedAccessView slot address = SetComputeRootUnorderedAccessView slot address"
| "bind_view True ShaderResourceView slot address = SetComputeRootShaderResourceView slot address"
| "bind_view False ConstantBufferView slot address = SetGraphicsRootConstantBufferView slot address"
| "bind_view False UnorderedAccessView slot address = SetGraphicsRootUnorderedAccessView slot address"
| "bind_view False ShaderResourceView slot address = SetGraphicsRootShaderResourceView slot address"

definition bind_table :: "bool \<Rightarrow> 32 word \<Rightarrow> 64 word \<Rightarrow> Command" where
  "bind_table isCompute slot heapBase =
     (if isCompute then SetComputeRootDescriptorTable slot heapBase
      else SetGraphicsRootDescriptorTable slot heapBase)"

definition root_value_commands :: "Device \<Rightarrow> ShaderOpTest \<Rightarrow> bool \<Rightarrow> nat \<Rightarrow> ShaderOpRootValue \<Rightarrow> Command list" where
  "root_value_commands dev st isCompute i V =
     (case rv_ResName V of
        Some resName \<Rightarrow>
          (case m_ResourceData st (Some resName) of
             Some D \<Rightarrow>
               [bind_view isCompute (binding_kind (TransitionTo (Resources st ! ShaderOpRes D)))
                  (root_slot i V) (GetGPUVirtualAddress dev (Resource D))]
           | None \<Rightarrow> [])
      | None \<Rightarrow>
          (case rv_HeapName V of
             Some heapName \<Rightarrow>
               (case m_DescriptorHeapsByName st (Some heapName) of
                  Some heap \<Rightarrow>
                    [bind_table isCompute (root_slot i V)
                       (GetGPUDescriptorHandleForHeapStart dev heap)]
                | None \<Rightarrow> [])
           | None \<Rightarrow> []))"
section \<open>Examples\<close>

text \<open>Nodes as the tokenizer hands them over, and the inputs of the examples below.\<close>

definition element :: "string \<Rightarrow> (string \<times> string) list \<Rightarrow> bool \<Rightarrow> XmlNode" where
  "element name attrs isEmpty =
     \<lparr> NodeType = XmlNodeType_Element, LocalName = name, Value = [], Attributes = attrs,
       EmptyElement = isEmpty, Depth = 0 \<rparr>"

definition text_node :: "string \<Rightarrow> XmlNode" where
  "text_node v =
     \<lparr> NodeType = XmlNodeType_Text, LocalName = [], Value = v, Attributes = [],
       EmptyElement = False, Depth = 1 \<rparr>"

definition end_element :: "string \<Rightarrow> XmlNode" where
  "end_element name =
     \<lparr> NodeType = XmlNodeType_EndElement, LocalName = name, Value = [], Attributes = [],
       EmptyElement = False, Depth = 1 \<rparr>"

definition descriptor_zero :: ShaderOpDescriptor where
  "descriptor_zero =
     \<lparr> d_Name = None, d_ResName = None, d_CounterName = None, d_Kind = None,
       UavDesc = \<lparr> UavFormat = 0, ViewDimension = 0, View = Buffer 0 0 0 0 0 \<rparr> \<rparr>"

definition descriptor_raw_upper :: XmlNode where
  "descriptor_raw_upper =
     element ''Descriptor''
       [(''Name'', ''U0''), (''Kind'', ''UAV''), (''Dimension'', ''BUFFER''),
        (''NumElements'', ''4''), (''Flags'', ''RAW'')] True"

definition descriptor_raw_lower :: XmlNode where
  "descriptor_raw_lower =
     element ''Descriptor''
       [(''Name'', ''U0''), (''Kind'', ''UAV''), (''Dimension'', ''BUFFER''),
        (''NumElements'', ''4''), (''Flags'', ''raw'')] True"

definition descriptor_no_kind :: XmlNode where
  "descriptor_no_kind =
     element ''Descriptor'' [(''Name'', ''U0''), (''Dimension'', ''BUFFER'')] True"

definition descriptor_2darray :: XmlNode where
  "descriptor_2darray =
     element ''Descriptor''
       [(''Name'', ''T0''), (''Kind'', ''uav''), (''Dimension'', ''TEXTURE2DARRAY''),
        (''MipSlice'', ''3''), (''ArraySize'', ''2''), (''PlaneSlice'', ''7'')] True"






definition resource_zero :: ShaderOpResource where
  "resource_zero =
     \<lparr> r_Name = None, r_Init = None, ReadBack = False,
       HeapProperties =
         \<lparr> Type = 0, CPUPageProperty = 0, MemoryPoolPreference = 0, CreationNodeMask = 0,
           VisibleNodeMask = 0 \<rparr>,
       Desc =
         \<lparr> Dimension = 0, Alignment = 0, Width = 0, Height = 0, DepthOrArraySize = 0,
           MipLevels = 0, Format = 0, SampleDesc = \<lparr> Count = 0, Quality = 0 \<rparr>, Layout = 0,
           Flags = 0 \<rparr>,
       HeapFlags = 0, InitialResourceState = 0, TransitionTo = 0, InitBytes = [] \<rparr>"

definition resource_frombytes :: XmlNode where
  "resource_frombytes =
     element ''Resource''
       [(''Name'', ''SVerts''), (''Init'', ''FromBytes''), (''Dimension'', ''buffer''),
        (''Height'', ''7''), (''DepthOrArraySize'', ''4''), (''MipLevels'', ''3''),
        (''Format'', ''R32_FLOAT''), (''SampleCount'', ''4''), (''SampleQual'', ''2''),
        (''Layout'', ''STANDARD_SWIZZLE'')] False"

definition resource_frombytes_nodes :: IXmlReader where
  "resource_frombytes_nodes =
     [resource_frombytes, text_node ''1.0, 2.0, 3.0'', end_element ''Resource'']"

definition device_ok :: Device where
  "device_ok =
     \<lparr> Respond = (\<lambda>n req. Inr n),
       GetGPUVirtualAddress = (\<lambda>h. 0x1000 * word_of_nat h),
       GetGPUDescriptorHandleForHeapStart = (\<lambda>h. 0x100000 * word_of_nat h) \<rparr>"

definition state_with :: "ShaderOpResource list \<Rightarrow> ShaderOpRootValue list \<Rightarrow> ShaderOpTest" where
  "state_with rs vs =
     \<lparr> Resources = rs, RootValues = vs, m_ResourceData = Map.empty,
       m_DescriptorHeapsByName = Map.empty, m_pQueryBuffer = None, m_FenceValue = 1,
       DeviceCalls = 0 \<rparr>"

definition root_values_state :: ShaderOpTest where
  "root_values_state =
     \<lparr> Resources =
         [resource_zero \<lparr> r_Name := Some ''CB'',
                          TransitionTo := D3D12_RESOURCE_STATE_VERTEX_AND_CONSTANT_BUFFER \<rparr>,
          resource_zero \<lparr> r_Name := Some ''U'',
                          TransitionTo := D3D12_RESOURCE_STATE_UNORDERED_ACCESS \<rparr>,
          resource_zero \<lparr> r_Name := Some ''S'', TransitionTo := D3D12_RESOURCE_STATE_COPY_DEST \<rparr>],
       RootValues =
         [\<lparr> rv_ResName = Some ''CB'', rv_HeapName = None, rv_Index = 0 \<rparr>,
          \<lparr> rv_ResName = Some ''U'', rv_HeapName = Some ''H'', rv_Index = 0 \<rparr>,
          \<lparr> rv_ResName = Some ''S'', rv_HeapName = None, rv_Index = 5 \<rparr>,
          \<lparr> rv_ResName = None, rv_HeapName = Some ''H'', rv_Index = 0 \<rparr>],
       m_ResourceData =
         [Some ''CB'' \<mapsto> \<lparr> ShaderOpRes = 0, Resource = 1,
                            ResourceState = D3D12_RESOURCE_STATE_VERTEX_AND_CONSTANT_BUFFER,
                            rd_ReadBack = None \<rparr>,
          Some ''U'' \<mapsto> \<lparr> ShaderOpRes = 1, Resource = 2,
                           ResourceState = D3D12_RESOURCE_STATE_UNORDERED_ACCESS,
                           rd_ReadBack = None \<rparr>,
          Some ''S'' \<mapsto> \<lparr> ShaderOpRes = 2, Resource = 3,
                           ResourceState = D3D12_RESOURCE_STATE_COPY_DEST,
                           rd_ReadBack = None \<rparr>],
       m_DescriptorHeapsByName = [Some ''H'' \<mapsto> 7],
       m_pQueryBuffer = None, m_FenceValue = 1, DeviceCalls = 0 \<rparr>"

section \<open>Parsing steps\<close>

lemma bindP_Inr:
  "(bindP m f errno = Inr r) = (\<exists>a errno1. m errno = Inr (a, errno1) \<and> f a errno1 = Inr r)"
  by (auto simp: bindP_def split: sum.splits)

lemma bindP_Inl:
  "(bindP m f errno = Inl hr) =
     (m errno = Inl hr \<or> (\<exists>a errno1. m errno = Inr (a, errno1) \<and> f a errno1 = Inl hr))"
  by (auto simp: bindP_def split: sum.splits)

lemma returnP_Inr: "(returnP a errno = Inr r) = (r = (a, errno))"
  by (auto simp: returnP_def)

lemma CHECK_HR_Inr: "(CHECK_HR x errno = Inr r) = (\<exists>a. x = Inr a \<and> r = (a, errno))"
  by (auto simp: CHECK_HR_def split: sum.splits)

lemma CHECK_HR_value_Inr:
  "(CHECK_HR_value x errno = Inr r) = (\<exists>hr a. x = Inr (hr, a) \<and> r = (a, errno))"
  by (auto simp: CHECK_HR_value_def split: sum.splits)

text \<open>The value a numeric attribute has when it is read without failure.\<close>

lemma ReadAttrUINT64_value:
  assumes "ReadAttrUINT64 crt pReader name dflt errno = Inr (v, errno')"
  shows "v = (case MoveToAttributeByName pReader name of
                None \<Rightarrow> dflt
              | Some pText \<Rightarrow> scast (fst (wtol crt pText))) \<and> errno' = errno"
  using assms
  by (auto simp: ReadAttrUINT64_def split: option.splits prod.splits if_splits)

lemma ReadAttrUINT_value:
  assumes "ReadAttrUINT crt pReader name dflt errno = Inr (v, errno')"
  shows "v = ucast (case MoveToAttributeByName pReader name of
                      None \<Rightarrow> (ucast dflt :: 64 word)
                    | Some pText \<Rightarrow> scast (fst (wtol crt pText))) \<and> errno' = errno"
proof -
  from assms obtain u e1 where u: "ReadAttrUINT64 crt pReader name (ucast dflt) errno = Inr (u, e1)"
    and c: "CHECK_HR (UInt64ToUInt u) e1 = Inr (v, errno')"
    by (auto simp: ReadAttrUINT_def bindP_Inr)
  from c have "v = ucast u" "errno' = e1"
    by (auto simp: CHECK_HR_Inr UInt64ToUInt_def split: if_splits)
  with ReadAttrUINT64_value [OF u] show ?thesis by simp
qed

section \<open>Names without regard to case\<close>

lemma tolower_c_upper:
  assumes "is_upper x"
  shows "(of_char (tolower_c x) :: nat) = of_char x + 32"
  using assms
proof (cases x)
  case (Char b0 b1 b2 b3 b4 b5 b6 b7)
  with assms have "\<not> b5"
    by (cases b5; cases b6; cases b7; cases b4; cases b3; cases b2; cases b1; cases b0)
      (simp_all add: is_upper_def Let_def)
  with assms Char show ?thesis
    by (simp add: tolower_c_def is_upper_def Let_def)
qed

lemma tolower_c_not_upper:
  assumes "\<not> is_upper x"
  shows "tolower_c x = x"
  using assms by (auto simp: tolower_c_def is_upper_def Let_def)

lemma same_letter_tolower:
  assumes "same_letter c d"
  shows "tolower_c c = tolower_c d"
proof -
  have up: "tolower_c x = tolower_c y"
    if "is_upper x" "(of_char y :: nat) = of_char x + 32" for x y
  proof -
    have "(of_char y :: nat) = of_char (tolower_c x)"
      using that tolower_c_upper by simp
    then have "y = tolower_c x"
      by (metis char_of_char)
    moreover have "\<not> is_upper y"
      using that by (simp add: is_upper_def Let_def)
    ultimately show ?thesis
      by (simp add: tolower_c_not_upper)
  qed
  from assms consider "c = d" | "is_upper c" "(of_char d :: nat) = of_char c + 32"
    | "is_upper d" "(of_char c :: nat) = of_char d + 32"
    by (auto simp: same_letter_def)
  then show ?thesis
  proof cases
    case 1 then show ?thesis by simp
  next
    case 2 then show ?thesis by (rule up)
  next
    case 3 then show ?thesis using up [of d c] by simp
  qed
qed

lemma case_variation_stricmp_eq:
  assumes "case_variation s name"
  shows "stricmp_eq s name"
  using assms unfolding case_variation_def stricmp_eq_def
  by (induction rule: list_all2_induct) (simp_all add: same_letter_tolower)

lemma GetEnumValue_values_stricmp:
  assumes "stricmp_eq s name"
  shows "GetEnumValue_values s T = GetEnumValue_values name T"
  using assms by (induction T) (auto simp: stricmp_eq_def)

lemma GetEnumValue_tables_stricmp:
  assumes "stricmp_eq s name"
  shows "GetEnumValue_tables s K Ts = GetEnumValue_tables name K Ts"
  using assms by (induction Ts) (auto simp: GetEnumValue_values_stricmp split: option.splits)

lemma GetEnumValue_stricmp:
  assumes "stricmp_eq s name"
  shows "GetEnumValue s K = GetEnumValue name K"
  using assms by (simp add: GetEnumValue_def GetEnumValue_tables_stricmp)

lemma tolower_c_simps:
  "map tolower_c ''UAV'' = ''uav''" "map tolower_c ''SRV'' = ''srv''"
  "map tolower_c ''CBV'' = ''cbv''" "map tolower_c ''RTV'' = ''rtv''"
  "map tolower_c ''RAW'' = ''raw''" "map tolower_c ''raw'' = ''raw''"
  "map tolower_c ''BUFFER'' = ''buffer''" "map tolower_c ''TEXTURE2DARRAY'' = ''texture2darray''"
  by (simp_all add: tolower_c_def)

lemma GetEnumValue_BUFFER: "GetEnumValue ''BUFFER'' RESOURCE_DIMENSION = Inr D3D12_RESOURCE_DIMENSION_BUFFER"
  by (simp add: GetEnumValue_def g_ParserEnumTables_def RESOURCE_DIMENSION_TABLE_def
      stricmp_eq_def tolower_c_def)

lemma GetEnumValue_UAV_BUFFER: "GetEnumValue ''BUFFER'' UAV_DIMENSION = Inr D3D12_UAV_DIMENSION_BUFFER"
  by (simp add: GetEnumValue_def g_ParserEnumTables_def UAV_DIMENSION_TABLE_def
      stricmp_eq_def tolower_c_def)

lemma GetEnumValue_TEXTURE2DARRAY:
  "GetEnumValue ''TEXTURE2DARRAY'' UAV_DIMENSION = Inr D3D12_UAV_DIMENSION_TEXTURE2DARRAY"
  by (simp add: GetEnumValue_def g_ParserEnumTables_def UAV_DIMENSION_TABLE_def
      stricmp_eq_def tolower_c_def)

section \<open>Descriptors\<close>

lemma ReadAtElementName_here:
  assumes "NodeType n = XmlNodeType_Element" "LocalName n = name"
  shows "ReadAtElementName (n # ns) name = (True, n # ns)"
  using assms by simp

lemma ParseDescriptor_here:
  assumes "NodeType n = XmlNodeType_Element" "LocalName n = ''Descriptor''"
  shows "ParseDescriptor crt (n # ns) pDesc =
           bindP (ParseDescriptor_attributes crt (n # ns) pDesc) ParseDescriptor_kind"
  using assms by (simp add: ParseDescriptor_def)

lemma ParseDescriptor_attributes_Inr:
  assumes "ParseDescriptor_attributes crt pReader pDesc errno = Inr (d, errno')"
  shows "\<exists>hrFormat format hrDim dim errno1.
           ReadAttrDXGI_FORMAT pReader ''Format'' = Inr (hrFormat, format) \<and>
           ReadAttrUAV_DIMENSION pReader ''Dimension'' = Inr (hrDim, dim) \<and>
           ParseDescriptor_switch crt pReader hrFormat
             ((UavDesc pDesc) \<lparr> UavFormat := format, ViewDimension := dim \<rparr>) errno =
             Inr (UavDesc d, errno') \<and>
           d_Kind d = ReadAttrStr pReader ''Kind''"
  using assms
  by (auto simp: ParseDescriptor_attributes_def Let_def bindP_Inr returnP_Inr CHECK_HR_Inr
      CHECK_HR_value_Inr split: prod.splits)

lemma ParseDescriptor_switch_BUFFER:
  assumes "ViewDimension uav = D3D12_UAV_DIMENSION_BUFFER"
    and "ParseDescriptor_switch crt pReader hrFormat uav errno = Inr (uav', errno')"
  shows "UavFormat uav' =
           (if hrFormat = S_FALSE \<and>
               (\<exists>f. MoveToAttributeByName pReader ''Flags'' = Some f \<and> stricmp_eq f ''RAW'')
            then DXGI_FORMAT_R32_TYPELESS else UavFormat uav)"
proof -
  have "stricmp_eq f ''RAW'' \<Longrightarrow> f \<noteq> []" for f
    by (auto simp: stricmp_eq_def)
  then show ?thesis
    using assms
    by (auto simp: ParseDescriptor_switch_def bindP_Inr returnP_Inr Let_def ReadAttrStr_def
        split: option.splits if_splits)
qed

lemma ParseDescriptor_switch_TEXTURE2DARRAY:
  assumes "ViewDimension uav = D3D12_UAV_DIMENSION_TEXTURE2DARRAY"
    and "ParseDescriptor_switch crt pReader hrFormat uav errno = Inr (uav', errno')"
  shows "\<exists>mipSlice firstArraySlice arraySize.
           View uav' = Texture2DArray mipSlice firstArraySlice arraySize mipSlice \<and>
           mipSlice = ucast (case MoveToAttributeByName pReader ''MipSlice'' of
                               None \<Rightarrow> (0 :: 64 word)
                             | Some pText \<Rightarrow> scast (fst (wtol crt pText)))"
proof -
  from assms obtain m f a p e1 e2 e3
    where m: "ReadAttrUINT crt pReader ''MipSlice'' 0 errno = Inr (m, e1)"
      and p: "ReadAttrUINT crt pReader ''MipSlice'' 0 e3 = Inr (p, errno')"
      and v: "uav' = uav \<lparr> View := Texture2DArray m f a p \<rparr>"
    by (auto simp: ParseDescriptor_switch_def bindP_Inr returnP_Inr)
  from ReadAttrUINT_value [OF m] ReadAttrUINT_value [OF p] v show ?thesis
    by (auto split: option.splits)
qed

text \<open>
  An attribute added in front of the others hides an attribute of the same name and no
  other.
\<close>

lemma MoveToAttributeByName_other:
  assumes "name \<noteq> other"
  shows "MoveToAttributeByName (n \<lparr> Attributes := (other, v) # Attributes n \<rparr> # ns) name =
         MoveToAttributeByName (n # ns) name"
  using assms by (simp add: MoveToAttributeByName_def)

lemma ParseDescriptor_switch_PlaneSlice:
  assumes "ViewDimension uav \<noteq> D3D12_UAV_DIMENSION_TEXTURE2D"
  shows "ParseDescriptor_switch crt (n \<lparr> Attributes := (''PlaneSlice'', v) # Attributes n \<rparr> # ns)
           hrFormat uav =
         ParseDescriptor_switch crt (n # ns) hrFormat uav"
  using assms
  by (simp add: ParseDescriptor_switch_def ReadAttrUINT_def ReadAttrUINT64_def ReadAttrStr_def
      MoveToAttributeByName_other)

lemma ParseDescriptor_attributes_PlaneSlice:
  assumes "ReadAttrUAV_DIMENSION (n # ns) ''Dimension'' = Inr (hrDim, dim)"
    and "dim \<noteq> D3D12_UAV_DIMENSION_TEXTURE2D"
  shows "ParseDescriptor_attributes crt
           (n \<lparr> Attributes := (''PlaneSlice'', v) # Attributes n \<rparr> # ns) pDesc =
         ParseDescriptor_attributes crt (n # ns) pDesc"
proof -
  let ?rd' = "n \<lparr> Attributes := (''PlaneSlice'', v) # Attributes n \<rparr> # ns"
  have dim': "ReadAttrUAV_DIMENSION ?rd' ''Dimension'' = Inr (hrDim, dim)"
    using assms(1) by (simp add: ReadAttrUAV_DIMENSION_def ReadAttrEnumT_def MoveToAttributeByName_other)
  have fmt: "ReadAttrDXGI_FORMAT ?rd' ''Format'' = ReadAttrDXGI_FORMAT (n # ns) ''Format''"
    by (simp add: ReadAttrDXGI_FORMAT_def ReadAttrEnumT_def MoveToAttributeByName_other)
  have strs: "ReadAttrStr ?rd' ''Name'' = ReadAttrStr (n # ns) ''Name''"
    "ReadAttrStr ?rd' ''ResName'' = ReadAttrStr (n # ns) ''ResName''"
    "ReadAttrStr ?rd' ''CounterName'' = ReadAttrStr (n # ns) ''CounterName''"
    "ReadAttrStr ?rd' ''Kind'' = ReadAttrStr (n # ns) ''Kind''"
    by (simp_all add: ReadAttrStr_def MoveToAttributeByName_other)
  have sw: "ParseDescriptor_switch crt ?rd' hr
              ((UavDesc pDesc) \<lparr> UavFormat := f, ViewDimension := dim \<rparr>) =
            ParseDescriptor_switch crt (n # ns) hr
              ((UavDesc pDesc) \<lparr> UavFormat := f, ViewDimension := dim \<rparr>)" for hr f
    using assms(2) by (intro ParseDescriptor_switch_PlaneSlice) simp
  show ?thesis
    unfolding ParseDescriptor_attributes_def strs fmt dim' assms(1)
    by (simp add: CHECK_HR_value_def bindP_def sw)
qed

lemma ParseDescriptor_kind_cases:
  "ParseDescriptor_kind d errno =
     (if Kind_is_known (d_Kind d) then Inr (d, errno) else Inl E_INVALIDARG)"
  by (auto simp: ParseDescriptor_kind_def Kind_is_known_def failP_def returnP_def
      split: option.splits)


text \<open>Forward rules: what each step returns when the steps before it have succeeded.\<close>

lemma ReadAttrUINT64_absent:
  assumes "MoveToAttributeByName pReader name = None"
  shows "ReadAttrUINT64 crt pReader name dflt errno = Inr (dflt, errno)"
  using assms by (simp add: ReadAttrUINT64_def)

lemma ReadAttrUINT_absent:
  assumes "MoveToAttributeByName pReader name = None"
  shows "ReadAttrUINT crt pReader name 0 errno = Inr (0, errno)"
  using assms
  by (simp add: ReadAttrUINT_def bindP_def ReadAttrUINT64_absent UInt64ToUInt_def CHECK_HR_def)

lemma ReadAttrUINT16_absent:
  assumes "MoveToAttributeByName pReader name = None"
  shows "ReadAttrUINT16 crt pReader name 0 errno = Inr (0, errno)"
  using assms
  by (simp add: ReadAttrUINT16_def bindP_def ReadAttrUINT64_absent UInt64ToUInt16_def CHECK_HR_def)

lemma ReadAttrUINT_present:
  assumes "MoveToAttributeByName pReader name = Some pText" "wtol crt pText = (l, False)"
    and "(scast l :: 64 word) \<le> 0xFFFFFFFF"
  shows "ReadAttrUINT crt pReader name dflt False = Inr (ucast (scast l :: 64 word), False)"
  using assms
  by (simp add: ReadAttrUINT_def bindP_def ReadAttrUINT64_def UInt64ToUInt_def CHECK_HR_def)

lemma ReadAttrEnumT_absent:
  assumes "MoveToAttributeByName pReader name = None"
  shows "ReadAttrEnumT pReader name K dflt prefix = Inr (S_FALSE, dflt)"
  using assms by (simp add: ReadAttrEnumT_def)

lemma ParseDescriptor_attributes_eval:
  assumes "ReadAttrDXGI_FORMAT pReader ''Format'' = Inr (hrFormat, format)"
    and "ReadAttrUAV_DIMENSION pReader ''Dimension'' = Inr (hrDim, dim)"
    and "ParseDescriptor_switch crt pReader hrFormat
           ((UavDesc pDesc) \<lparr> UavFormat := format, ViewDimension := dim \<rparr>) errno =
           Inr (uav, errno')"
    and "ReadAttrStr pReader ''Name'' = Some name" "ReadAttrStr pReader ''ResName'' = None"
  shows "ParseDescriptor_attributes crt pReader pDesc errno =
           Inr (\<lparr> d_Name = Some name, d_ResName = Some name,
                  d_CounterName = ReadAttrStr pReader ''CounterName'',
                  d_Kind = ReadAttrStr pReader ''Kind'', UavDesc = uav \<rparr>, errno')"
  using assms
  by (simp add: ParseDescriptor_attributes_def Let_def bindP_def CHECK_HR_def CHECK_HR_value_def
      returnP_def)

lemma ParseDescriptor_switch_BUFFER_eval:
  assumes "ViewDimension uav = D3D12_UAV_DIMENSION_BUFFER"
    and "ReadAttrUINT64 crt pReader ''FirstElement'' 0 errno = Inr (firstElement, e1)"
    and "ReadAttrUINT crt pReader ''NumElements'' 0 e1 = Inr (numElements, e2)"
    and "ReadAttrUINT crt pReader ''StructureByteStride'' 0 e2 = Inr (stride, e3)"
    and "ReadAttrUINT64 crt pReader ''CounterOffsetInBytes'' 0 e3 = Inr (offset, e4)"
  shows "ParseDescriptor_switch crt pReader hrFormat uav errno =
           Inr (uav
                  \<lparr> UavFormat :=
                      (if hrFormat = S_FALSE \<and>
                          (\<exists>f. ReadAttrStr pReader ''Flags'' = Some f \<and> stricmp_eq f ''RAW'')
                       then DXGI_FORMAT_R32_TYPELESS else UavFormat uav),
                    View := Buffer firstElement numElements stride offset
                              (if \<exists>f. ReadAttrStr pReader ''Flags'' = Some f \<and> stricmp_eq f ''RAW''
                               then D3D12_BUFFER_UAV_FLAG_RAW else D3D12_BUFFER_UAV_FLAG_NONE) \<rparr>,
                e4)"
proof -
  have "stricmp_eq f ''RAW'' \<Longrightarrow> f \<noteq> []" for f
    by (auto simp: stricmp_eq_def)
  then show ?thesis
    using assms
    by (auto simp: ParseDescriptor_switch_def bindP_def returnP_def Let_def split: option.splits)
qed

lemma ParseDescriptor_switch_TEXTURE2DARRAY_eval:
  assumes "ViewDimension uav = D3D12_UAV_DIMENSION_TEXTURE2DARRAY"
    and "ReadAttrUINT crt pReader ''MipSlice'' 0 errno = Inr (mipSlice, errno)"
    and "ReadAttrUINT crt pReader ''FirstArraySlice'' 0 errno = Inr (firstArraySlice, errno)"
    and "ReadAttrUINT crt pReader ''ArraySize'' 0 errno = Inr (arraySize, errno)"
  shows "ParseDescriptor_switch crt pReader hrFormat uav errno =
           Inr (uav \<lparr> View := Texture2DArray mipSlice firstArraySlice arraySize mipSlice \<rparr>, errno)"
  using assms by (simp add: ParseDescriptor_switch_def bindP_def returnP_def)

lemma wtol_model_digit:
  "wtol_model ''4'' = (4, False)" "wtol_model ''3'' = (3, False)"
  "wtol_model ''2'' = (2, False)" "wtol_model ''7'' = (7, False)"
  by (simp_all add: wtol_model_def read_sign_def isspace_c_def is_digit_def digits_value_def)

lemma ReadAttrUAV_DIMENSION_text:
  assumes "MoveToAttributeByName pReader ''Dimension'' = Some dim" "stricmp_eq dim name"
  shows "ReadAttrUAV_DIMENSION pReader ''Dimension'' =
           map_sum id (Pair S_OK) (GetEnumValue name UAV_DIMENSION)"
  using assms
  by (simp add: ReadAttrUAV_DIMENSION_def ReadAttrEnumT_def GetEnumValue_stricmp)

text \<open>
  Claim C10. For a descriptor of dimension \<open>TEXTURE2DARRAY\<close> (in any letter case) that
  is parsed without failure, the plane slice of the parsed view is the value of the
  \<^verbatim>\<open>MipSlice\<close> attribute, the same value as its mip slice; and a \<^verbatim>\<open>PlaneSlice\<close>
  attribute, whatever its value, changes nothing in the outcome of the parse.
\<close>

theorem ParseDescriptor_Texture2DArray_PlaneSlice_is_MipSlice:
  assumes "NodeType n = XmlNodeType_Element" "LocalName n = ''Descriptor''"
    and "MoveToAttributeByName (n # ns) ''Dimension'' = Some dim"
    and "stricmp_eq dim ''TEXTURE2DARRAY''"
  shows "(\<forall>d errno'. ParseDescriptor crt (n # ns) pDesc errno = Inr (d, errno') \<longrightarrow>
            (\<exists>mipSlice firstArraySlice arraySize.
               View (UavDesc d) = Texture2DArray mipSlice firstArraySlice arraySize mipSlice \<and>
               mipSlice = ucast (case MoveToAttributeByName (n # ns) ''MipSlice'' of
                                   None \<Rightarrow> (0 :: 64 word)
                                 | Some pText \<Rightarrow> scast (fst (wtol crt pText))))) \<and>
         (\<forall>v. ParseDescriptor crt (n \<lparr> Attributes := (''PlaneSlice'', v) # Attributes n \<rparr> # ns)
                 pDesc errno =
               ParseDescriptor crt (n # ns) pDesc errno)"
proof -
  have dim: "ReadAttrUAV_DIMENSION (n # ns) ''Dimension'' =
               Inr (S_OK, D3D12_UAV_DIMENSION_TEXTURE2DARRAY)"
    using ReadAttrUAV_DIMENSION_text [OF assms(3,4)] by (simp add: GetEnumValue_TEXTURE2DARRAY)
  have "\<exists>mipSlice firstArraySlice arraySize.
          View (UavDesc d) = Texture2DArray mipSlice firstArraySlice arraySize mipSlice \<and>
          mipSlice = ucast (case MoveToAttributeByName (n # ns) ''MipSlice'' of
                              None \<Rightarrow> (0 :: 64 word)
                            | Some pText \<Rightarrow> scast (fst (wtol crt pText)))"
    if "ParseDescriptor crt (n # ns) pDesc errno = Inr (d, errno')" for d errno'
  proof -
    from that obtain d1 e1 where a: "ParseDescriptor_attributes crt (n # ns) pDesc errno = Inr (d1, e1)"
      and k: "ParseDescriptor_kind d1 e1 = Inr (d, errno')"
      by (auto simp: ParseDescriptor_here [OF assms(1,2)] bindP_Inr)
    from k have "d = d1"
      by (auto simp: ParseDescriptor_kind_cases split: if_splits)
    with ParseDescriptor_attributes_Inr [OF a] dim obtain hrFormat format where
      "ParseDescriptor_switch crt (n # ns) hrFormat
         ((UavDesc pDesc) \<lparr> UavFormat := format,
                             ViewDimension := D3D12_UAV_DIMENSION_TEXTURE2DARRAY \<rparr>) errno =
         Inr (UavDesc d, e1)"
      by auto
    then show ?thesis
      by (intro ParseDescriptor_switch_TEXTURE2DARRAY) simp_all
  qed
  moreover have "ParseDescriptor crt (n \<lparr> Attributes := (''PlaneSlice'', v) # Attributes n \<rparr> # ns)
                   pDesc errno =
                 ParseDescriptor crt (n # ns) pDesc errno" for v
  proof -
    have "ParseDescriptor crt (n \<lparr> Attributes := (''PlaneSlice'', v) # Attributes n \<rparr> # ns) pDesc =
            bindP (ParseDescriptor_attributes crt
                     (n \<lparr> Attributes := (''PlaneSlice'', v) # Attributes n \<rparr> # ns) pDesc)
              ParseDescriptor_kind"
      using assms(1,2) by (intro ParseDescriptor_here) simp_all
    then show ?thesis
      using ParseDescriptor_attributes_PlaneSlice [OF dim, of crt v pDesc]
      by (simp add: ParseDescriptor_here [OF assms(1,2)])
  qed
  ultimately show ?thesis by blast
qed

lemma descriptor_2darray_parsed:
  "ParseDescriptor crt_model [descriptor_2darray] descriptor_zero False =
     Inr (\<lparr> d_Name = Some ''T0'', d_ResName = Some ''T0'', d_CounterName = None,
            d_Kind = Some ''uav'',
            UavDesc = \<lparr> UavFormat = DXGI_FORMAT_UNKNOWN,
                        ViewDimension = D3D12_UAV_DIMENSION_TEXTURE2DARRAY,
                        View = Texture2DArray 3 0 2 3 \<rparr> \<rparr>, False)"
proof -
  let ?rd = "[descriptor_2darray]"
  have attr: "MoveToAttributeByName ?rd ''Name'' = Some ''T0''"
    "MoveToAttributeByName ?rd ''ResName'' = None"
    "MoveToAttributeByName ?rd ''CounterName'' = None"
    "MoveToAttributeByName ?rd ''Kind'' = Some ''uav''"
    "MoveToAttributeByName ?rd ''Format'' = None"
    "MoveToAttributeByName ?rd ''Dimension'' = Some ''TEXTURE2DARRAY''"
    "MoveToAttributeByName ?rd ''MipSlice'' = Some ''3''"
    "MoveToAttributeByName ?rd ''FirstArraySlice'' = None"
    "MoveToAttributeByName ?rd ''ArraySize'' = Some ''2''"
    by (simp_all add: descriptor_2darray_def element_def MoveToAttributeByName_def)
  have fmt: "ReadAttrDXGI_FORMAT ?rd ''Format'' = Inr (S_FALSE, DXGI_FORMAT_UNKNOWN)"
    by (simp add: ReadAttrDXGI_FORMAT_def ReadAttrEnumT_absent attr)
  have dim: "ReadAttrUAV_DIMENSION ?rd ''Dimension'' = Inr (S_OK, D3D12_UAV_DIMENSION_TEXTURE2DARRAY)"
    using ReadAttrUAV_DIMENSION_text [OF attr(6), of "''TEXTURE2DARRAY''"]
    by (simp add: stricmp_eq_def GetEnumValue_TEXTURE2DARRAY)
  have m: "ReadAttrUINT crt_model ?rd ''MipSlice'' 0 False = Inr (3, False)"
    using ReadAttrUINT_present [OF attr(7), of crt_model 3 0]
    by (simp add: crt_model_def wtol_model_digit)
  have f: "ReadAttrUINT crt_model ?rd ''FirstArraySlice'' 0 False = Inr (0, False)"
    by (rule ReadAttrUINT_absent [OF attr(8)])
  have a: "ReadAttrUINT crt_model ?rd ''ArraySize'' 0 False = Inr (2, False)"
    using ReadAttrUINT_present [OF attr(9), of crt_model 2 0]
    by (simp add: crt_model_def wtol_model_digit)
  have sw: "ParseDescriptor_switch crt_model ?rd S_FALSE
              ((UavDesc descriptor_zero)
                 \<lparr> UavFormat := DXGI_FORMAT_UNKNOWN,
                   ViewDimension := D3D12_UAV_DIMENSION_TEXTURE2DARRAY \<rparr>) False =
            Inr (\<lparr> UavFormat = DXGI_FORMAT_UNKNOWN,
                   ViewDimension = D3D12_UAV_DIMENSION_TEXTURE2DARRAY,
                   View = Texture2DArray 3 0 2 3 \<rparr>, False)"
    using ParseDescriptor_switch_TEXTURE2DARRAY_eval [OF _ m f a]
    by (simp add: descriptor_zero_def)
  have at: "ParseDescriptor_attributes crt_model ?rd descriptor_zero False =
              Inr (\<lparr> d_Name = Some ''T0'', d_ResName = Some ''T0'', d_CounterName = None,
                     d_Kind = Some ''uav'',
                     UavDesc = \<lparr> UavFormat = DXGI_FORMAT_UNKNOWN,
                                 ViewDimension = D3D12_UAV_DIMENSION_TEXTURE2DARRAY,
                                 View = Texture2DArray 3 0 2 3 \<rparr> \<rparr>, False)"
    using ParseDescriptor_attributes_eval [OF fmt dim sw] attr
    by (simp add: ReadAttrStr_def)
  have "NodeType descriptor_2darray = XmlNodeType_Element"
    "LocalName descriptor_2darray = ''Descriptor''"
    by (simp_all add: descriptor_2darray_def element_def)
  from ParseDescriptor_here [OF this] at show ?thesis
    by (simp add: bindP_def ParseDescriptor_kind_cases Kind_is_known_def stricmp_eq_def
        tolower_c_def)
qed

theorem ParseDescriptor_Texture2DArray_PlaneSlice_is_MipSlice_witness:
  "MoveToAttributeByName [descriptor_2darray] ''PlaneSlice'' = Some ''7'' \<and>
   MoveToAttributeByName [descriptor_2darray] ''MipSlice'' = Some ''3'' \<and>
   (\<exists>d. ParseDescriptor crt_model [descriptor_2darray] descriptor_zero False = Inr (d, False) \<and>
        (\<exists>firstArraySlice arraySize.
           View (UavDesc d) = Texture2DArray 3 firstArraySlice arraySize 3))"
proof -
  have n: "NodeType descriptor_2darray = XmlNodeType_Element"
    "LocalName descriptor_2darray = ''Descriptor''"
    "MoveToAttributeByName [descriptor_2darray] ''Dimension'' = Some ''TEXTURE2DARRAY''"
    "stricmp_eq ''TEXTURE2DARRAY'' ''TEXTURE2DARRAY''"
    by (simp_all add: descriptor_2darray_def element_def MoveToAttributeByName_def stricmp_eq_def)
  have attrs: "MoveToAttributeByName [descriptor_2darray] ''PlaneSlice'' = Some ''7''"
    "MoveToAttributeByName [descriptor_2darray] ''MipSlice'' = Some ''3''"
    by (simp_all add: descriptor_2darray_def element_def MoveToAttributeByName_def)
  from ParseDescriptor_Texture2DArray_PlaneSlice_is_MipSlice [OF n, of crt_model descriptor_zero False]
    descriptor_2darray_parsed
  show ?thesis
    using attrs by (simp add: crt_model_def wtol_model_digit)
qed

text \<open>
  Claim C7, as the code has it. For a descriptor of dimension \<open>BUFFER\<close> without a
  \<^verbatim>\<open>Format\<close> attribute that is parsed without failure, the format is \<open>R32_TYPELESS\<close> if
  the \<^verbatim>\<open>Flags\<close> attribute is \<open>RAW\<close> in any letter case (\<open>RAW\<close>, \<open>raw\<close>, \<open>Raw\<close>), and
  the default \<open>UNKNOWN\<close> otherwise.
\<close>

theorem ParseDescriptor_raw_buffer_format:
  assumes "NodeType n = XmlNodeType_Element" "LocalName n = ''Descriptor''"
    and "MoveToAttributeByName (n # ns) ''Dimension'' = Some dim" "stricmp_eq dim ''BUFFER''"
    and "MoveToAttributeByName (n # ns) ''Format'' = None"
    and "ParseDescriptor crt (n # ns) pDesc errno = Inr (d, errno')"
  shows "UavFormat (UavDesc d) =
           (if \<exists>f. MoveToAttributeByName (n # ns) ''Flags'' = Some f \<and> stricmp_eq f ''RAW''
            then DXGI_FORMAT_R32_TYPELESS else DXGI_FORMAT_UNKNOWN)"
proof -
  have dim: "ReadAttrUAV_DIMENSION (n # ns) ''Dimension'' = Inr (S_OK, D3D12_UAV_DIMENSION_BUFFER)"
    using ReadAttrUAV_DIMENSION_text [OF assms(3,4)] by (simp add: GetEnumValue_UAV_BUFFER)
  have fmt: "ReadAttrDXGI_FORMAT (n # ns) ''Format'' = Inr (S_FALSE, DXGI_FORMAT_UNKNOWN)"
    using assms(5) by (simp add: ReadAttrDXGI_FORMAT_def ReadAttrEnumT_def)
  from assms(6) obtain d1 e1 where a: "ParseDescriptor_attributes crt (n # ns) pDesc errno = Inr (d1, e1)"
    and k: "ParseDescriptor_kind d1 e1 = Inr (d, errno')"
    by (auto simp: ParseDescriptor_here [OF assms(1,2)] bindP_Inr)
  from k have "d = d1"
    by (auto simp: ParseDescriptor_kind_cases split: if_splits)
  with ParseDescriptor_attributes_Inr [OF a] dim fmt have
    "ParseDescriptor_switch crt (n # ns) S_FALSE
       ((UavDesc pDesc) \<lparr> UavFormat := DXGI_FORMAT_UNKNOWN,
                           ViewDimension := D3D12_UAV_DIMENSION_BUFFER \<rparr>) errno =
       Inr (UavDesc d, e1)"
    by auto
  from ParseDescriptor_switch_BUFFER [OF _ this] show ?thesis
    by simp
qed

lemma descriptor_raw_upper_parsed:
  "ParseDescriptor crt_model [descriptor_raw_upper] descriptor_zero False =
     Inr (\<lparr> d_Name = Some ''U0'', d_ResName = Some ''U0'', d_CounterName = None,
            d_Kind = Some ''UAV'',
            UavDesc = \<lparr> UavFormat = DXGI_FORMAT_R32_TYPELESS,
                        ViewDimension = D3D12_UAV_DIMENSION_BUFFER,
                        View = Buffer 0 4 0 0 D3D12_BUFFER_UAV_FLAG_RAW \<rparr> \<rparr>, False)"
proof -
  let ?rd = "[descriptor_raw_upper]"
  have attr: "MoveToAttributeByName ?rd ''Name'' = Some ''U0''"
    "MoveToAttributeByName ?rd ''ResName'' = None"
    "MoveToAttributeByName ?rd ''CounterName'' = None"
    "MoveToAttributeByName ?rd ''Kind'' = Some ''UAV''"
    "MoveToAttributeByName ?rd ''Format'' = None"
    "MoveToAttributeByName ?rd ''Dimension'' = Some ''BUFFER''"
    "MoveToAttributeByName ?rd ''FirstElement'' = None"
    "MoveToAttributeByName ?rd ''NumElements'' = Some ''4''"
    "MoveToAttributeByName ?rd ''StructureByteStride'' = None"
    "MoveToAttributeByName ?rd ''CounterOffsetInBytes'' = None"
    "MoveToAttributeByName ?rd ''Flags'' = Some ''RAW''"
    by (simp_all add: descriptor_raw_upper_def element_def MoveToAttributeByName_def)
  have fmt: "ReadAttrDXGI_FORMAT ?rd ''Format'' = Inr (S_FALSE, DXGI_FORMAT_UNKNOWN)"
    by (simp add: ReadAttrDXGI_FORMAT_def ReadAttrEnumT_absent attr)
  have dim: "ReadAttrUAV_DIMENSION ?rd ''Dimension'' = Inr (S_OK, D3D12_UAV_DIMENSION_BUFFER)"
    using ReadAttrUAV_DIMENSION_text [OF attr(6), of "''BUFFER''"]
    by (simp add: stricmp_eq_def GetEnumValue_UAV_BUFFER)
  have fe: "ReadAttrUINT64 crt_model ?rd ''FirstElement'' 0 False = Inr (0, False)"
    by (rule ReadAttrUINT64_absent [OF attr(7)])
  have ne: "ReadAttrUINT crt_model ?rd ''NumElements'' 0 False = Inr (4, False)"
    using ReadAttrUINT_present [OF attr(8), of crt_model 4 0]
    by (simp add: crt_model_def wtol_model_digit)
  have st: "ReadAttrUINT crt_model ?rd ''StructureByteStride'' 0 False = Inr (0, False)"
    by (rule ReadAttrUINT_absent [OF attr(9)])
  have co: "ReadAttrUINT64 crt_model ?rd ''CounterOffsetInBytes'' 0 False = Inr (0, False)"
    by (rule ReadAttrUINT64_absent [OF attr(10)])
  have raw: "\<exists>f. ReadAttrStr ?rd ''Flags'' = Some f \<and> stricmp_eq f ''RAW''"
    by (simp add: ReadAttrStr_def attr stricmp_eq_def tolower_c_def)
  have sw: "ParseDescriptor_switch crt_model ?rd S_FALSE
              ((UavDesc descriptor_zero)
                 \<lparr> UavFormat := DXGI_FORMAT_UNKNOWN,
                   ViewDimension := D3D12_UAV_DIMENSION_BUFFER \<rparr>) False =
            Inr (\<lparr> UavFormat = DXGI_FORMAT_R32_TYPELESS,
                   ViewDimension = D3D12_UAV_DIMENSION_BUFFER,
                   View = Buffer 0 4 0 0 D3D12_BUFFER_UAV_FLAG_RAW \<rparr>, False)"
    using ParseDescriptor_switch_BUFFER_eval [OF _ fe ne st co, of _ S_FALSE] raw
    by (simp add: descriptor_zero_def)
  have at: "ParseDescriptor_attributes crt_model ?rd descriptor_zero False =
              Inr (\<lparr> d_Name = Some ''U0'', d_ResName = Some ''U0'', d_CounterName = None,
                     d_Kind = Some ''UAV'',
                     UavDesc = \<lparr> UavFormat = DXGI_FORMAT_R32_TYPELESS,
                                 ViewDimension = D3D12_UAV_DIMENSION_BUFFER,
                                 View = Buffer 0 4 0 0 D3D12_BUFFER_UAV_FLAG_RAW \<rparr> \<rparr>, False)"
    using ParseDescriptor_attributes_eval [OF fmt dim sw] attr
    by (simp add: ReadAttrStr_def)
  have "NodeType descriptor_raw_upper = XmlNodeType_Element"
    "LocalName descriptor_raw_upper = ''Descriptor''"
    by (simp_all add: descriptor_raw_upper_def element_def)
  from ParseDescriptor_here [OF this] at show ?thesis
    by (simp add: bindP_def ParseDescriptor_kind_cases Kind_is_known_def stricmp_eq_def
        tolower_c_def)
qed

lemma descriptor_raw_lower_parsed:
  "ParseDescriptor crt_model [descriptor_raw_lower] descriptor_zero False =
     Inr (\<lparr> d_Name = Some ''U0'', d_ResName = Some ''U0'', d_CounterName = None,
            d_Kind = Some ''UAV'',
            UavDesc = \<lparr> UavFormat = DXGI_FORMAT_R32_TYPELESS,
                        ViewDimension = D3D12_UAV_DIMENSION_BUFFER,
                        View = Buffer 0 4 0 0 D3D12_BUFFER_UAV_FLAG_RAW \<rparr> \<rparr>, False)"
proof -
  let ?rd = "[descriptor_raw_lower]"
  have attr: "MoveToAttributeByName ?rd ''Name'' = Some ''U0''"
    "MoveToAttributeByName ?rd ''ResName'' = None"
    "MoveToAttributeByName ?rd ''CounterName'' = None"
    "MoveToAttributeByName ?rd ''Kind'' = Some ''UAV''"
    "MoveToAttributeByName ?rd ''Format'' = None"
    "MoveToAttributeByName ?rd ''Dimension'' = Some ''BUFFER''"
    "MoveToAttributeByName ?rd ''FirstElement'' = None"
    "MoveToAttributeByName ?rd ''NumElements'' = Some ''4''"
    "MoveToAttributeByName ?rd ''StructureByteStride'' = None"
    "MoveToAttributeByName ?rd ''CounterOffsetInBytes'' = None"
    "MoveToAttributeByName ?rd ''Flags'' = Some ''raw''"
    by (simp_all add: descriptor_raw_lower_def element_def MoveToAttributeByName_def)
  have fmt: "ReadAttrDXGI_FORMAT ?rd ''Format'' = Inr (S_FALSE, DXGI_FORMAT_UNKNOWN)"
    by (simp add: ReadAttrDXGI_FORMAT_def ReadAttrEnumT_absent attr)
  have dim: "ReadAttrUAV_DIMENSION ?rd ''Dimension'' = Inr (S_OK, D3D12_UAV_DIMENSION_BUFFER)"
    using ReadAttrUAV_DIMENSION_text [OF attr(6), of "''BUFFER''"]
    by (simp add: stricmp_eq_def GetEnumValue_UAV_BUFFER)
  have fe: "ReadAttrUINT64 crt_model ?rd ''FirstElement'' 0 False = Inr (0, False)"
    by (rule ReadAttrUINT64_absent [OF attr(7)])
  have ne: "ReadAttrUINT crt_model ?rd ''NumElements'' 0 False = Inr (4, False)"
    using ReadAttrUINT_present [OF attr(8), of crt_model 4 0]
    by (simp add: crt_model_def wtol_model_digit)
  have st: "ReadAttrUINT crt_model ?rd ''StructureByteStride'' 0 False = Inr (0, False)"
    by (rule ReadAttrUINT_absent [OF attr(9)])
  have co: "ReadAttrUINT64 crt_model ?rd ''CounterOffsetInBytes'' 0 False = Inr (0, False)"
    by (rule ReadAttrUINT64_absent [OF attr(10)])
  have raw: "\<exists>f. ReadAttrStr ?rd ''Flags'' = Some f \<and> stricmp_eq f ''RAW''"
    by (simp add: ReadAttrStr_def attr stricmp_eq_def tolower_c_def)
  have sw: "ParseDescriptor_switch crt_model ?rd S_FALSE
              ((UavDesc descriptor_zero)
                 \<lparr> UavFormat := DXGI_FORMAT_UNKNOWN,
                   ViewDimension := D3D12_UAV_DIMENSION_BUFFER \<rparr>) False =
            Inr (\<lparr> UavFormat = DXGI_FORMAT_R32_TYPELESS,
                   ViewDimension = D3D12_UAV_DIMENSION_BUFFER,
                   View = Buffer 0 4 0 0 D3D12_BUFFER_UAV_FLAG_RAW \<rparr>, False)"
    using ParseDescriptor_switch_BUFFER_eval [OF _ fe ne st co, of _ S_FALSE] raw
    by (simp add: descriptor_zero_def)
  have at: "ParseDescriptor_attributes crt_model ?rd descriptor_zero False =
              Inr (\<lparr> d_Name = Some ''U0'', d_ResName = Some ''U0'', d_CounterName = None,
                     d_Kind = Some ''UAV'',
                     UavDesc = \<lparr> UavFormat = DXGI_FORMAT_R32_TYPELESS,
                                 ViewDimension = D3D12_UAV_DIMENSION_BUFFER,
                                 View = Buffer 0 4 0 0 D3D12_BUFFER_UAV_FLAG_RAW \<rparr> \<rparr>, False)"
    using ParseDescriptor_attributes_eval [OF fmt dim sw] attr
    by (simp add: ReadAttrStr_def)
  have "NodeType descriptor_raw_lower = XmlNodeType_Element"
    "LocalName descriptor_raw_lower = ''Descriptor''"
    by (simp_all add: descriptor_raw_lower_def element_def)
  from ParseDescriptor_here [OF this] at show ?thesis
    by (simp add: bindP_def ParseDescriptor_kind_cases Kind_is_known_def stricmp_eq_def
        tolower_c_def)
qed

theorem ParseDescriptor_raw_buffer_format_witness:
  "MoveToAttributeByName [descriptor_raw_upper] ''Flags'' = Some ''RAW'' \<and>
   MoveToAttributeByName [descriptor_raw_upper] ''Format'' = None \<and>
   (\<exists>d. ParseDescriptor crt_model [descriptor_raw_upper] descriptor_zero False = Inr (d, False) \<and>
        UavFormat (UavDesc d) = DXGI_FORMAT_R32_TYPELESS)"
proof -
  have n: "NodeType descriptor_raw_upper = XmlNodeType_Element"
    "LocalName descriptor_raw_upper = ''Descriptor''"
    "MoveToAttributeByName [descriptor_raw_upper] ''Dimension'' = Some ''BUFFER''"
    "stricmp_eq ''BUFFER'' ''BUFFER''"
    "MoveToAttributeByName [descriptor_raw_upper] ''Format'' = None"
    by (simp_all add: descriptor_raw_upper_def element_def MoveToAttributeByName_def stricmp_eq_def)
  have flags: "MoveToAttributeByName [descriptor_raw_upper] ''Flags'' = Some ''RAW''"
    by (simp add: descriptor_raw_upper_def element_def MoveToAttributeByName_def)
  from ParseDescriptor_raw_buffer_format [OF n descriptor_raw_upper_parsed]
  show ?thesis
    using flags n(5) descriptor_raw_upper_parsed by (simp add: stricmp_eq_def)
qed

text \<open>
  Claim C7 as stated fails: with \<^verbatim>\<open>Flags="raw"\<close>, which is not the text \<open>RAW\<close>, and no
  \<^verbatim>\<open>Format\<close>, the format is back-filled to \<open>R32_TYPELESS\<close> and does not remain
  \<open>UNKNOWN\<close>.
\<close>

theorem ParseDescriptor_raw_buffer_format_counterexample:
  "MoveToAttributeByName [descriptor_raw_lower] ''Flags'' = Some ''raw'' \<and>
   ''raw'' \<noteq> ''RAW'' \<and>
   MoveToAttributeByName [descriptor_raw_lower] ''Format'' = None \<and>
   MoveToAttributeByName [descriptor_raw_lower] ''Dimension'' = Some ''BUFFER'' \<and>
   MoveToAttributeByName [descriptor_raw_lower] ''Kind'' = Some ''UAV'' \<and>
   map_sum id (UavFormat \<circ> UavDesc \<circ> fst)
     (ParseDescriptor crt_model [descriptor_raw_lower] descriptor_zero False) =
     Inr DXGI_FORMAT_R32_TYPELESS \<and>
   DXGI_FORMAT_R32_TYPELESS \<noteq> DXGI_FORMAT_UNKNOWN"
  by (simp add: descriptor_raw_lower_parsed)
    (simp add: descriptor_raw_lower_def element_def MoveToAttributeByName_def)

text \<open>
  Claim C8. Parsing a \<^verbatim>\<open>Descriptor\<close> element fails when the \<^verbatim>\<open>Kind\<close> attribute is
  absent and when it is none of UAV, SRV, CBV, RTV compared without regard to case: the
  parse never succeeds then, and once the other attributes have been read the failure
  is \<^verbatim>\<open>E_INVALIDARG\<close>. For one of the four kinds the check of the kind changes nothing:
  the outcome is that of reading the attributes.
\<close>

theorem ParseDescriptor_requires_known_kind:
  assumes "NodeType n = XmlNodeType_Element" "LocalName n = ''Descriptor''"
  shows "(\<not> Kind_is_known (MoveToAttributeByName (n # ns) ''Kind'') \<longrightarrow>
            (\<exists>hr. ParseDescriptor crt (n # ns) pDesc errno = Inl hr) \<and>
            (\<forall>d errno'. ParseDescriptor_attributes crt (n # ns) pDesc errno = Inr (d, errno') \<longrightarrow>
               ParseDescriptor crt (n # ns) pDesc errno = Inl E_INVALIDARG)) \<and>
         (Kind_is_known (MoveToAttributeByName (n # ns) ''Kind'') \<longrightarrow>
            ParseDescriptor crt (n # ns) pDesc errno =
              ParseDescriptor_attributes crt (n # ns) pDesc errno)"
proof (cases "ParseDescriptor_attributes crt (n # ns) pDesc errno")
  case (Inl hr)
  then show ?thesis
    by (simp add: ParseDescriptor_here [OF assms] bindP_def)
next
  case (Inr r)
  obtain d e where r: "r = (d, e)" by (cases r)
  from ParseDescriptor_attributes_Inr [OF Inr [unfolded r]]
  have "d_Kind d = MoveToAttributeByName (n # ns) ''Kind''"
    by (auto simp: ReadAttrStr_def)
  then show ?thesis
    using Inr r by (simp add: ParseDescriptor_here [OF assms] bindP_def ParseDescriptor_kind_cases)
qed

lemma descriptor_no_kind_attributes:
  "ParseDescriptor_attributes crt_model [descriptor_no_kind] descriptor_zero False =
     Inr (\<lparr> d_Name = Some ''U0'', d_ResName = Some ''U0'', d_CounterName = None,
            d_Kind = None,
            UavDesc = \<lparr> UavFormat = DXGI_FORMAT_UNKNOWN,
                        ViewDimension = D3D12_UAV_DIMENSION_BUFFER,
                        View = Buffer 0 0 0 0 D3D12_BUFFER_UAV_FLAG_NONE \<rparr> \<rparr>, False)"
proof -
  let ?rd = "[descriptor_no_kind]"
  have attr: "MoveToAttributeByName ?rd ''Name'' = Some ''U0''"
    "MoveToAttributeByName ?rd ''ResName'' = None"
    "MoveToAttributeByName ?rd ''CounterName'' = None"
    "MoveToAttributeByName ?rd ''Kind'' = None"
    "MoveToAttributeByName ?rd ''Format'' = None"
    "MoveToAttributeByName ?rd ''Dimension'' = Some ''BUFFER''"
    "MoveToAttributeByName ?rd ''FirstElement'' = None"
    "MoveToAttributeByName ?rd ''NumElements'' = None"
    "MoveToAttributeByName ?rd ''StructureByteStride'' = None"
    "MoveToAttributeByName ?rd ''CounterOffsetInBytes'' = None"
    "MoveToAttributeByName ?rd ''Flags'' = None"
    by (simp_all add: descriptor_no_kind_def element_def MoveToAttributeByName_def)
  have fmt: "ReadAttrDXGI_FORMAT ?rd ''Format'' = Inr (S_FALSE, DXGI_FORMAT_UNKNOWN)"
    by (simp add: ReadAttrDXGI_FORMAT_def ReadAttrEnumT_absent attr)
  have dim: "ReadAttrUAV_DIMENSION ?rd ''Dimension'' = Inr (S_OK, D3D12_UAV_DIMENSION_BUFFER)"
    using ReadAttrUAV_DIMENSION_text [OF attr(6), of "''BUFFER''"]
    by (simp add: stricmp_eq_def GetEnumValue_UAV_BUFFER)
  have fe: "ReadAttrUINT64 crt_model ?rd ''FirstElement'' 0 False = Inr (0, False)"
    by (rule ReadAttrUINT64_absent [OF attr(7)])
  have ne: "ReadAttrUINT crt_model ?rd ''NumElements'' 0 False = Inr (0, False)"
    by (rule ReadAttrUINT_absent [OF attr(8)])
  have st: "ReadAttrUINT crt_model ?rd ''StructureByteStride'' 0 False = Inr (0, False)"
    by (rule ReadAttrUINT_absent [OF attr(9)])
  have co: "ReadAttrUINT64 crt_model ?rd ''CounterOffsetInBytes'' 0 False = Inr (0, False)"
    by (rule ReadAttrUINT64_absent [OF attr(10)])
  have sw: "ParseDescriptor_switch crt_model ?rd S_FALSE
              ((UavDesc descriptor_zero)
                 \<lparr> UavFormat := DXGI_FORMAT_UNKNOWN,
                   ViewDimension := D3D12_UAV_DIMENSION_BUFFER \<rparr>) False =
            Inr (\<lparr> UavFormat = DXGI_FORMAT_UNKNOWN,
                   ViewDimension = D3D12_UAV_DIMENSION_BUFFER,
                   View = Buffer 0 0 0 0 D3D12_BUFFER_UAV_FLAG_NONE \<rparr>, False)"
    using ParseDescriptor_switch_BUFFER_eval [OF _ fe ne st co, of _ S_FALSE]
    by (simp add: descriptor_zero_def ReadAttrStr_def attr)
  show ?thesis
    using ParseDescriptor_attributes_eval [OF fmt dim sw] attr
    by (simp add: ReadAttrStr_def)
qed

theorem ParseDescriptor_requires_known_kind_witness:
  "MoveToAttributeByName [descriptor_no_kind] ''Kind'' = None \<and>
   ParseDescriptor crt_model [descriptor_no_kind] descriptor_zero False = Inl E_INVALIDARG \<and>
   Kind_is_known (MoveToAttributeByName [descriptor_2darray] ''Kind'') \<and>
   (\<exists>d. ParseDescriptor crt_model [descriptor_2darray] descriptor_zero False = Inr (d, False))"
proof -
  have n: "NodeType descriptor_no_kind = XmlNodeType_Element"
    "LocalName descriptor_no_kind = ''Descriptor''"
    by (simp_all add: descriptor_no_kind_def element_def)
  have none: "MoveToAttributeByName [descriptor_no_kind] ''Kind'' = None"
    by (simp add: descriptor_no_kind_def element_def MoveToAttributeByName_def)
  have known: "Kind_is_known (MoveToAttributeByName [descriptor_2darray] ''Kind'')"
    by (simp add: descriptor_2darray_def element_def MoveToAttributeByName_def Kind_is_known_def
        stricmp_eq_def tolower_c_def)
  from ParseDescriptor_requires_known_kind [OF n, of "[]" crt_model descriptor_zero False]
  have "ParseDescriptor crt_model [descriptor_no_kind] descriptor_zero False = Inl E_INVALIDARG"
    using none descriptor_no_kind_attributes by (auto simp: Kind_is_known_def)
  then show ?thesis
    using none known descriptor_2darray_parsed by simp
qed

section \<open>Routing of shaders to a compiler\<close>


lemma CHECK_HR_call_twice:
  assumes "x w = ((hr, a), w1)" "FAILED hr" "x w1 = ((hr', a'), w2)"
  shows "CHECK_HR_call True x w = (Inl (HR_EXTERNAL hr'), w2)"
    and "CHECK_HR_call False x w = (Inl (HR_EXTERNAL hr), w1)"
  using assms by (simp_all add: CHECK_HR_call_def)








section \<open>Interning of strings\<close>

text \<open>
  The invariant of the table: the set holds the pointer of every buffer and nothing
  else, and no two buffers have the same content.
\<close>

lemma string_table_insert_inv:
  assumes "set (m_values t) = {..<length (m_strings t)}" "distinct (m_strings t)"
    and "string_table_insert t s = (p, t')"
  shows "set (m_values t') = {..<length (m_strings t')} \<and> distinct (m_strings t') \<and>
         p < length (m_strings t') \<and> m_strings t' ! p = s \<and>
         (\<exists>new. m_strings t' = m_strings t @ new)"
proof (cases "find (PredStr t s) (m_values t)")
  case None
  then have "\<not> (\<exists>q \<in> set (m_values t). PredStr t s q)"
    by (simp add: find_None_iff)
  then have "s \<notin> set (m_strings t)"
    using assms(1) by (auto simp: PredStr_def string_at_def in_set_conv_nth)
  moreover have "p = length (m_strings t)"
    "t' = t \<lparr> m_values := length (m_strings t) # m_values t, m_strings := m_strings t @ [s] \<rparr>"
    using assms(3) None by (auto simp: string_table_insert_def Let_def)
  ultimately show ?thesis
    using assms(1,2) by (auto simp: lessThan_Suc)
next
  case (Some q)
  then have "q \<in> set (m_values t)" "PredStr t s q"
    by (auto simp: find_Some_iff)
  moreover have "p = q" "t' = t"
    using assms(3) Some by (simp_all add: string_table_insert_def)
  ultimately show ?thesis
    using assms(1,2) by (auto simp: PredStr_def string_at_def split: if_splits)
qed

lemma string_table_inserts_inv:
  assumes "set (m_values t) = {..<length (m_strings t)}" "distinct (m_strings t)"
    and "string_table_inserts t ss = (ps, t')"
  shows "set (m_values t') = {..<length (m_strings t')} \<and> distinct (m_strings t') \<and>
         length ps = length ss \<and>
         (\<forall>i < length ss. ps ! i < length (m_strings t') \<and> m_strings t' ! (ps ! i) = ss ! i) \<and>
         (\<exists>new. m_strings t' = m_strings t @ new)"
  using assms
proof (induction ss arbitrary: t ps t')
  case Nil
  then show ?case by simp
next
  case (Cons s ss)
  obtain p t1 where one: "string_table_insert t s = (p, t1)"
    by (cases "string_table_insert t s")
  obtain qs t2 where more: "string_table_inserts t1 ss = (qs, t2)"
    by (cases "string_table_inserts t1 ss")
  from Cons.prems(3) one more have res: "ps = p # qs" "t' = t2"
    by simp_all
  from string_table_insert_inv [OF Cons.prems(1,2) one]
  have inv1: "set (m_values t1) = {..<length (m_strings t1)}" "distinct (m_strings t1)"
    and p: "p < length (m_strings t1)" "m_strings t1 ! p = s"
    and ext1: "\<exists>new. m_strings t1 = m_strings t @ new"
    by blast+
  from Cons.IH [OF inv1 more]
  have inv2: "set (m_values t2) = {..<length (m_strings t2)}" "distinct (m_strings t2)"
    and len: "length qs = length ss"
    and qs: "\<forall>i < length ss. qs ! i < length (m_strings t2) \<and> m_strings t2 ! (qs ! i) = ss ! i"
    and ext2: "\<exists>new. m_strings t2 = m_strings t1 @ new"
    by blast+
  from ext2 p have p2: "p < length (m_strings t2)" "m_strings t2 ! p = s"
    by (auto simp: nth_append)
  have "\<forall>i < length (s # ss). (p # qs) ! i < length (m_strings t2) \<and>
          m_strings t2 ! ((p # qs) ! i) = (s # ss) ! i"
    using p2 qs by (auto simp: nth_Cons split: nat.splits)
  moreover have "\<exists>new. m_strings t2 = m_strings t @ new"
    using ext1 ext2 by auto
  ultimately show ?case
    using inv2 len res by simp
qed

text \<open>
  Claim C9. Interning is idempotent on content and injective on distinct content: of the
  pointers that a sequence of insertions into an empty table returns, two are the same
  pointer exactly when the two strings inserted have the same content, and each points
  at a stored string with the content inserted.
\<close>

theorem string_table_insert_interns:
  assumes "string_table_inserts string_table_empty ss = (ps, t)"
    and "i < length ss" "j < length ss"
  shows "(ps ! i = ps ! j) = (ss ! i = ss ! j) \<and>
         string_at t (ps ! i) = Some (ss ! i) \<and> string_at t (ps ! j) = Some (ss ! j)"
proof -
  have "set (m_values string_table_empty) = {..<length (m_strings string_table_empty)}"
    "distinct (m_strings string_table_empty)"
    by (simp_all add: string_table_empty_def)
  from string_table_inserts_inv [OF this assms(1)]
  have dist: "distinct (m_strings t)"
    and at: "\<forall>i < length ss. ps ! i < length (m_strings t) \<and> m_strings t ! (ps ! i) = ss ! i"
    by blast+
  from at assms(2,3) have i: "ps ! i < length (m_strings t)" "m_strings t ! (ps ! i) = ss ! i"
    and j: "ps ! j < length (m_strings t)" "m_strings t ! (ps ! j) = ss ! j"
    by blast+
  have "(ps ! i = ps ! j) = (ss ! i = ss ! j)"
    using dist i j by (metis nth_eq_iff_index_eq)
  then show ?thesis
    using i j by (simp add: string_at_def)
qed

theorem string_table_insert_interns_witness:
  "string_table_inserts string_table_empty [''SRV0'', ''UAV0'', ''SRV0''] =
     ([0, 1, 0], \<lparr> m_values = [1, 0], m_strings = [''SRV0'', ''UAV0''] \<rparr>) \<and>
   ([0, 1, 0 :: nat] ! 0 = [0, 1, 0] ! 2) = ([''SRV0'', ''UAV0'', ''SRV0''] ! 0 = [''SRV0'', ''UAV0'', ''SRV0''] ! 2) \<and>
   ([0, 1, 0 :: nat] ! 0 = [0, 1, 0] ! 1) = ([''SRV0'', ''UAV0'', ''SRV0''] ! 0 = [''SRV0'', ''UAV0'', ''SRV0''] ! 1)"
proof -
  have run: "string_table_inserts string_table_empty [''SRV0'', ''UAV0'', ''SRV0''] =
               ([0, 1, 0], \<lparr> m_values = [1, 0], m_strings = [''SRV0'', ''UAV0''] \<rparr>)"
    by (simp add: string_table_empty_def string_table_insert_def PredStr_def string_at_def)
  from string_table_insert_interns [OF run, of 0 2] string_table_insert_interns [OF run, of 0 1]
  show ?thesis
    using run by simp
qed

section \<open>The name tables\<close>

lemma GetEnumValue_values_distinct:
  assumes "distinct (map (\<lambda>e. map tolower_c (fst e)) T)" "(name, v) \<in> set T" "stricmp_eq s name"
  shows "GetEnumValue_values s T = Some v"
  using assms
proof (induction T)
  case Nil
  then show ?case by simp
next
  case (Cons e T)
  obtain n w where e: "e = (n, w)" by (cases e)
  show ?case
  proof (cases "stricmp_eq s n")
    case True
    with Cons.prems e have "(name, v) = (n, w)"
      by (auto simp: stricmp_eq_def image_iff)
    with True e show ?thesis by simp
  next
    case False
    with Cons.prems e have "(name, v) \<in> set T"
      by auto
    with Cons.IH Cons.prems False e show ?thesis by simp
  qed
qed

text \<open>No table has two names that differ in letter case only.\<close>

lemma INPUT_CLASSIFICATION_TABLE_distinct:
  "distinct (map (\<lambda>e. map tolower_c (fst e)) INPUT_CLASSIFICATION_TABLE)"
  by (simp add: INPUT_CLASSIFICATION_TABLE_def tolower_c_def)

lemma DXGI_FORMAT_TABLE_distinct:
  "distinct (map (\<lambda>e. map tolower_c (fst e)) DXGI_FORMAT_TABLE)"
  by (simp add: DXGI_FORMAT_TABLE_def tolower_c_def)

lemma HEAP_TYPE_TABLE_distinct:
  "distinct (map (\<lambda>e. map tolower_c (fst e)) HEAP_TYPE_TABLE)"
  by (simp add: HEAP_TYPE_TABLE_def tolower_c_def)

lemma CPU_PAGE_PROPERTY_TABLE_distinct:
  "distinct (map (\<lambda>e. map tolower_c (fst e)) CPU_PAGE_PROPERTY_TABLE)"
  by (simp add: CPU_PAGE_PROPERTY_TABLE_def tolower_c_def)

lemma MEMORY_POOL_TABLE_distinct:
  "distinct (map (\<lambda>e. map tolower_c (fst e)) MEMORY_POOL_TABLE)"
  by (simp add: MEMORY_POOL_TABLE_def tolower_c_def)

lemma RESOURCE_DIMENSION_TABLE_distinct:
  "distinct (map (\<lambda>e. map tolower_c (fst e)) RESOURCE_DIMENSION_TABLE)"
  by (simp add: RESOURCE_DIMENSION_TABLE_def tolower_c_def)

lemma TEXTURE_LAYOUT_TABLE_distinct:
  "distinct (map (\<lambda>e. map tolower_c (fst e)) TEXTURE_LAYOUT_TABLE)"
  by (simp add: TEXTURE_LAYOUT_TABLE_def tolower_c_def)

lemma RESOURCE_FLAG_TABLE_distinct:
  "distinct (map (\<lambda>e. map tolower_c (fst e)) RESOURCE_FLAG_TABLE)"
  by (simp add: RESOURCE_FLAG_TABLE_def tolower_c_def)

lemma HEAP_FLAG_TABLE_distinct:
  "distinct (map (\<lambda>e. map tolower_c (fst e)) HEAP_FLAG_TABLE)"
  by (simp add: HEAP_FLAG_TABLE_def tolower_c_def)

lemma RESOURCE_STATE_TABLE_distinct:
  "distinct (map (\<lambda>e. map tolower_c (fst e)) RESOURCE_STATE_TABLE)"
  by (simp add: RESOURCE_STATE_TABLE_def tolower_c_def)

lemma DESCRIPTOR_HEAP_TYPE_TABLE_distinct:
  "distinct (map (\<lambda>e. map tolower_c (fst e)) DESCRIPTOR_HEAP_TYPE_TABLE)"
  by (simp add: DESCRIPTOR_HEAP_TYPE_TABLE_def tolower_c_def)

lemma DESCRIPTOR_HEAP_FLAG_TABLE_distinct:
  "distinct (map (\<lambda>e. map tolower_c (fst e)) DESCRIPTOR_HEAP_FLAG_TABLE)"
  by (simp add: DESCRIPTOR_HEAP_FLAG_TABLE_def tolower_c_def)

lemma UAV_DIMENSION_TABLE_distinct:
  "distinct (map (\<lambda>e. map tolower_c (fst e)) UAV_DIMENSION_TABLE)"
  by (simp add: UAV_DIMENSION_TABLE_def tolower_c_def)

text \<open>Each kind has one table, the only one \<^verbatim>\<open>GetEnumValue\<close> searches for it.\<close>

lemma g_ParserEnumTables_cases:
  assumes "(Values, K) \<in> set g_ParserEnumTables"
  shows "(Values, K) \<in>
           {(INPUT_CLASSIFICATION_TABLE, INPUT_CLASSIFICATION),
            (DXGI_FORMAT_TABLE, DXGI_FORMAT),
            (HEAP_TYPE_TABLE, HEAP_TYPE),
            (CPU_PAGE_PROPERTY_TABLE, CPU_PAGE_PROPERTY),
            (MEMORY_POOL_TABLE, MEMORY_POOL),
            (RESOURCE_DIMENSION_TABLE, RESOURCE_DIMENSION),
            (TEXTURE_LAYOUT_TABLE, TEXTURE_LAYOUT),
            (RESOURCE_FLAG_TABLE, RESOURCE_FLAG),
            (HEAP_FLAG_TABLE, HEAP_FLAG),
            (RESOURCE_STATE_TABLE, RESOURCE_STATE),
            (DESCRIPTOR_HEAP_TYPE_TABLE, DESCRIPTOR_HEAP_TYPE),
            (DESCRIPTOR_HEAP_FLAG_TABLE, DESCRIPTOR_HEAP_FLAG),
            (UAV_DIMENSION_TABLE, UAV_DIMENSION)}"
  using assms by (simp add: g_ParserEnumTables_def)

lemma GetEnumValue_table:
  assumes "(Values, K) \<in> set g_ParserEnumTables"
  shows "GetEnumValue s K =
           (case GetEnumValue_values s Values of
              Some w \<Rightarrow> Inr w
            | None \<Rightarrow> Inl E_INVALIDARG)"
  using g_ParserEnumTables_cases [OF assms]
  by (elim insertE emptyE; simp only: prod.inject; elim conjE; hypsubst)
    (simp_all add: GetEnumValue_def g_ParserEnumTables_def split: option.splits)

lemma g_ParserEnumTables_distinct:
  assumes "(Values, K) \<in> set g_ParserEnumTables"
  shows "distinct (map (\<lambda>e. map tolower_c (fst e)) Values)"
  using g_ParserEnumTables_cases [OF assms]
  by (elim insertE emptyE; simp only: prod.inject; elim conjE; hypsubst)
    (rule INPUT_CLASSIFICATION_TABLE_distinct
      DXGI_FORMAT_TABLE_distinct
      HEAP_TYPE_TABLE_distinct
      CPU_PAGE_PROPERTY_TABLE_distinct
      MEMORY_POOL_TABLE_distinct
      RESOURCE_DIMENSION_TABLE_distinct
      TEXTURE_LAYOUT_TABLE_distinct
      RESOURCE_FLAG_TABLE_distinct
      HEAP_FLAG_TABLE_distinct
      RESOURCE_STATE_TABLE_distinct
      DESCRIPTOR_HEAP_TYPE_TABLE_distinct
      DESCRIPTOR_HEAP_FLAG_TABLE_distinct
      UAV_DIMENSION_TABLE_distinct)+

text \<open>
  Claim C6. Name resolution is case-insensitive and a round trip: for every entry of
  every table, looking its name up under the kind of the table, in any variation of the
  letter case, succeeds and returns the value of that entry.
\<close>

theorem GetEnumValue_round_trip:
  assumes "(Values, K) \<in> set g_ParserEnumTables" "(name, v) \<in> set Values"
    and "case_variation s name"
  shows "GetEnumValue s K = Inr v"
proof -
  have "GetEnumValue_values s Values = Some v"
    using g_ParserEnumTables_distinct [OF assms(1)] assms(2)
      case_variation_stricmp_eq [OF assms(3)]
    by (rule GetEnumValue_values_distinct)
  then show ?thesis
    by (simp add: GetEnumValue_table [OF assms(1)])
qed

theorem GetEnumValue_round_trip_witness:
  "(DXGI_FORMAT_TABLE, DXGI_FORMAT) \<in> set g_ParserEnumTables \<and>
   (''R8G8B8A8_UNORM'', DXGI_FORMAT_R8G8B8A8_UNORM) \<in> set DXGI_FORMAT_TABLE \<and>
   case_variation ''r8g8b8a8_unorm'' ''R8G8B8A8_UNORM'' \<and>
   GetEnumValue ''r8g8b8a8_unorm'' DXGI_FORMAT = Inr DXGI_FORMAT_R8G8B8A8_UNORM \<and>
   GetEnumValue ''R8G8B8A8_UNORM'' DXGI_FORMAT = Inr DXGI_FORMAT_R8G8B8A8_UNORM \<and>
   GetEnumValue ''L0 '' MEMORY_POOL = Inr D3D12_MEMORY_POOL_L0"
proof -
  have t: "(DXGI_FORMAT_TABLE, DXGI_FORMAT) \<in> set g_ParserEnumTables"
    "(MEMORY_POOL_TABLE, MEMORY_POOL) \<in> set g_ParserEnumTables"
    by (simp_all add: g_ParserEnumTables_def)
  have e: "(''R8G8B8A8_UNORM'', DXGI_FORMAT_R8G8B8A8_UNORM) \<in> set DXGI_FORMAT_TABLE"
    by (simp add: DXGI_FORMAT_TABLE_def)
  have m: "(''L0 '', D3D12_MEMORY_POOL_L0) \<in> set MEMORY_POOL_TABLE"
    by (simp add: MEMORY_POOL_TABLE_def)
  have v: "case_variation ''r8g8b8a8_unorm'' ''R8G8B8A8_UNORM''"
    "case_variation ''R8G8B8A8_UNORM'' ''R8G8B8A8_UNORM''"
    "case_variation ''L0 '' ''L0 ''"
    by (simp_all add: case_variation_def same_letter_def is_upper_def)
  from GetEnumValue_round_trip [OF t(1) e v(1)] GetEnumValue_round_trip [OF t(1) e v(2)]
    GetEnumValue_round_trip [OF t(2) m v(3)]
  show ?thesis
    using t e v by simp
qed

section \<open>The model of the C runtime on the examples\<close>

lemma wcstof_model_decimal:
  assumes "read_sign (dropWhile isspace_c s) = (neg, s')"
    and "\<not> stricmp_eq (take 3 s') ''inf''" "\<not> stricmp_eq (take 3 s') ''nan''"
    and "decimal_literal s' = (ipart, fpart, rest)" "ipart \<noteq> [] \<or> fpart \<noteq> []"
    and "decimal_ratio ipart fpart (read_exponent rest) = (num, den)"
    and "f32_of_ratio num den = (f, erange)"
  shows "wcstof_model s = (if neg then fneg f else f, erange)"
  using assms by (auto simp: wcstof_model_def)

lemma wcstof_model_no_literal:
  assumes "read_sign (dropWhile isspace_c s) = (neg, s')"
    and "\<not> stricmp_eq (take 3 s') ''inf''" "\<not> stricmp_eq (take 3 s') ''nan''"
    and "decimal_literal s' = ([], [], rest)"
  shows "wcstof_model s = (0, False)"
  using assms by (simp add: wcstof_model_def)

lemma f32_of_ratio_examples:
  "f32_of_ratio 10 10 = (0x3F800000, False)"
  "f32_of_ratio 20 10 = (0x40000000, False)"
  "f32_of_ratio 30 10 = (0x40400000, False)"
  by (simp_all add: f32_of_ratio_def bit_length.simps round_half_even_def)

lemma wcstof_model_1: "wcstof_model ''1.0, 2.0, 3.0'' = (0x3F800000, False)"
proof -
  have "read_sign (dropWhile isspace_c ''1.0, 2.0, 3.0'') = (False, ''1.0, 2.0, 3.0'')"
    by (simp add: read_sign_def isspace_c_def)
  moreover have "\<not> stricmp_eq (take 3 ''1.0, 2.0, 3.0'') ''inf''"
    "\<not> stricmp_eq (take 3 ''1.0, 2.0, 3.0'') ''nan''"
    by (simp_all add: stricmp_eq_def tolower_c_def)
  moreover have "decimal_literal ''1.0, 2.0, 3.0'' = (''1'', ''0'', '', 2.0, 3.0'')"
    by (simp add: decimal_literal_def is_digit_def)
  moreover have "decimal_ratio ''1'' ''0'' (read_exponent '', 2.0, 3.0'') = (10, 10)"
    by (simp add: decimal_ratio_def read_exponent_def digits_value_def)
  ultimately show ?thesis
    using wcstof_model_decimal [of "''1.0, 2.0, 3.0''" False _ "''1''" "''0''" _ 10 10]
      f32_of_ratio_examples(1)
    by simp
qed

lemma wcstof_model_2: "wcstof_model ''2.0, 3.0'' = (0x40000000, False)"
proof -
  have "read_sign (dropWhile isspace_c ''2.0, 3.0'') = (False, ''2.0, 3.0'')"
    by (simp add: read_sign_def isspace_c_def)
  moreover have "\<not> stricmp_eq (take 3 ''2.0, 3.0'') ''inf''"
    "\<not> stricmp_eq (take 3 ''2.0, 3.0'') ''nan''"
    by (simp_all add: stricmp_eq_def tolower_c_def)
  moreover have "decimal_literal ''2.0, 3.0'' = (''2'', ''0'', '', 3.0'')"
    by (simp add: decimal_literal_def is_digit_def)
  moreover have "decimal_ratio ''2'' ''0'' (read_exponent '', 3.0'') = (20, 10)"
    by (simp add: decimal_ratio_def read_exponent_def digits_value_def)
  ultimately show ?thesis
    using wcstof_model_decimal [of "''2.0, 3.0''" False _ "''2''" "''0''" _ 20 10]
      f32_of_ratio_examples(2)
    by simp
qed

lemma wcstof_model_3: "wcstof_model ''3.0'' = (0x40400000, False)"
proof -
  have "read_sign (dropWhile isspace_c ''3.0'') = (False, ''3.0'')"
    by (simp add: read_sign_def isspace_c_def)
  moreover have "\<not> stricmp_eq (take 3 ''3.0'') ''inf''"
    "\<not> stricmp_eq (take 3 ''3.0'') ''nan''"
    by (simp_all add: stricmp_eq_def tolower_c_def)
  moreover have "decimal_literal ''3.0'' = (''3'', ''0'', [])"
    by (simp add: decimal_literal_def is_digit_def)
  moreover have "decimal_ratio ''3'' ''0'' (read_exponent []) = (30, 10)"
    by (simp add: decimal_ratio_def read_exponent_def digits_value_def)
  ultimately show ?thesis
    using wcstof_model_decimal [of "''3.0''" False _ "''3''" "''0''" _ 30 10]
      f32_of_ratio_examples(3)
    by simp
qed

lemma wcstof_model_1_inf: "wcstof_model ''1.0 -inf'' = (0x3F800000, False)"
proof -
  have "read_sign (dropWhile isspace_c ''1.0 -inf'') = (False, ''1.0 -inf'')"
    by (simp add: read_sign_def isspace_c_def)
  moreover have "\<not> stricmp_eq (take 3 ''1.0 -inf'') ''inf''"
    "\<not> stricmp_eq (take 3 ''1.0 -inf'') ''nan''"
    by (simp_all add: stricmp_eq_def tolower_c_def)
  moreover have "decimal_literal ''1.0 -inf'' = (''1'', ''0'', '' -inf'')"
    by (simp add: decimal_literal_def is_digit_def)
  moreover have "decimal_ratio ''1'' ''0'' (read_exponent '' -inf'') = (10, 10)"
    by (simp add: decimal_ratio_def read_exponent_def digits_value_def)
  ultimately show ?thesis
    using wcstof_model_decimal [of "''1.0 -inf''" False _ "''1''" "''0''" _ 10 10]
      f32_of_ratio_examples(1)
    by simp
qed

section \<open>The byte payload\<close>

lemma literal_tails_from_skip:
  "literal_tails_from False pText = literal_tails_from False (dropWhile isByteInitSeparator pText)"
  by (induction pText) simp_all

lemma literal_tails_from_inside:
  "literal_tails_from True pText =
     literal_tails_from False (dropWhile (\<lambda>c. \<not> isByteInitSeparator c) pText)"
  by (induction pText) simp_all

lemma literal_tails_none:
  assumes "SkipByteInitSeparators pText = []"
  shows "literal_tails pText = []"
proof -
  from assms have "dropWhile isByteInitSeparator pText = []"
    by (simp only: SkipByteInitSeparators_def)
  with literal_tails_from_skip [of pText] have "literal_tails_from False pText = literal_tails_from False []"
    by (simp only:)
  then show ?thesis
    by (simp add: literal_tails_def)
qed

lemma literal_tails_step:
  assumes "SkipByteInitSeparators pText \<noteq> []"
  shows "literal_tails pText =
           SkipByteInitSeparators pText #
           literal_tails (FindByteInitSeparators (SkipByteInitSeparators pText))"
proof -
  from assms obtain c cs where cs: "dropWhile isByteInitSeparator pText = c # cs"
    by (cases "dropWhile isByteInitSeparator pText") (simp_all add: SkipByteInitSeparators_def)
  then have c: "\<not> isByteInitSeparator c"
    using hd_dropWhile [of isByteInitSeparator pText] by simp
  have "literal_tails pText = literal_tails_from False (c # cs)"
    using literal_tails_from_skip [of pText] cs by (simp add: literal_tails_def)
  also have "\<dots> = (c # cs) # literal_tails_from True cs"
    using c by simp
  also have "literal_tails_from True cs =
               literal_tails_from False (dropWhile (\<lambda>c. \<not> isByteInitSeparator c) (c # cs))"
    using c by (simp add: literal_tails_from_inside)
  finally show ?thesis
    using cs by (simp add: literal_tails_def SkipByteInitSeparators_def FindByteInitSeparators_def)
qed

lemma ParseByteInitText_tails:
  "ParseByteInitText crt pText V errno =
     (V @ concat (map (\<lambda>tail. float_bytes (fst (ByteInitValue crt tail))) (literal_tails pText)),
      errno \<or> (\<exists>tail \<in> set (literal_tails pText). snd (ByteInitValue crt tail)))"
proof (induction crt pText V errno rule: ParseByteInitText.induct)
  case (1 crt pText V errno)
  show ?case
  proof (cases "pText = [] \<or> SkipByteInitSeparators pText = []")
    case True
    then have "SkipByteInitSeparators pText = []"
      by (auto simp: SkipByteInitSeparators_def)
    then show ?thesis
      using True by (subst ParseByteInitText.simps) (auto simp: literal_tails_none)
  next
    case False
    then have ne: "pText \<noteq> []" "SkipByteInitSeparators pText \<noteq> []"
      by simp_all
    show ?thesis
      using ne
      by (subst ParseByteInitText.simps) (simp add: "1.IH" [OF ne] literal_tails_step [OF ne(2)])
  qed
qed

lemma split_literals_tails:
  "split_literals cur pText =
     (if cur = []
      then map (takeWhile (\<lambda>c. \<not> isByteInitSeparator c)) (literal_tails_from False pText)
      else (cur @ takeWhile (\<lambda>c. \<not> isByteInitSeparator c) pText) #
           map (takeWhile (\<lambda>c. \<not> isByteInitSeparator c)) (literal_tails_from True pText))"
  by (induction pText arbitrary: cur) simp_all

lemma literals_tails:
  "map (takeWhile (\<lambda>c. \<not> isByteInitSeparator c)) (literal_tails pText) = literals pText"
  by (simp add: literals_def literal_tails_def split_literals_tails)

lemma length_float_bytes: "length (float_bytes f) = 4"
  by (simp add: float_bytes_def)

lemma length_concat_float_bytes:
  "length (concat (map (\<lambda>tail. float_bytes (g tail)) tails)) = 4 * length tails"
  by (induction tails) (simp_all add: length_float_bytes)

lemma f32_constants:
  "f32_is_infinity INFINITY" "\<not> f32_negative INFINITY"
  "f32_is_infinity (fneg INFINITY)" "f32_negative (fneg INFINITY)"
  "f32_is_subnormal FLT_MIN_div_2" "\<not> f32_negative FLT_MIN_div_2"
  "f32_units FLT_MIN_div_2 = 2 ^ 22"
  "f32_is_subnormal (fneg FLT_MIN_div_2)" "f32_negative (fneg FLT_MIN_div_2)"
  "f32_units (fneg FLT_MIN_div_2) = 2 ^ 22"
  "f32_units FLT_MIN = 2 ^ 23" "f32_is_subnormal 1" "\<not> f32_negative 1" "f32_units 1 = 1"
  by (simp_all add: f32_is_infinity_def f32_negative_def f32_is_subnormal_def f32_units_def
      f32_exponent_def f32_mantissa_def INFINITY_def fneg_def FLT_MIN_div_2_def FLT_MIN_def)

lemma ByteInitValue_sentinels:
  "stricmp_eq tail ''nan'' \<Longrightarrow> ByteInitValue crt tail = (NAN crt, False)"
  "stricmp_eq tail ''-inf'' \<Longrightarrow> ByteInitValue crt tail = (INFINITY, False)"
  "stricmp_eq tail ''inf'' \<or> stricmp_eq tail ''+inf'' \<Longrightarrow> ByteInitValue crt tail = (fneg INFINITY, False)"
  "stricmp_eq tail ''-denorm'' \<Longrightarrow> ByteInitValue crt tail = (fneg FLT_MIN_div_2, False)"
  "stricmp_eq tail ''denorm'' \<Longrightarrow> ByteInitValue crt tail = (FLT_MIN_div_2, False)"
  by (auto simp: ByteInitValue_def stricmp_eq_def tolower_c_def)

lemma separator_tolower:
  assumes "isByteInitSeparator c"
  shows "tolower_c c = c"
  using assms by (auto simp: isByteInitSeparator_def tolower_c_def)

lemma stricmp_eq_no_separator:
  assumes "stricmp_eq tail s" "map tolower_c s = s" "\<forall>c \<in> set s. \<not> isByteInitSeparator c"
  shows "takeWhile (\<lambda>c. \<not> isByteInitSeparator c) tail = tail"
proof -
  have "\<not> isByteInitSeparator c" if "c \<in> set tail" for c
  proof
    assume sep: "isByteInitSeparator c"
    from that have "tolower_c c \<in> set (map tolower_c tail)"
      by simp
    also have "map tolower_c tail = s"
      using assms(1,2) by (simp add: stricmp_eq_def)
    finally have "c \<in> set s"
      using separator_tolower [OF sep] by simp
    with assms(3) sep show False by blast
  qed
  then show ?thesis
    by (simp add: takeWhile_eq_all_conv)
qed

lemma sentinel_whole_text:
  assumes "stricmp_eq tail ''nan'' \<or> stricmp_eq tail ''inf'' \<or> stricmp_eq tail ''+inf'' \<or>
           stricmp_eq tail ''-inf'' \<or> stricmp_eq tail ''denorm'' \<or> stricmp_eq tail ''-denorm''"
  shows "takeWhile (\<lambda>c. \<not> isByteInitSeparator c) tail = tail"
proof -
  have low: "map tolower_c ''nan'' = ''nan''" "map tolower_c ''inf'' = ''inf''"
    "map tolower_c ''+inf'' = ''+inf''" "map tolower_c ''-inf'' = ''-inf''"
    "map tolower_c ''denorm'' = ''denorm''" "map tolower_c ''-denorm'' = ''-denorm''"
    by (simp_all add: tolower_c_def)
  have sep: "\<forall>c \<in> set ''nan''. \<not> isByteInitSeparator c"
    "\<forall>c \<in> set ''inf''. \<not> isByteInitSeparator c"
    "\<forall>c \<in> set ''+inf''. \<not> isByteInitSeparator c"
    "\<forall>c \<in> set ''-inf''. \<not> isByteInitSeparator c"
    "\<forall>c \<in> set ''denorm''. \<not> isByteInitSeparator c"
    "\<forall>c \<in> set ''-denorm''. \<not> isByteInitSeparator c"
    by (simp_all add: isByteInitSeparator_def)
  from assms show ?thesis
    using stricmp_eq_no_separator [OF _ low(1) sep(1)] stricmp_eq_no_separator [OF _ low(2) sep(2)]
      stricmp_eq_no_separator [OF _ low(3) sep(3)] stricmp_eq_no_separator [OF _ low(4) sep(4)]
      stricmp_eq_no_separator [OF _ low(5) sep(5)] stricmp_eq_no_separator [OF _ low(6) sep(6)]
    by blast
qed

lemma ByteInitValue_not_sentinel:
  assumes "\<not> is_sentinel (takeWhile (\<lambda>c. \<not> isByteInitSeparator c) tail)"
  shows "ByteInitValue crt tail = wcstof crt tail"
proof -
  have "\<not> (stricmp_eq tail ''nan'' \<or> stricmp_eq tail ''inf'' \<or> stricmp_eq tail ''+inf'' \<or>
           stricmp_eq tail ''-inf'' \<or> stricmp_eq tail ''denorm'' \<or> stricmp_eq tail ''-denorm'')"
  proof
    assume s: "stricmp_eq tail ''nan'' \<or> stricmp_eq tail ''inf'' \<or> stricmp_eq tail ''+inf'' \<or>
               stricmp_eq tail ''-inf'' \<or> stricmp_eq tail ''denorm'' \<or> stricmp_eq tail ''-denorm''"
    then have "is_sentinel tail"
      by (simp add: is_sentinel_def)
    with assms [unfolded sentinel_whole_text [OF s]] show False
      by (rule notE)
  qed
  then show ?thesis
    by (simp add: ByteInitValue_def)
qed

lemma ByteInitValue_sentinel:
  assumes "is_sentinel tok"
  shows "fst (ByteInitValue crt tok) = sentinel_value crt tok"
  using assms
  by (auto simp: is_sentinel_def ByteInitValue_def sentinel_value_def stricmp_eq_def tolower_c_def)

lemma sentinel_value_cases:
  "stricmp_eq tok ''nan'' \<Longrightarrow> sentinel_value crt tok = NAN crt"
  "stricmp_eq tok ''inf'' \<or> stricmp_eq tok ''+inf'' \<Longrightarrow> sentinel_value crt tok = fneg INFINITY"
  "stricmp_eq tok ''-inf'' \<Longrightarrow> sentinel_value crt tok = INFINITY"
  "stricmp_eq tok ''denorm'' \<Longrightarrow> sentinel_value crt tok = FLT_MIN_div_2"
  "stricmp_eq tok ''-denorm'' \<Longrightarrow> sentinel_value crt tok = fneg FLT_MIN_div_2"
  by (auto simp: sentinel_value_def stricmp_eq_def tolower_c_def)

text \<open>
  Claim C1, with \<open>denorm\<close> as the code has it. Every literal of the text contributes
  exactly four bytes, the bytes of one binary32 value, appended to the buffer in the
  order of the literals. A literal that is not a sentinel contributes the value \<^verbatim>\<open>wcstof\<close>
  reads at it. A sentinel that ends the text contributes, in any letter case, the \<^verbatim>\<open>NAN\<close>
  of the C library for \<open>nan\<close>, negative infinity for \<open>inf\<close> and \<open>+inf\<close>, positive infinity
  for \<open>-inf\<close>, \<^verbatim>\<open>FLT_MIN / 2\<close> (a subnormal number of \<open>2\<^sup>2\<^sup>2\<close> units of the smallest one)
  for \<open>denorm\<close>, and the negation of that for \<open>-denorm\<close>. Nothing is said of a sentinel with
  more text after it.
\<close>

theorem ParseByteInitText_four_bytes_per_literal:
  "(\<exists>vs. fst (ParseByteInitText crt pText V errno) = V @ concat (map float_bytes vs) \<and>
         length vs = length (literals pText) \<and>
         length (literal_tails pText) = length (literals pText) \<and>
         (\<forall>k < length (literals pText).
            literals pText ! k =
              takeWhile (\<lambda>c. \<not> isByteInitSeparator c) (literal_tails pText ! k) \<and>
            (\<not> is_sentinel (literals pText ! k) \<longrightarrow>
               vs ! k = fst (wcstof crt (literal_tails pText ! k))) \<and>
            (is_sentinel (literals pText ! k) \<and> literal_tails pText ! k = literals pText ! k \<longrightarrow>
               vs ! k = sentinel_value crt (literals pText ! k)))) \<and>
   length (fst (ParseByteInitText crt pText V errno)) = length V + 4 * length (literals pText) \<and>
   (\<forall>f. length (float_bytes f) = 4) \<and>
   (\<forall>tok. stricmp_eq tok ''nan'' \<longrightarrow> is_sentinel tok \<and> sentinel_value crt tok = NAN crt) \<and>
   (\<forall>tok. stricmp_eq tok ''inf'' \<or> stricmp_eq tok ''+inf'' \<longrightarrow>
      is_sentinel tok \<and> sentinel_value crt tok = fneg INFINITY) \<and>
   f32_is_infinity (fneg INFINITY) \<and> f32_negative (fneg INFINITY) \<and>
   (\<forall>tok. stricmp_eq tok ''-inf'' \<longrightarrow> is_sentinel tok \<and> sentinel_value crt tok = INFINITY) \<and>
   f32_is_infinity INFINITY \<and> \<not> f32_negative INFINITY \<and>
   (\<forall>tok. stricmp_eq tok ''denorm'' \<longrightarrow>
      is_sentinel tok \<and> sentinel_value crt tok = FLT_MIN_div_2) \<and>
   f32_is_subnormal FLT_MIN_div_2 \<and> \<not> f32_negative FLT_MIN_div_2 \<and>
   f32_units FLT_MIN_div_2 = 2 ^ 22 \<and>
   (\<forall>tok. stricmp_eq tok ''-denorm'' \<longrightarrow>
      is_sentinel tok \<and> sentinel_value crt tok = fneg FLT_MIN_div_2) \<and>
   f32_is_subnormal (fneg FLT_MIN_div_2) \<and> f32_negative (fneg FLT_MIN_div_2) \<and>
   f32_units (fneg FLT_MIN_div_2) = 2 ^ 22"
proof -
  define vs where "vs = map (\<lambda>tail. fst (ByteInitValue crt tail)) (literal_tails pText)"
  have len: "length (literal_tails pText) = length (literals pText)"
    using literals_tails [of pText, symmetric] by simp
  have bytes: "fst (ParseByteInitText crt pText V errno) = V @ concat (map float_bytes vs)"
    by (simp add: ParseByteInitText_tails vs_def comp_def)
  have each: "literals pText ! k =
                takeWhile (\<lambda>c. \<not> isByteInitSeparator c) (literal_tails pText ! k) \<and>
              (\<not> is_sentinel (literals pText ! k) \<longrightarrow>
                 vs ! k = fst (wcstof crt (literal_tails pText ! k))) \<and>
              (is_sentinel (literals pText ! k) \<and> literal_tails pText ! k = literals pText ! k \<longrightarrow>
                 vs ! k = sentinel_value crt (literals pText ! k))"
    if k: "k < length (literals pText)" for k
  proof -
    from k len have k': "k < length (literal_tails pText)"
      by simp
    have tok: "literals pText ! k =
                 takeWhile (\<lambda>c. \<not> isByteInitSeparator c) (literal_tails pText ! k)"
      using k' literals_tails [of pText, symmetric] by simp
    have v: "vs ! k = fst (ByteInitValue crt (literal_tails pText ! k))"
      using k' by (simp add: vs_def)
    have "vs ! k = fst (wcstof crt (literal_tails pText ! k))" if "\<not> is_sentinel (literals pText ! k)"
    proof -
      have "\<not> is_sentinel (takeWhile (\<lambda>c. \<not> isByteInitSeparator c)
                              (literal_tails pText ! k))"
        unfolding tok [symmetric] by (rule that)
      from ByteInitValue_not_sentinel [OF this, of crt] v show ?thesis
        by simp
    qed
    moreover have "vs ! k = sentinel_value crt (literals pText ! k)"
      if "is_sentinel (literals pText ! k)" "literal_tails pText ! k = literals pText ! k"
      using that v ByteInitValue_sentinel [of "literals pText ! k" crt] by simp
    ultimately show ?thesis
      using tok by blast
  qed
  have ex: "\<exists>vs. fst (ParseByteInitText crt pText V errno) = V @ concat (map float_bytes vs) \<and>
         length vs = length (literals pText) \<and>
         length (literal_tails pText) = length (literals pText) \<and>
         (\<forall>k < length (literals pText).
            literals pText ! k =
              takeWhile (\<lambda>c. \<not> isByteInitSeparator c) (literal_tails pText ! k) \<and>
            (\<not> is_sentinel (literals pText ! k) \<longrightarrow>
               vs ! k = fst (wcstof crt (literal_tails pText ! k))) \<and>
            (is_sentinel (literals pText ! k) \<and> literal_tails pText ! k = literals pText ! k \<longrightarrow>
               vs ! k = sentinel_value crt (literals pText ! k)))"
  proof (intro exI [of _ vs] conjI allI impI)
    show "fst (ParseByteInitText crt pText V errno) = V @ concat (map float_bytes vs)"
      by (rule bytes)
    show "length vs = length (literals pText)"
      using len by (simp add: vs_def)
    show "length (literal_tails pText) = length (literals pText)"
      by (rule len)
  qed (use each in blast)+
  have total: "length (fst (ParseByteInitText crt pText V errno)) =
                 length V + 4 * length (literals pText)"
    using len by (simp add: ParseByteInitText_tails length_concat_float_bytes)
  have s: "is_sentinel tok" if "stricmp_eq tok ''nan'' \<or> stricmp_eq tok ''inf'' \<or>
      stricmp_eq tok ''+inf'' \<or> stricmp_eq tok ''-inf'' \<or> stricmp_eq tok ''denorm'' \<or>
      stricmp_eq tok ''-denorm''" for tok
    using that by (simp add: is_sentinel_def)
  from ex total show ?thesis
    by (simp add: length_float_bytes s sentinel_value_cases f32_constants)
qed

lemma float_bytes_examples:
  "float_bytes 0x3F800000 = [0, 0, 0x80, 0x3F]"
  "float_bytes 0x40000000 = [0, 0, 0, 0x40]"
  "float_bytes 0x40400000 = [0, 0, 0x40, 0x40]"
  "float_bytes INFINITY = [0, 0, 0x80, 0x7F]"
  "float_bytes FLT_MIN_div_2 = [0, 0, 0x40, 0]"
  "float_bytes 1 = [1, 0, 0, 0]"
  by (simp_all add: float_bytes_def INFINITY_def FLT_MIN_div_2_def)

theorem ParseByteInitText_four_bytes_per_literal_witness:
  "literals ''1.0 -inf'' = [''1.0'', ''-inf''] \<and>
   literal_tails ''1.0 -inf'' = [''1.0 -inf'', ''-inf''] \<and>
   \<not> is_sentinel ''1.0'' \<and> fst (wcstof crt_model ''1.0 -inf'') = 0x3F800000 \<and>
   is_sentinel ''-inf'' \<and> sentinel_value crt_model ''-inf'' = INFINITY \<and>
   fst (ParseByteInitText crt_model ''1.0 -inf'' [] False) = [0, 0, 0x80, 0x3F, 0, 0, 0x80, 0x7F]"
proof -
  have tails: "literal_tails ''1.0 -inf'' = [''1.0 -inf'', ''-inf'']"
    by (simp add: literal_tails_def isByteInitSeparator_def)
  have lits: "literals ''1.0 -inf'' = [''1.0'', ''-inf'']"
    by (simp add: literals_def isByteInitSeparator_def)
  have s: "\<not> is_sentinel ''1.0''" "is_sentinel ''-inf''"
    by (simp_all add: is_sentinel_def stricmp_eq_def tolower_c_def)
  have v: "fst (wcstof crt_model ''1.0 -inf'') = 0x3F800000"
    "sentinel_value crt_model ''-inf'' = INFINITY"
    by (simp_all add: crt_model_def wcstof_model_1_inf sentinel_value_def stricmp_eq_def
        tolower_c_def)
  from ParseByteInitText_four_bytes_per_literal [of crt_model "''1.0 -inf''" "[]" False]
  obtain vs where bytes: "fst (ParseByteInitText crt_model ''1.0 -inf'' [] False) =
                            [] @ concat (map float_bytes vs)"
    and len: "length vs = length (literals ''1.0 -inf'')"
    and each: "\<forall>k < length (literals ''1.0 -inf'').
            literals ''1.0 -inf'' ! k =
              takeWhile (\<lambda>c. \<not> isByteInitSeparator c) (literal_tails ''1.0 -inf'' ! k) \<and>
            (\<not> is_sentinel (literals ''1.0 -inf'' ! k) \<longrightarrow>
               vs ! k = fst (wcstof crt_model (literal_tails ''1.0 -inf'' ! k))) \<and>
            (is_sentinel (literals ''1.0 -inf'' ! k) \<and>
             literal_tails ''1.0 -inf'' ! k = literals ''1.0 -inf'' ! k \<longrightarrow>
               vs ! k = sentinel_value crt_model (literals ''1.0 -inf'' ! k))"
    by blast
  from len obtain a b where vs: "vs = [a, b]"
    unfolding lits by (cases vs; cases "tl vs") auto
  from each [rule_format, of 0] s v have a: "a = 0x3F800000"
    by (simp add: lits tails vs)
  from each [rule_format, of 1] s v have b: "b = INFINITY"
    by (simp add: lits tails vs)
  from bytes have "fst (ParseByteInitText crt_model ''1.0 -inf'' [] False) =
                     [0, 0, 0x80, 0x3F, 0, 0, 0x80, 0x7F]"
    by (simp add: vs a b float_bytes_examples)
  with tails lits s v show ?thesis
    by simp
qed

text \<open>
  Claim C1 as stated fails for \<open>denorm\<close>: the four bytes it contributes are those of
  \<^verbatim>\<open>FLT_MIN / 2\<close>, which is \<open>2\<^sup>2\<^sup>2\<close> times the smallest positive subnormal number (the
  value with the bit pattern 1), not that number.
\<close>

theorem ParseByteInitText_denorm_counterexample:
  "fst (ParseByteInitText crt_model ''denorm'' [] False) = [0, 0, 0x40, 0] \<and>
   float_bytes FLT_MIN_div_2 = [0, 0, 0x40, 0] \<and>
   f32_units FLT_MIN_div_2 = 4194304 \<and>
   f32_is_subnormal 1 \<and> \<not> f32_negative 1 \<and> f32_units 1 = 1 \<and>
   float_bytes 1 = [1, 0, 0, 0]"
proof -
  have "literal_tails ''denorm'' = [''denorm'']"
    by (simp add: literal_tails_def isByteInitSeparator_def)
  moreover have "ByteInitValue crt_model ''denorm'' = (FLT_MIN_div_2, False)"
    by (rule ByteInitValue_sentinels(5)) (simp add: stricmp_eq_def)
  ultimately show ?thesis
    by (simp add: ParseByteInitText_tails float_bytes_examples f32_constants)
qed

section \<open>Resources\<close>

lemma ParseResource_here:
  assumes "NodeType n = XmlNodeType_Element" "LocalName n = ''Resource''"
  shows "ParseResource crt (n # ns) pResource errno =
           (case ParseResource_attributes crt (n # ns) pResource errno of
              Inl hr \<Rightarrow> Inl hr
            | Inr (r0, errno1) \<Rightarrow>
                if EmptyElement n
                then Inr (r0 \<lparr> Desc := SetFixedValues (Desc r0) \<rparr>, errno1)
                else Inr (r0 \<lparr> Desc := SetFixedValues (Desc r0),
                               InitBytes :=
                                 fst (ParseResource_nodes crt (n # ns) (InitBytes r0) errno1) \<rparr>,
                          snd (ParseResource_nodes crt (n # ns) (InitBytes r0) errno1)))"
  using assms
  by (auto simp: ParseResource_def bindP_def returnP_def IsEmptyElement_def Let_def
      split: sum.splits prod.splits)

lemma ParseResource_attributes_Inr:
  assumes "ParseResource_attributes crt pReader pResource errno = Inr (r0, errno')"
  shows "(\<exists>hr. ReadAttrRESOURCE_DIMENSION pReader ''Dimension'' = Inr (hr, Dimension (Desc r0))) \<and>
         (\<exists>e1 e2. ReadAttrUINT64 crt pReader ''Width'' 0 e1 = Inr (Width (Desc r0), e2)) \<and>
         r_Name r0 = ReadAttrStr pReader ''Name'' \<and> r_Init r0 = ReadAttrStr pReader ''Init'' \<and>
         InitBytes r0 = InitBytes pResource"
  using assms
  by (auto simp: ParseResource_attributes_def Let_def bindP_Inr returnP_Inr CHECK_HR_value_Inr)
    blast+

lemma SetFixedValues_BUFFER:
  assumes "Dimension desc = D3D12_RESOURCE_DIMENSION_BUFFER"
  shows "SetFixedValues desc =
           desc \<lparr> Height := 1, DepthOrArraySize := 1, MipLevels := 1,
                  Format := DXGI_FORMAT_UNKNOWN, SampleDesc := \<lparr> Count = 1, Quality = 0 \<rparr>,
                  Layout := D3D12_TEXTURE_LAYOUT_ROW_MAJOR \<rparr>"
  using assms by (simp add: SetFixedValues_def Let_def)

lemma ReadAttrRESOURCE_DIMENSION_text:
  assumes "MoveToAttributeByName pReader ''Dimension'' = Some dim" "stricmp_eq dim name"
  shows "ReadAttrRESOURCE_DIMENSION pReader ''Dimension'' =
           map_sum id (Pair S_OK) (GetEnumValue name RESOURCE_DIMENSION)"
  using assms
  by (simp add: ReadAttrRESOURCE_DIMENSION_def ReadAttrEnumT_def GetEnumValue_stricmp)

lemma ParseResource_BUFFER:
  assumes "NodeType n = XmlNodeType_Element" "LocalName n = ''Resource''"
    and "MoveToAttributeByName (n # ns) ''Dimension'' = Some dim" "stricmp_eq dim ''BUFFER''"
    and "ParseResource crt (n # ns) pResource errno = Inr (r, errno')"
  shows "\<exists>r0 errno1.
           ParseResource_attributes crt (n # ns) pResource errno = Inr (r0, errno1) \<and>
           Desc r = (Desc r0) \<lparr> Height := 1, DepthOrArraySize := 1, MipLevels := 1,
                               Format := DXGI_FORMAT_UNKNOWN,
                               SampleDesc := \<lparr> Count = 1, Quality = 0 \<rparr>,
                               Layout := D3D12_TEXTURE_LAYOUT_ROW_MAJOR \<rparr> \<and>
           Dimension (Desc r0) = D3D12_RESOURCE_DIMENSION_BUFFER \<and>
           r_Name r = r_Name r0 \<and> r_Init r = r_Init r0 \<and>
           InitBytes r =
             (if EmptyElement n then InitBytes r0
              else fst (ParseResource_nodes crt (n # ns) (InitBytes r0) errno1))"
proof -
  from assms(5) obtain r0 e1 where a: "ParseResource_attributes crt (n # ns) pResource errno = Inr (r0, e1)"
    unfolding ParseResource_here [OF assms(1,2)] by (auto split: sum.splits)
  have "ReadAttrRESOURCE_DIMENSION (n # ns) ''Dimension'' = Inr (S_OK, D3D12_RESOURCE_DIMENSION_BUFFER)"
    using ReadAttrRESOURCE_DIMENSION_text [OF assms(3,4)] by (simp add: GetEnumValue_BUFFER)
  with ParseResource_attributes_Inr [OF a]
  have dim: "Dimension (Desc r0) = D3D12_RESOURCE_DIMENSION_BUFFER"
    by auto
  from assms(5) a have "r = (if EmptyElement n then r0 \<lparr> Desc := SetFixedValues (Desc r0) \<rparr>
                             else r0 \<lparr> Desc := SetFixedValues (Desc r0),
                                       InitBytes := fst (ParseResource_nodes crt (n # ns) (InitBytes r0) e1) \<rparr>)"
    unfolding ParseResource_here [OF assms(1,2)] by (auto split: if_splits)
  then show ?thesis
    using a dim by (auto simp: SetFixedValues_BUFFER)
qed

section \<open>CreateResources\<close>

lemma bindE_Inr: "(bindE r f = Inr b) = (\<exists>a. r = Inr a \<and> f a = Inr b)"
  by (auto simp: bindE_def split: sum.splits)

lemma request_Inr:
  assumes "request dev st req = Inr (h, st')"
  shows "st' = st \<lparr> DeviceCalls := Suc (DeviceCalls st) \<rparr>"
  using assms by (auto simp: request_def split: sum.splits)

lemma CreateResources_init_name:
  assumes "CreateResources_init cb R = Inr (hasInit, vals, R')"
  shows "r_Name R' = r_Name R"
  using assms
  by (auto simp: CreateResources_init_def Let_def bindE_Inr split: if_splits)

lemma stricmp_eq_frombytes:
  assumes "stricmp_eq init ''frombytes''"
  shows "stricmp_eq ''frombytes'' init" "\<not> stricmp_eq ''byname'' init" "\<not> stricmp_eq ''zero'' init"
  using assms by (auto simp: stricmp_eq_def tolower_c_def)

lemma CreateResources_init_frombytes:
  assumes "r_Init R = Some init" "stricmp_eq init ''frombytes''"
    and "Dimension (Desc R) = D3D12_RESOURCE_DIMENSION_BUFFER" "Width (Desc R) = 0"
  shows "CreateResources_init cb R =
           Inr (True, InitBytes R,
                R \<lparr> Desc := (Desc R) \<lparr> Width := word_of_nat (length (InitBytes R)) \<rparr> \<rparr>)"
  using assms stricmp_eq_frombytes [OF assms(2)]
  by (simp add: CreateResources_init_def Init_is_def Let_def bindE_def)

lemma CreateResources_body_Inr:
  assumes "CreateResources_body dev cb i R (st, pl) = Inr (st', pl')"
  shows "length (Resources st') = length (Resources st) \<and>
         (\<forall>j. j \<noteq> i \<longrightarrow> Resources st' ! j = Resources st ! j) \<and>
         (\<forall>k. k \<noteq> r_Name R \<longrightarrow> m_ResourceData st' k = m_ResourceData st k) \<and>
         (m_ResourceData st (r_Name R) = None \<longrightarrow>
            (\<exists>hasInit vals R'.
               CreateResources_init cb R = Inr (hasInit, vals, R') \<and>
               (i < length (Resources st) \<longrightarrow> Resources st' ! i = R')))"
proof (cases "m_ResourceData st (r_Name R) = None")
  case False
  with assms show ?thesis
    by (auto simp: CreateResources_body_def)
next
  case True
  with assms obtain hasInit vals R' pResource st1 st2 pl1 readBack st3
    where init: "CreateResources_init cb R = Inr (hasInit, vals, R')"
      and r1: "request dev (st \<lparr> Resources := (Resources st)[i := R'] \<rparr>)
                 (CreateCommittedResource (HeapProperties R') (HeapFlags R') (Desc R')
                    (InitialResourceState R')) = Inr (pResource, st1)"
      and up: "(if hasInit then
                  bindE (uploadDesc R') (\<lambda>desc.
                  bindE (request dev st1
                           (CreateCommittedResource
                              (CD3DX12_HEAP_PROPERTIES D3D12_HEAP_TYPE_UPLOAD)
                              D3D12_HEAP_FLAG_NONE desc D3D12_RESOURCE_STATE_GENERIC_READ))
                    (\<lambda>(pIntermediate, st2).
                       Inr (st2, pl @ [UpdateSubresources pResource pIntermediate vals])))
                else Inr (st1, pl)) = Inr (st2, pl1)"
      and rb: "(if ReadBack R' then
                  bindE (readbackWidth R') (\<lambda>width.
                  bindE (request dev st2
                           (CreateCommittedResource
                              (CD3DX12_HEAP_PROPERTIES D3D12_HEAP_TYPE_READBACK)
                              D3D12_HEAP_FLAG_NONE (CD3DX12_RESOURCE_DESC_Buffer width)
                              D3D12_RESOURCE_STATE_COPY_DEST))
                    (\<lambda>(pReadbackResource, st3). Inr (Some pReadbackResource, st3)))
                else Inr (None, st2)) = Inr (readBack, st3)"
      and fin: "Resources st' = Resources st3 \<and>
                (\<forall>k. k \<noteq> r_Name R' \<longrightarrow> m_ResourceData st' k = m_ResourceData st3 k)"
    by (auto simp: CreateResources_body_def bindE_Inr Let_def split: if_splits)
  have s1: "Resources st1 = (Resources st)[i := R']" "m_ResourceData st1 = m_ResourceData st"
    using request_Inr [OF r1] by simp_all
  have s2: "Resources st2 = Resources st1" "m_ResourceData st2 = m_ResourceData st1"
    using up by (auto simp: bindE_Inr split: if_splits dest!: request_Inr)
  have s3: "Resources st3 = Resources st2" "m_ResourceData st3 = m_ResourceData st2"
    using rb by (auto simp: bindE_Inr split: if_splits dest!: request_Inr)
  have "Resources st' = (Resources st)[i := R']"
    using fin s1 s2 s3 by simp
  moreover have "\<forall>k. k \<noteq> r_Name R \<longrightarrow> m_ResourceData st' k = m_ResourceData st k"
    using fin s1 s2 s3 CreateResources_init_name [OF init] by simp
  ultimately show ?thesis
    using init by auto
qed

lemma CreateResources_loop_before:
  assumes "CreateResources_loop dev cb i Rs (st, pl) = Inr (st', pl')"
  shows "length (Resources st') = length (Resources st) \<and>
         (\<forall>j < i. Resources st' ! j = Resources st ! j)"
  using assms
proof (induction Rs arbitrary: i st pl)
  case Nil
  then show ?case by simp
next
  case (Cons R Rs)
  from Cons.prems obtain st1 pl1 where b: "CreateResources_body dev cb i R (st, pl) = Inr (st1, pl1)"
    and l: "CreateResources_loop dev cb (Suc i) Rs (st1, pl1) = Inr (st', pl')"
    by (auto split: sum.splits)
  from CreateResources_body_Inr [OF b] Cons.IH [OF l] show ?case
    by auto
qed

lemma CreateResources_loop_target:
  assumes "CreateResources_loop dev cb i Rs (st, pl) = Inr (st', pl')"
    and "k < length Rs" "i + k < length (Resources st)"
    and "m_ResourceData st (r_Name (Rs ! k)) = None"
    and "\<forall>j < k. r_Name (Rs ! j) \<noteq> r_Name (Rs ! k)"
  shows "\<exists>hasInit vals R'.
           CreateResources_init cb (Rs ! k) = Inr (hasInit, vals, R') \<and>
           Resources st' ! (i + k) = R'"
  using assms
proof (induction Rs arbitrary: i k st pl)
  case Nil
  then show ?case by simp
next
  case (Cons R Rs)
  from Cons.prems(1) obtain st1 pl1
    where b: "CreateResources_body dev cb i R (st, pl) = Inr (st1, pl1)"
      and l: "CreateResources_loop dev cb (Suc i) Rs (st1, pl1) = Inr (st', pl')"
    by (auto split: sum.splits)
  note body = CreateResources_body_Inr [OF b]
  show ?case
  proof (cases k)
    case 0
    with Cons.prems body obtain hasInit vals R'
      where "CreateResources_init cb R = Inr (hasInit, vals, R')" "Resources st1 ! i = R'"
      by auto
    moreover have "Resources st' ! i = Resources st1 ! i"
      using CreateResources_loop_before [OF l] by simp
    ultimately show ?thesis
      using 0 by simp
  next
    case (Suc k')
    with Cons.prems have k': "k' < length Rs" "Suc i + k' < length (Resources st1)"
      and ne: "r_Name R \<noteq> r_Name (Rs ! k')"
      using body by auto
    have none: "m_ResourceData st1 (r_Name (Rs ! k')) = None"
      using Cons.prems(4) Suc body ne by auto
    have earlier: "\<forall>j < k'. r_Name (Rs ! j) \<noteq> r_Name (Rs ! k')"
      using Cons.prems(5) Suc by auto
    from Cons.IH [OF l k' none earlier] show ?thesis
      using Suc by simp
  qed
qed

lemma CreateResources_Inr:
  assumes "CreateResources dev cb st = Inr st'"
    and "i < length (Resources st)"
    and "m_ResourceData st (r_Name (Resources st ! i)) = None"
    and "\<forall>j < i. r_Name (Resources st ! j) \<noteq> r_Name (Resources st ! i)"
  shows "\<exists>hasInit vals R'.
           CreateResources_init cb (Resources st ! i) = Inr (hasInit, vals, R') \<and>
           Resources st' ! i = R'"
proof -
  from assms(1) obtain h st1 st2 pList q st3 h' st4
    where r1: "request dev st (CreateCommandList True) = Inr (h, st1)"
      and lp: "CreateResources_loop dev cb 0 (Resources st1) (st1, []) = Inr (st2, pList)"
      and r3: "request dev st2
                 (CreateCommittedResource (CD3DX12_HEAP_PROPERTIES D3D12_HEAP_TYPE_READBACK)
                    D3D12_HEAP_FLAG_NONE (CD3DX12_RESOURCE_DESC_Buffer 88)
                    D3D12_RESOURCE_STATE_COPY_DEST) = Inr (q, st3)"
      and r4: "request dev st3 (CloseAndExecute pList) = Inr (h', st4)"
      and fin: "st' = st4 \<lparr> m_pQueryBuffer := Some q, m_FenceValue := m_FenceValue st4 + 1 \<rparr>"
    by (auto simp: CreateResources_def bindE_Inr)
  have s1: "Resources st1 = Resources st" "m_ResourceData st1 = m_ResourceData st"
    using request_Inr [OF r1] by simp_all
  have "\<exists>hasInit vals R'.
          CreateResources_init cb (Resources st1 ! i) = Inr (hasInit, vals, R') \<and>
          Resources st2 ! (0 + i) = R'"
    using assms(2-4) s1 by (intro CreateResources_loop_target [OF lp]) simp_all
  moreover have "Resources st' = Resources st2"
    using request_Inr [OF r3] request_Inr [OF r4] fin by simp
  ultimately show ?thesis
    using s1 by simp
qed

section \<open>A buffer with three floats\<close>

lemma ReadAttrUINT16_present:
  assumes "MoveToAttributeByName pReader name = Some pText" "wtol crt pText = (l, False)"
    and "(scast l :: 64 word) \<le> 0xFFFF"
  shows "ReadAttrUINT16 crt pReader name dflt False = Inr (ucast (scast l :: 64 word), False)"
  using assms
  by (simp add: ReadAttrUINT16_def bindP_def ReadAttrUINT64_def UInt64ToUInt16_def CHECK_HR_def)

lemma GetEnumValue_R32_FLOAT: "GetEnumValue ''R32_FLOAT'' DXGI_FORMAT = Inr DXGI_FORMAT_R32_FLOAT"
  by (simp add: GetEnumValue_def g_ParserEnumTables_def DXGI_FORMAT_TABLE_def
      stricmp_eq_def tolower_c_def)

lemma GetEnumValue_STANDARD_SWIZZLE:
  "GetEnumValue ''STANDARD_SWIZZLE'' TEXTURE_LAYOUT = Inr D3D12_TEXTURE_LAYOUT_64KB_STANDARD_SWIZZLE"
  by (simp add: GetEnumValue_def g_ParserEnumTables_def TEXTURE_LAYOUT_TABLE_def
      stricmp_eq_def tolower_c_def)

lemma resource_frombytes_attrs:
  "MoveToAttributeByName resource_frombytes_nodes ''Name'' = Some ''SVerts''"
  "MoveToAttributeByName resource_frombytes_nodes ''Init'' = Some ''FromBytes''"
  "MoveToAttributeByName resource_frombytes_nodes ''ReadBack'' = None"
  "MoveToAttributeByName resource_frombytes_nodes ''HeapType'' = None"
  "MoveToAttributeByName resource_frombytes_nodes ''CPUPageProperty'' = None"
  "MoveToAttributeByName resource_frombytes_nodes ''MemoryPoolPreference'' = None"
  "MoveToAttributeByName resource_frombytes_nodes ''CreationNodeMask'' = None"
  "MoveToAttributeByName resource_frombytes_nodes ''VisibleNodeMask'' = None"
  "MoveToAttributeByName resource_frombytes_nodes ''Dimension'' = Some ''buffer''"
  "MoveToAttributeByName resource_frombytes_nodes ''Alignment'' = None"
  "MoveToAttributeByName resource_frombytes_nodes ''Width'' = None"
  "MoveToAttributeByName resource_frombytes_nodes ''Height'' = Some ''7''"
  "MoveToAttributeByName resource_frombytes_nodes ''DepthOrArraySize'' = Some ''4''"
  "MoveToAttributeByName resource_frombytes_nodes ''MipLevels'' = Some ''3''"
  "MoveToAttributeByName resource_frombytes_nodes ''Format'' = Some ''R32_FLOAT''"
  "MoveToAttributeByName resource_frombytes_nodes ''SampleCount'' = Some ''4''"
  "MoveToAttributeByName resource_frombytes_nodes ''SampleQual'' = Some ''2''"
  "MoveToAttributeByName resource_frombytes_nodes ''Layout'' = Some ''STANDARD_SWIZZLE''"
  "MoveToAttributeByName resource_frombytes_nodes ''Flags'' = None"
  "MoveToAttributeByName resource_frombytes_nodes ''HeapFlags'' = None"
  "MoveToAttributeByName resource_frombytes_nodes ''InitialResourceState'' = None"
  "MoveToAttributeByName resource_frombytes_nodes ''TransitionTo'' = None"
  by (simp_all add: resource_frombytes_nodes_def resource_frombytes_def element_def
      MoveToAttributeByName_def)

lemma resource_frombytes_attributes:
  "ParseResource_attributes crt_model resource_frombytes_nodes resource_zero False =
     Inr (\<lparr> r_Name = Some ''SVerts'', r_Init = Some ''FromBytes'', ReadBack = False,
            HeapProperties =
              \<lparr> Type = D3D12_HEAP_TYPE_DEFAULT, CPUPageProperty = D3D12_CPU_PAGE_PROPERTY_UNKNOWN,
                MemoryPoolPreference = D3D12_MEMORY_POOL_UNKNOWN, CreationNodeMask = 0,
                VisibleNodeMask = 0 \<rparr>,
            Desc =
              \<lparr> Dimension = D3D12_RESOURCE_DIMENSION_BUFFER, Alignment = 0, Width = 0,
                Height = 7, DepthOrArraySize = 4, MipLevels = 3, Format = DXGI_FORMAT_R32_FLOAT,
                SampleDesc = \<lparr> Count = 4, Quality = 2 \<rparr>,
                Layout = D3D12_TEXTURE_LAYOUT_64KB_STANDARD_SWIZZLE,
                Flags = D3D12_RESOURCE_FLAG_NONE \<rparr>,
            HeapFlags = D3D12_HEAP_FLAG_NONE,
            InitialResourceState = D3D12_RESOURCE_STATE_COMMON,
            TransitionTo = D3D12_RESOURCE_STATE_COMMON, InitBytes = [] \<rparr>, False)"
proof -
  let ?rd = resource_frombytes_nodes
  note attr = resource_frombytes_attrs
  have e1: "ReadAttrHEAP_TYPE ?rd ''HeapType'' = Inr (S_FALSE, D3D12_HEAP_TYPE_DEFAULT)"
    by (simp add: ReadAttrHEAP_TYPE_def ReadAttrEnumT_absent attr)
  have e2: "ReadAttrCPU_PAGE_PROPERTY ?rd ''CPUPageProperty'' =
              Inr (S_FALSE, D3D12_CPU_PAGE_PROPERTY_UNKNOWN)"
    by (simp add: ReadAttrCPU_PAGE_PROPERTY_def ReadAttrEnumT_absent attr)
  have e3: "ReadAttrMEMORY_POOL ?rd ''MemoryPoolPreference'' = Inr (S_FALSE, D3D12_MEMORY_POOL_UNKNOWN)"
    by (simp add: ReadAttrMEMORY_POOL_def ReadAttrEnumT_absent attr)
  have u4: "ReadAttrUINT crt_model ?rd ''CreationNodeMask'' 0 False = Inr (0, False)"
    by (rule ReadAttrUINT_absent [OF attr(7)])
  have u5: "ReadAttrUINT crt_model ?rd ''VisibleNodeMask'' 0 False = Inr (0, False)"
    by (rule ReadAttrUINT_absent [OF attr(8)])
  have e6: "ReadAttrRESOURCE_DIMENSION ?rd ''Dimension'' = Inr (S_OK, D3D12_RESOURCE_DIMENSION_BUFFER)"
    using ReadAttrRESOURCE_DIMENSION_text [OF attr(9), of "''BUFFER''"]
    by (simp add: stricmp_eq_def tolower_c_def GetEnumValue_BUFFER)
  have u7: "ReadAttrUINT64 crt_model ?rd ''Alignment'' 0 False = Inr (0, False)"
    by (rule ReadAttrUINT64_absent [OF attr(10)])
  have u8: "ReadAttrUINT64 crt_model ?rd ''Width'' 0 False = Inr (0, False)"
    by (rule ReadAttrUINT64_absent [OF attr(11)])
  have u9: "ReadAttrUINT crt_model ?rd ''Height'' 0 False = Inr (7, False)"
    using ReadAttrUINT_present [OF attr(12), of crt_model 7 0]
    by (simp add: crt_model_def wtol_model_digit)
  have u10: "ReadAttrUINT16 crt_model ?rd ''DepthOrArraySize'' 0 False = Inr (4, False)"
    using ReadAttrUINT16_present [OF attr(13), of crt_model 4 0]
    by (simp add: crt_model_def wtol_model_digit)
  have u11: "ReadAttrUINT16 crt_model ?rd ''MipLevels'' 0 False = Inr (3, False)"
    using ReadAttrUINT16_present [OF attr(14), of crt_model 3 0]
    by (simp add: crt_model_def wtol_model_digit)
  have "\<not> strnicmp_eq ''Format'' ''R32_FLOAT'' (length ''DXGI_FORMAT_'')"
    by (simp add: strnicmp_eq_def tolower_c_def)
  then have e12: "ReadAttrDXGI_FORMAT ?rd ''Format'' = Inr (S_OK, DXGI_FORMAT_R32_FLOAT)"
    by (simp add: ReadAttrDXGI_FORMAT_def ReadAttrEnumT_def attr GetEnumValue_R32_FLOAT)
  have u13: "ReadAttrUINT crt_model ?rd ''SampleCount'' 0 False = Inr (4, False)"
    using ReadAttrUINT_present [OF attr(16), of crt_model 4 0]
    by (simp add: crt_model_def wtol_model_digit)
  have u14: "ReadAttrUINT crt_model ?rd ''SampleQual'' 0 False = Inr (2, False)"
    using ReadAttrUINT_present [OF attr(17), of crt_model 2 0]
    by (simp add: crt_model_def wtol_model_digit)
  have e15: "ReadAttrTEXTURE_LAYOUT ?rd ''Layout'' =
               Inr (S_OK, D3D12_TEXTURE_LAYOUT_64KB_STANDARD_SWIZZLE)"
    by (simp add: ReadAttrTEXTURE_LAYOUT_def ReadAttrEnumT_def attr GetEnumValue_STANDARD_SWIZZLE)
  have e16: "ReadAttrRESOURCE_FLAGS ?rd ''Flags'' = Inr (S_FALSE, D3D12_RESOURCE_FLAG_NONE)"
    by (simp add: ReadAttrRESOURCE_FLAGS_def ReadAttrEnumT_absent attr)
  have e17: "ReadAttrHEAP_FLAGS ?rd ''HeapFlags'' = Inr (S_FALSE, D3D12_HEAP_FLAG_NONE)"
    by (simp add: ReadAttrHEAP_FLAGS_def ReadAttrEnumT_absent attr)
  have e18: "ReadAttrRESOURCE_STATES ?rd ''InitialResourceState'' =
               Inr (S_FALSE, D3D12_RESOURCE_STATE_COMMON)"
    by (simp add: ReadAttrRESOURCE_STATES_def ReadAttrEnumT_absent attr)
  have e19: "ReadAttrRESOURCE_STATES ?rd ''TransitionTo'' = Inr (S_FALSE, D3D12_RESOURCE_STATE_COMMON)"
    by (simp add: ReadAttrRESOURCE_STATES_def ReadAttrEnumT_absent attr)
  show ?thesis
    unfolding ParseResource_attributes_def Let_def
    by (simp add: bindP_def CHECK_HR_value_def returnP_def e1 e2 e3 u4 u5 e6 u7 u8 u9 u10 u11
        e12 u13 u14 e15 e16 e17 e18 e19 ReadAttrStr_def ReadAttrBOOL_def attr resource_zero_def)
qed

lemma resource_frombytes_element:
  "NodeType resource_frombytes = XmlNodeType_Element" "LocalName resource_frombytes = ''Resource''"
  "\<not> EmptyElement resource_frombytes"
  by (simp_all add: resource_frombytes_def element_def)

lemma resource_frombytes_parsed:
  "\<exists>r errno'. ParseResource crt_model resource_frombytes_nodes resource_zero False = Inr (r, errno')"
  using ParseResource_here [OF resource_frombytes_element(1,2), of crt_model
      "[text_node ''1.0, 2.0, 3.0'', end_element ''Resource'']" resource_zero False]
    resource_frombytes_attributes resource_frombytes_element(3)
  by (simp add: resource_frombytes_nodes_def)

text \<open>
  Claim C3. A \<^verbatim>\<open>Resource\<close> element with \<^verbatim>\<open>Dimension="BUFFER"\<close> (in any letter case) that
  is parsed without failure has a descriptor with height 1, depth 1, one mip level,
  format \<open>UNKNOWN\<close>, sample count 1, sample quality 0 and layout \<open>ROW_MAJOR\<close>, whatever
  the attributes for these fields say.
\<close>

theorem ParseResource_buffer_normalized:
  assumes "NodeType n = XmlNodeType_Element" "LocalName n = ''Resource''"
    and "MoveToAttributeByName (n # ns) ''Dimension'' = Some dim" "stricmp_eq dim ''BUFFER''"
    and "ParseResource crt (n # ns) pResource errno = Inr (r, errno')"
  shows "Dimension (Desc r) = D3D12_RESOURCE_DIMENSION_BUFFER \<and>
         Height (Desc r) = 1 \<and> DepthOrArraySize (Desc r) = 1 \<and> MipLevels (Desc r) = 1 \<and>
         Format (Desc r) = DXGI_FORMAT_UNKNOWN \<and>
         Count (SampleDesc (Desc r)) = 1 \<and> Quality (SampleDesc (Desc r)) = 0 \<and>
         Layout (Desc r) = D3D12_TEXTURE_LAYOUT_ROW_MAJOR"
  using ParseResource_BUFFER [OF assms] by auto


theorem ParseResource_buffer_normalized_witness:
  "\<exists>r errno'.
     ParseResource crt_model resource_frombytes_nodes resource_zero False = Inr (r, errno') \<and>
     MoveToAttributeByName resource_frombytes_nodes ''Dimension'' = Some ''buffer'' \<and>
     MoveToAttributeByName resource_frombytes_nodes ''Height'' = Some ''7'' \<and>
     MoveToAttributeByName resource_frombytes_nodes ''Format'' = Some ''R32_FLOAT'' \<and>
     Dimension (Desc r) = D3D12_RESOURCE_DIMENSION_BUFFER \<and>
     Height (Desc r) = 1 \<and> DepthOrArraySize (Desc r) = 1 \<and> MipLevels (Desc r) = 1 \<and>
     Format (Desc r) = DXGI_FORMAT_UNKNOWN \<and>
     Count (SampleDesc (Desc r)) = 1 \<and> Quality (SampleDesc (Desc r)) = 0 \<and>
     Layout (Desc r) = D3D12_TEXTURE_LAYOUT_ROW_MAJOR"
proof -
  from resource_frombytes_parsed obtain r errno'
    where p: "ParseResource crt_model resource_frombytes_nodes resource_zero False = Inr (r, errno')"
    by blast
  have "stricmp_eq ''buffer'' ''BUFFER''"
    by (simp add: stricmp_eq_def tolower_c_def)
  from ParseResource_buffer_normalized [OF resource_frombytes_element(1,2)
      resource_frombytes_attrs(9) [unfolded resource_frombytes_nodes_def] this
      p [unfolded resource_frombytes_nodes_def]]
  show ?thesis
    using p resource_frombytes_attrs by (intro exI [of _ r] exI [of _ errno']) simp
qed

text \<open>A device that grants every request lets \<^verbatim>\<open>CreateResources\<close> finish on buffers.\<close>

lemma CreateResources_init_buffer:
  assumes "Dimension (Desc R) = D3D12_RESOURCE_DIMENSION_BUFFER"
  shows "CreateResources_init cb R \<noteq> Inl e"
    and "CreateResources_init cb R = Inr (hasInit, vals, R') \<Longrightarrow>
           Dimension (Desc R') = D3D12_RESOURCE_DIMENSION_BUFFER"
  using assms by (auto simp: CreateResources_init_def Let_def bindE_def split: if_splits)

lemma request_granted:
  assumes "\<forall>n req. \<exists>h. Respond dev n req = Inr h"
  shows "request dev st req \<noteq> Inl e"
proof -
  from assms obtain h where "Respond dev (DeviceCalls st) req = Inr h"
    by blast
  then show ?thesis by (simp add: request_def)
qed

lemma uploadDesc_buffer:
  "Dimension (Desc R) = D3D12_RESOURCE_DIMENSION_BUFFER \<Longrightarrow> uploadDesc R \<noteq> Inl e"
  by (simp add: uploadDesc_def)

lemma readbackWidth_buffer:
  "Dimension (Desc R) = D3D12_RESOURCE_DIMENSION_BUFFER \<Longrightarrow> readbackWidth R \<noteq> Inl e"
  by (simp add: readbackWidth_def)

lemma CreateResources_body_granted:
  assumes "\<forall>n req. \<exists>h. Respond dev n req = Inr h"
    and "Dimension (Desc R) = D3D12_RESOURCE_DIMENSION_BUFFER"
  shows "CreateResources_body dev cb i R acc \<noteq> Inl e"
  unfolding CreateResources_body_def
  using request_granted [OF assms(1)] CreateResources_init_buffer [OF assms(2)]
  by (auto simp: bindE_def Let_def uploadDesc_buffer readbackWidth_buffer
      split: sum.splits prod.splits if_splits)

lemma CreateResources_loop_granted:
  assumes "\<forall>n req. \<exists>h. Respond dev n req = Inr h"
    and "\<forall>R \<in> set Rs. Dimension (Desc R) = D3D12_RESOURCE_DIMENSION_BUFFER"
  shows "CreateResources_loop dev cb i Rs acc \<noteq> Inl e"
  using assms(2)
proof (induction Rs arbitrary: i acc)
  case Nil
  then show ?case by simp
next
  case (Cons R Rs)
  from CreateResources_body_granted [OF assms(1), of R cb i acc] Cons.prems
  obtain acc1 where "CreateResources_body dev cb i R acc = Inr acc1"
    by (cases "CreateResources_body dev cb i R acc") auto
  with Cons.IH [of "Suc i" acc1] Cons.prems show ?case
    by simp
qed

lemma request_Resources:
  "request dev st req = Inr (h, st') \<Longrightarrow> Resources st' = Resources st"
  by (auto simp: request_def split: sum.splits)

lemma CreateResources_granted:
  assumes "\<forall>n req. \<exists>h. Respond dev n req = Inr h"
    and "\<forall>R \<in> set (Resources st). Dimension (Desc R) = D3D12_RESOURCE_DIMENSION_BUFFER"
  shows "\<exists>st'. CreateResources dev cb st = Inr st'"
proof -
  have "CreateResources dev cb st \<noteq> Inl e" for e
    unfolding CreateResources_def
    using request_granted [OF assms(1)] CreateResources_loop_granted [OF assms(1)] assms(2)
    by (auto simp: bindE_def split: sum.splits prod.splits dest!: request_Resources)
  then show ?thesis
    by (cases "CreateResources dev cb st") auto
qed

section \<open>A payload of three literals\<close>

lemma ParseResource_nodes_text:
  assumes "NodeType n = XmlNodeType_Element"
  shows "fst (ParseResource_nodes crt (n # text_node txt # end_element name # rest) V errno) =
           fst (ParseByteInitText crt txt V errno)"
  using assms by (simp add: text_node_def end_element_def split: prod.splits)

lemma literal_tails_123:
  "literal_tails ''1.0, 2.0, 3.0'' = [''1.0, 2.0, 3.0'', ''2.0, 3.0'', ''3.0'']"
  by (simp add: literal_tails_def isByteInitSeparator_def)

lemma ByteInitValue_123:
  "ByteInitValue crt ''1.0, 2.0, 3.0'' = wcstof crt ''1.0, 2.0, 3.0''"
  "ByteInitValue crt ''2.0, 3.0'' = wcstof crt ''2.0, 3.0''"
  "ByteInitValue crt ''3.0'' = wcstof crt ''3.0''"
  by (simp_all add: ByteInitValue_def stricmp_eq_def tolower_c_def)

lemma f32_units_123:
  "f32_units 0x3F800000 = 1 * 2 ^ 149" "f32_units 0x40000000 = 2 * 2 ^ 149"
  "f32_units 0x40400000 = 3 * 2 ^ 149"
  "\<not> f32_negative 0x3F800000" "\<not> f32_negative 0x40000000" "\<not> f32_negative 0x40400000"
  by (simp_all add: f32_units_def f32_exponent_def f32_mantissa_def f32_negative_def)

lemma SetFixedValues_keeps:
  "Width (SetFixedValues desc) = Width desc" "Dimension (SetFixedValues desc) = Dimension desc"
  by (simp_all add: SetFixedValues_def Let_def)

lemma ParseResource_Inr:
  assumes "NodeType n = XmlNodeType_Element" "LocalName n = ''Resource''"
    and "ParseResource crt (n # ns) pResource errno = Inr (r, errno')"
  shows "\<exists>r0 errno1.
           ParseResource_attributes crt (n # ns) pResource errno = Inr (r0, errno1) \<and>
           Desc r = SetFixedValues (Desc r0) \<and> r_Name r = r_Name r0 \<and> r_Init r = r_Init r0 \<and>
           InitBytes r =
             (if EmptyElement n then InitBytes r0
              else fst (ParseResource_nodes crt (n # ns) (InitBytes r0) errno1))"
proof -
  from assms(3) obtain r0 e1 where a: "ParseResource_attributes crt (n # ns) pResource errno = Inr (r0, e1)"
    unfolding ParseResource_here [OF assms(1,2)] by (auto split: sum.splits)
  from assms(3) a have "r = (if EmptyElement n then r0 \<lparr> Desc := SetFixedValues (Desc r0) \<rparr>
                             else r0 \<lparr> Desc := SetFixedValues (Desc r0),
                                       InitBytes := fst (ParseResource_nodes crt (n # ns) (InitBytes r0) e1) \<rparr>)"
    unfolding ParseResource_here [OF assms(1,2)] by (auto split: if_splits)
  then show ?thesis
    using a by auto
qed

text \<open>
  Claim C2. A \<^verbatim>\<open>Resource\<close> element with the body \<open>1.0, 2.0, 3.0\<close> is parsed to a resource
  whose \<^verbatim>\<open>InitBytes\<close> are the twelve bytes of the little-endian binary32 encodings of 1, 2
  and 3 (the bit patterns \<open>3F800000\<close>, \<open>40000000\<close>, \<open>40400000\<close>, of \<open>2\<^sup>1\<^sup>4\<^sup>9\<close>, twice and three
  times \<open>2\<^sup>1\<^sup>4\<^sup>9\<close> units), whatever its other attributes, given that \<^verbatim>\<open>wcstof\<close> converts the
  literal at the start of the text it is handed, as the C standard has it. \<^verbatim>\<open>Init\<close> is
  parsed as the attribute has it, the width is parsed as 0 when the \<^verbatim>\<open>Width\<close> attribute
  is absent, and the dimension is \<open>BUFFER\<close> when the attribute says so or is absent. When
  \<^verbatim>\<open>Init\<close> is \<open>frombytes\<close>, the width 0 and the dimension \<open>BUFFER\<close>, and
  \<^verbatim>\<open>CreateResources\<close> materializes the resource (no runtime data for its name before the
  call, no earlier resource of its name) and returns, the width of the resource is 12.
\<close>

theorem ParseResource_frombytes_width:
  assumes "NodeType n = XmlNodeType_Element" "LocalName n = ''Resource''" "\<not> EmptyElement n"
    and "pReader = n # text_node ''1.0, 2.0, 3.0'' # end_element ''Resource'' # rest"
    and "fst (wcstof crt ''1.0, 2.0, 3.0'') = 0x3F800000"
    and "fst (wcstof crt ''2.0, 3.0'') = 0x40000000"
    and "fst (wcstof crt ''3.0'') = 0x40400000"
    and "InitBytes pResource = []"
    and "ParseResource crt pReader pResource errno = Inr (r, errno')"
  shows "InitBytes r = float_bytes 0x3F800000 @ float_bytes 0x40000000 @ float_bytes 0x40400000 \<and>
         InitBytes r = [0, 0, 0x80, 0x3F, 0, 0, 0, 0x40, 0, 0, 0x40, 0x40] \<and>
         f32_units 0x3F800000 = 1 * 2 ^ 149 \<and> f32_units 0x40000000 = 2 * 2 ^ 149 \<and>
         f32_units 0x40400000 = 3 * 2 ^ 149 \<and>
         r_Init r = MoveToAttributeByName pReader ''Init'' \<and>
         (MoveToAttributeByName pReader ''Width'' = None \<longrightarrow> Width (Desc r) = 0) \<and>
         (MoveToAttributeByName pReader ''Dimension'' = None \<longrightarrow>
            Dimension (Desc r) = D3D12_RESOURCE_DIMENSION_BUFFER) \<and>
         (\<forall>dim. MoveToAttributeByName pReader ''Dimension'' = Some dim \<and> stricmp_eq dim ''BUFFER'' \<longrightarrow>
            Dimension (Desc r) = D3D12_RESOURCE_DIMENSION_BUFFER) \<and>
         (\<forall>dev cb st st' i init.
            r_Init r = Some init \<and> stricmp_eq init ''frombytes'' \<and>
            Dimension (Desc r) = D3D12_RESOURCE_DIMENSION_BUFFER \<and> Width (Desc r) = 0 \<and>
            i < length (Resources st) \<and> Resources st ! i = r \<and>
            m_ResourceData st (r_Name r) = None \<and>
            (\<forall>j < i. r_Name (Resources st ! j) \<noteq> r_Name r) \<and>
            CreateResources dev cb st = Inr st' \<longrightarrow>
            Width (Desc (Resources st' ! i)) = 12)"
proof -
  note el = assms(1,2)
  from ParseResource_Inr [OF el assms(9) [unfolded assms(4)]] obtain r0 errno1
    where a: "ParseResource_attributes crt pReader pResource errno = Inr (r0, errno1)"
      and desc: "Desc r = SetFixedValues (Desc r0)"
      and same: "r_Name r = r_Name r0" "r_Init r = r_Init r0"
      and bytes: "InitBytes r = fst (ParseResource_nodes crt pReader (InitBytes r0) errno1)"
    using assms(3) unfolding assms(4) by auto
  note attrs = ParseResource_attributes_Inr [OF a]
  from attrs assms(8) have "InitBytes r0 = []"
    by simp
  with bytes have "InitBytes r = fst (ParseByteInitText crt ''1.0, 2.0, 3.0'' [] errno1)"
    unfolding assms(4) by (simp only: ParseResource_nodes_text [OF assms(1)])
  then have b: "InitBytes r =
                  float_bytes 0x3F800000 @ float_bytes 0x40000000 @ float_bytes 0x40400000"
    by (simp add: ParseByteInitText_tails literal_tails_123 ByteInitValue_123 assms(5-7))
  have b': "InitBytes r = [0, 0, 0x80, 0x3F, 0, 0, 0, 0x40, 0, 0, 0x40, 0x40]"
    using b by (simp add: float_bytes_examples)
  have init: "r_Init r = MoveToAttributeByName pReader ''Init''"
    using attrs same by (simp add: ReadAttrStr_def)
  from attrs obtain e1 e2 where "ReadAttrUINT64 crt pReader ''Width'' 0 e1 = Inr (Width (Desc r0), e2)"
    by blast
  from ReadAttrUINT64_value [OF this]
  have w: "Width (Desc r) = 0" if "MoveToAttributeByName pReader ''Width'' = None"
    using that desc by (simp add: SetFixedValues_keeps)
  from attrs obtain hr where d: "ReadAttrRESOURCE_DIMENSION pReader ''Dimension'' =
                                   Inr (hr, Dimension (Desc r0))"
    by blast
  have d1: "Dimension (Desc r) = D3D12_RESOURCE_DIMENSION_BUFFER"
    if "MoveToAttributeByName pReader ''Dimension'' = None"
    using d desc ReadAttrEnumT_absent [OF that, of RESOURCE_DIMENSION D3D12_RESOURCE_DIMENSION_BUFFER "[]"]
    by (simp add: ReadAttrRESOURCE_DIMENSION_def SetFixedValues_keeps)
  have d2: "Dimension (Desc r) = D3D12_RESOURCE_DIMENSION_BUFFER"
    if "MoveToAttributeByName pReader ''Dimension'' = Some dim \<and> stricmp_eq dim ''BUFFER''" for dim
  proof -
    from that have m: "MoveToAttributeByName pReader ''Dimension'' = Some dim"
      and s: "stricmp_eq dim ''BUFFER''"
      by simp_all
    have "ReadAttrRESOURCE_DIMENSION pReader ''Dimension'' =
            map_sum id (Pair S_OK) (GetEnumValue ''BUFFER'' RESOURCE_DIMENSION)"
      by (rule ReadAttrRESOURCE_DIMENSION_text [OF m s])
    with d desc show ?thesis
      by (simp add: GetEnumValue_BUFFER SetFixedValues_keeps)
  qed
  have c: "Width (Desc (Resources st' ! i)) = 12"
    if "r_Init r = Some init \<and> stricmp_eq init ''frombytes'' \<and>
        Dimension (Desc r) = D3D12_RESOURCE_DIMENSION_BUFFER \<and> Width (Desc r) = 0 \<and>
        i < length (Resources st) \<and> Resources st ! i = r \<and>
        m_ResourceData st (r_Name r) = None \<and>
        (\<forall>j < i. r_Name (Resources st ! j) \<noteq> r_Name r) \<and>
        CreateResources dev cb st = Inr st'"
    for dev cb st st' i init
  proof -
    from that have h: "r_Init r = Some init" "stricmp_eq init ''frombytes''"
      "Dimension (Desc r) = D3D12_RESOURCE_DIMENSION_BUFFER" "Width (Desc r) = 0"
      "i < length (Resources st)" "Resources st ! i = r" "m_ResourceData st (r_Name r) = None"
      "\<forall>j < i. r_Name (Resources st ! j) \<noteq> r_Name r" "CreateResources dev cb st = Inr st'"
      by simp_all
    from CreateResources_Inr [OF h(9,5)] h(6-8) obtain hasInit vals R'
      where "CreateResources_init cb r = Inr (hasInit, vals, R')" "Resources st' ! i = R'"
      by auto
    with CreateResources_init_frombytes [OF h(1-4), of cb] show ?thesis
      by (simp add: b length_float_bytes)
  qed
  from w have w': "MoveToAttributeByName pReader ''Width'' = None \<longrightarrow> Width (Desc r) = 0"
    by (rule impI)
  from d1 have d1': "MoveToAttributeByName pReader ''Dimension'' = None \<longrightarrow>
                       Dimension (Desc r) = D3D12_RESOURCE_DIMENSION_BUFFER"
    by (rule impI)
  from d2 have d2': "\<forall>dim. MoveToAttributeByName pReader ''Dimension'' = Some dim \<and>
                       stricmp_eq dim ''BUFFER'' \<longrightarrow>
                       Dimension (Desc r) = D3D12_RESOURCE_DIMENSION_BUFFER"
    by (intro allI impI)
  from c have c': "\<forall>dev cb st st' i init.
            r_Init r = Some init \<and> stricmp_eq init ''frombytes'' \<and>
            Dimension (Desc r) = D3D12_RESOURCE_DIMENSION_BUFFER \<and> Width (Desc r) = 0 \<and>
            i < length (Resources st) \<and> Resources st ! i = r \<and>
            m_ResourceData st (r_Name r) = None \<and>
            (\<forall>j < i. r_Name (Resources st ! j) \<noteq> r_Name r) \<and>
            CreateResources dev cb st = Inr st' \<longrightarrow>
            Width (Desc (Resources st' ! i)) = 12"
    by (intro allI impI)
  have u: "f32_units 0x3F800000 = 1 * 2 ^ 149" "f32_units 0x40000000 = 2 * 2 ^ 149"
    "f32_units 0x40400000 = 3 * 2 ^ 149"
    by (rule f32_units_123)+
  from b b' u init w' d1' d2' c' show ?thesis
    by (intro conjI)
qed

theorem ParseResource_frombytes_width_witness:
  "\<exists>r errno'.
     ParseResource crt_model resource_frombytes_nodes resource_zero False = Inr (r, errno') \<and>
     InitBytes r = [0, 0, 0x80, 0x3F, 0, 0, 0, 0x40, 0, 0, 0x40, 0x40] \<and>
     r_Init r = Some ''FromBytes'' \<and> Width (Desc r) = 0 \<and>
     Dimension (Desc r) = D3D12_RESOURCE_DIMENSION_BUFFER \<and>
     (\<exists>st'. CreateResources device_ok (\<lambda>name bytes. bytes) (state_with [r] []) = Inr st' \<and>
            Width (Desc (Resources st' ! 0)) = 12)"
proof -
  from resource_frombytes_parsed obtain r errno'
    where p: "ParseResource crt_model resource_frombytes_nodes resource_zero False = Inr (r, errno')"
    by blast
  have eq: "stricmp_eq ''FromBytes'' ''frombytes''" "stricmp_eq ''buffer'' ''BUFFER''"
    by (simp_all add: stricmp_eq_def tolower_c_def)
  have crt: "fst (wcstof crt_model ''1.0, 2.0, 3.0'') = 0x3F800000"
    "fst (wcstof crt_model ''2.0, 3.0'') = 0x40000000"
    "fst (wcstof crt_model ''3.0'') = 0x40400000"
    by (simp_all add: crt_model_def wcstof_model_1 wcstof_model_2 wcstof_model_3)
  have z: "InitBytes resource_zero = []"
    by (simp add: resource_zero_def)
  note t = ParseResource_frombytes_width [OF resource_frombytes_element
      resource_frombytes_nodes_def crt z p]
  note bytes = t [THEN conjunct2, THEN conjunct1]
  note t5 = t [THEN conjunct2, THEN conjunct2, THEN conjunct2, THEN conjunct2, THEN conjunct2]
  note init = t5 [THEN conjunct1]
  note width = t5 [THEN conjunct2, THEN conjunct1, rule_format, OF resource_frombytes_attrs(11)]
  note dim = t5 [THEN conjunct2, THEN conjunct2, THEN conjunct2, THEN conjunct1, rule_format,
      OF conjI [OF resource_frombytes_attrs(9) eq(2)]]
  note create = t5 [THEN conjunct2, THEN conjunct2, THEN conjunct2, THEN conjunct2, rule_format]
  have i: "r_Init r = Some ''FromBytes''"
    using init by (simp add: resource_frombytes_attrs)
  obtain st' where c: "CreateResources device_ok (\<lambda>name bytes. bytes) (state_with [r] []) = Inr st'"
    using CreateResources_granted [of device_ok "state_with [r] []" "\<lambda>name bytes. bytes"] dim
    by (auto simp: device_ok_def state_with_def)
  have "Width (Desc (Resources st' ! 0)) = 12"
  proof (rule create [of "''FromBytes''" 0 "state_with [r] []" device_ok "\<lambda>name bytes. bytes" st'])
    show "r_Init r = Some ''FromBytes'' \<and> stricmp_eq ''FromBytes'' ''frombytes'' \<and>
          Dimension (Desc r) = D3D12_RESOURCE_DIMENSION_BUFFER \<and> Width (Desc r) = 0 \<and>
          0 < length (Resources (state_with [r] [])) \<and> Resources (state_with [r] []) ! 0 = r \<and>
          m_ResourceData (state_with [r] []) (r_Name r) = None \<and>
          (\<forall>j < 0. r_Name (Resources (state_with [r] []) ! j) \<noteq> r_Name r) \<and>
          CreateResources device_ok (\<lambda>name bytes. bytes) (state_with [r] []) = Inr st'"
      using i eq(1) dim width c by (simp add: state_with_def)
  qed
  with bytes i width dim c p show ?thesis
    by blast
qed

section \<open>Root values\<close>

lemma SetRootValues_body_Inr:
  assumes "SetRootValues_body dev st isCompute i V = Inr cmds"
  shows "cmds = root_value_commands dev st isCompute i V"
    and "rv_ResName V = Some resName \<Longrightarrow>
           \<exists>D. m_ResourceData st (Some resName) = Some D \<and> ShaderOpRes D < length (Resources st) \<and>
               cmds = [bind_view isCompute (binding_kind (TransitionTo (Resources st ! ShaderOpRes D)))
                         (root_slot i V) (GetGPUVirtualAddress dev (Resource D))]"
    and "rv_ResName V = None \<Longrightarrow> rv_HeapName V = Some heapName \<Longrightarrow>
           \<exists>heap. m_DescriptorHeapsByName st (Some heapName) = Some heap \<and>
               cmds = [bind_table isCompute (root_slot i V)
                         (GetGPUDescriptorHandleForHeapStart dev heap)]"
  using assms
  by (auto simp: SetRootValues_body_def root_value_commands_def binding_kind_def root_slot_def
      bind_table_def Let_def split: option.splits if_splits)

lemma SetRootValues_loop_Inr:
  assumes "SetRootValues_loop dev st isCompute k Vs pList = Inr pList'"
  shows "pList' = pList @ concat (map (\<lambda>(i, V). root_value_commands dev st isCompute i V)
                                   (enumerate k Vs)) \<and>
         (\<forall>i < length Vs. \<exists>cmds. SetRootValues_body dev st isCompute (k + i) (Vs ! i) = Inr cmds)"
  using assms
proof (induction Vs arbitrary: k pList)
  case Nil
  then show ?case by simp
next
  case (Cons V Vs)
  from Cons.prems obtain cmds where b: "SetRootValues_body dev st isCompute k V = Inr cmds"
    and l: "SetRootValues_loop dev st isCompute (Suc k) Vs (pList @ cmds) = Inr pList'"
    by (auto split: sum.splits)
  note ih = Cons.IH [OF l]
  have "\<exists>cmds. SetRootValues_body dev st isCompute (k + i) ((V # Vs) ! i) = Inr cmds"
    if "i < length (V # Vs)" for i
  proof (cases i)
    case 0
    with b show ?thesis by simp
  next
    case (Suc j)
    with that ih show ?thesis by auto
  qed
  with ih SetRootValues_body_Inr(1) [OF b] show ?case
    by simp
qed

text \<open>
  Claim C4. When \<^verbatim>\<open>SetRootValues\<close> returns, the commands it has recorded are, after those
  already in the list, the commands of the root values in their order. A root value that
  names a resource records one view of the resource's GPU address, of a kind that is a
  function of the \<^verbatim>\<open>TransitionTo\<close> of the resource alone: a constant-buffer view for
  \<open>VERTEX_AND_CONSTANT_BUFFER\<close>, an unordered-access view for \<open>UNORDERED_ACCESS\<close>, a
  shader-resource view for every other state. A root value that names a heap and no
  resource records a descriptor table at the heap's base GPU handle. The slot is the
  position of the root value in the list when its \<^verbatim>\<open>Index\<close> is 0, its \<^verbatim>\<open>Index\<close> otherwise.
\<close>

theorem SetRootValues_binds_by_TransitionTo:
  assumes "SetRootValues dev st pList isCompute = Inr pList'"
  shows "pList' = pList @ concat (map (\<lambda>(i, V). root_value_commands dev st isCompute i V)
                                   (enumerate 0 (RootValues st))) \<and>
         (\<forall>i resName.
            i < length (RootValues st) \<and> rv_ResName (RootValues st ! i) = Some resName \<longrightarrow>
            (\<exists>D. m_ResourceData st (Some resName) = Some D \<and>
                 root_value_commands dev st isCompute i (RootValues st ! i) =
                   [bind_view isCompute
                      (binding_kind (TransitionTo (Resources st ! ShaderOpRes D)))
                      (root_slot i (RootValues st ! i))
                      (GetGPUVirtualAddress dev (Resource D))])) \<and>
         (\<forall>i heapName.
            i < length (RootValues st) \<and> rv_ResName (RootValues st ! i) = None \<and>
            rv_HeapName (RootValues st ! i) = Some heapName \<longrightarrow>
            (\<exists>heap. m_DescriptorHeapsByName st (Some heapName) = Some heap \<and>
                 root_value_commands dev st isCompute i (RootValues st ! i) =
                   [bind_table isCompute (root_slot i (RootValues st ! i))
                      (GetGPUDescriptorHandleForHeapStart dev heap)])) \<and>
         binding_kind D3D12_RESOURCE_STATE_VERTEX_AND_CONSTANT_BUFFER = ConstantBufferView \<and>
         binding_kind D3D12_RESOURCE_STATE_UNORDERED_ACCESS = UnorderedAccessView \<and>
         (\<forall>s. s \<noteq> D3D12_RESOURCE_STATE_VERTEX_AND_CONSTANT_BUFFER \<and>
              s \<noteq> D3D12_RESOURCE_STATE_UNORDERED_ACCESS \<longrightarrow>
              binding_kind s = ShaderResourceView) \<and>
         (\<forall>i V. root_slot i V = (if rv_Index V = 0 then word_of_nat i else rv_Index V))"
proof -
  note l = SetRootValues_loop_Inr [OF assms [unfolded SetRootValues_def]]
  have body: "\<exists>cmds. SetRootValues_body dev st isCompute i (RootValues st ! i) = Inr cmds"
    if "i < length (RootValues st)" for i
    using l that by auto
  have res: "\<exists>D. m_ResourceData st (Some resName) = Some D \<and>
                root_value_commands dev st isCompute i (RootValues st ! i) =
                  [bind_view isCompute
                     (binding_kind (TransitionTo (Resources st ! ShaderOpRes D)))
                     (root_slot i (RootValues st ! i))
                     (GetGPUVirtualAddress dev (Resource D))]"
    if "i < length (RootValues st)" "rv_ResName (RootValues st ! i) = Some resName" for i resName
  proof -
    from body [OF that(1)] obtain cmds
      where b: "SetRootValues_body dev st isCompute i (RootValues st ! i) = Inr cmds"
      by blast
    from SetRootValues_body_Inr(2) [OF b that(2)] SetRootValues_body_Inr(1) [OF b]
    show ?thesis by auto
  qed
  have heap: "\<exists>heap. m_DescriptorHeapsByName st (Some heapName) = Some heap \<and>
                root_value_commands dev st isCompute i (RootValues st ! i) =
                  [bind_table isCompute (root_slot i (RootValues st ! i))
                     (GetGPUDescriptorHandleForHeapStart dev heap)]"
    if "i < length (RootValues st)" "rv_ResName (RootValues st ! i) = None"
      "rv_HeapName (RootValues st ! i) = Some heapName" for i heapName
  proof -
    from body [OF that(1)] obtain cmds
      where b: "SetRootValues_body dev st isCompute i (RootValues st ! i) = Inr cmds"
      by blast
    from SetRootValues_body_Inr(3) [OF b that(2,3)] SetRootValues_body_Inr(1) [OF b]
    show ?thesis by auto
  qed
  from l have "pList' = pList @ concat (map (\<lambda>(i, V). root_value_commands dev st isCompute i V)
                                          (enumerate 0 (RootValues st)))"
    by simp
  moreover from res have "\<forall>i resName.
            i < length (RootValues st) \<and> rv_ResName (RootValues st ! i) = Some resName \<longrightarrow>
            (\<exists>D. m_ResourceData st (Some resName) = Some D \<and>
                 root_value_commands dev st isCompute i (RootValues st ! i) =
                   [bind_view isCompute
                      (binding_kind (TransitionTo (Resources st ! ShaderOpRes D)))
                      (root_slot i (RootValues st ! i))
                      (GetGPUVirtualAddress dev (Resource D))])"
    by blast
  moreover from heap have "\<forall>i heapName.
            i < length (RootValues st) \<and> rv_ResName (RootValues st ! i) = None \<and>
            rv_HeapName (RootValues st ! i) = Some heapName \<longrightarrow>
            (\<exists>heap. m_DescriptorHeapsByName st (Some heapName) = Some heap \<and>
                 root_value_commands dev st isCompute i (RootValues st ! i) =
                   [bind_table isCompute (root_slot i (RootValues st ! i))
                      (GetGPUDescriptorHandleForHeapStart dev heap)])"
    by blast
  ultimately show ?thesis
    by (simp add: binding_kind_def root_slot_def)
qed

lemma root_values_state_run:
  "SetRootValues device_ok root_values_state [] True =
     Inr [SetComputeRootConstantBufferView 0 0x1000, SetComputeRootUnorderedAccessView 1 0x2000,
          SetComputeRootShaderResourceView 5 0x3000, SetComputeRootDescriptorTable 3 0x700000]"
  by (simp add: SetRootValues_def SetRootValues_body_def root_values_state_def device_ok_def
      resource_zero_def)

theorem SetRootValues_binds_by_TransitionTo_witness:
  "SetRootValues device_ok root_values_state [] True =
     Inr (concat (map (\<lambda>(i, V). root_value_commands device_ok root_values_state True i V)
                    (enumerate 0 (RootValues root_values_state)))) \<and>
   concat (map (\<lambda>(i, V). root_value_commands device_ok root_values_state True i V)
             (enumerate 0 (RootValues root_values_state))) =
     [SetComputeRootConstantBufferView 0 0x1000, SetComputeRootUnorderedAccessView 1 0x2000,
      SetComputeRootShaderResourceView 5 0x3000, SetComputeRootDescriptorTable 3 0x700000] \<and>
   rv_ResName (RootValues root_values_state ! 1) = Some ''U'' \<and>
   root_value_commands device_ok root_values_state True 1 (RootValues root_values_state ! 1) =
     [bind_view True (binding_kind D3D12_RESOURCE_STATE_UNORDERED_ACCESS) 1 0x2000] \<and>
   rv_ResName (RootValues root_values_state ! 3) = None \<and>
   rv_HeapName (RootValues root_values_state ! 3) = Some ''H'' \<and>
   root_value_commands device_ok root_values_state True 3 (RootValues root_values_state ! 3) =
     [bind_table True 3 0x700000] \<and>
   binding_kind D3D12_RESOURCE_STATE_COPY_DEST = ShaderResourceView \<and>
   root_slot 3 (RootValues root_values_state ! 3) = 3 \<and>
   root_slot 2 (RootValues root_values_state ! 2) = 5"
proof -
  note t = SetRootValues_binds_by_TransitionTo [OF root_values_state_run]
  note t1 = t [THEN conjunct1]
  note t2 = t [THEN conjunct2, THEN conjunct1, rule_format, of 1 "''U''"]
  note t3 = t [THEN conjunct2, THEN conjunct2, THEN conjunct1, rule_format, of 3 "''H''"]
  note t4 = t [THEN conjunct2, THEN conjunct2, THEN conjunct2, THEN conjunct2, THEN conjunct2]
  have n: "rv_ResName (RootValues root_values_state ! 1) = Some ''U''"
    "rv_ResName (RootValues root_values_state ! 3) = None"
    "rv_HeapName (RootValues root_values_state ! 3) = Some ''H''"
    by (simp_all add: root_values_state_def)
  have len: "1 < length (RootValues root_values_state)" "3 < length (RootValues root_values_state)"
    by (simp_all add: root_values_state_def)
  from t1 have 1: "concat (map (\<lambda>(i, V). root_value_commands device_ok root_values_state True i V)
                             (enumerate 0 (RootValues root_values_state))) =
         [SetComputeRootConstantBufferView 0 0x1000, SetComputeRootUnorderedAccessView 1 0x2000,
          SetComputeRootShaderResourceView 5 0x3000, SetComputeRootDescriptorTable 3 0x700000]"
    by simp
  from t2 [OF conjI [OF len(1) n(1)]] obtain D
    where "m_ResourceData root_values_state (Some ''U'') = Some D"
      and "root_value_commands device_ok root_values_state True 1
             (RootValues root_values_state ! 1) =
           [bind_view True
              (binding_kind (TransitionTo (Resources root_values_state ! ShaderOpRes D)))
              (root_slot 1 (RootValues root_values_state ! 1))
              (GetGPUVirtualAddress device_ok (Resource D))]"
    by blast
  then have 2: "root_value_commands device_ok root_values_state True 1
                  (RootValues root_values_state ! 1) =
                [bind_view True (binding_kind D3D12_RESOURCE_STATE_UNORDERED_ACCESS) 1 0x2000]"
    by (auto simp: root_values_state_def resource_zero_def device_ok_def root_slot_def)
  from t3 [OF conjI [OF len(2) conjI [OF n(2,3)]]] obtain heap
    where "m_DescriptorHeapsByName root_values_state (Some ''H'') = Some heap"
      and "root_value_commands device_ok root_values_state True 3
             (RootValues root_values_state ! 3) =
           [bind_table True (root_slot 3 (RootValues root_values_state ! 3))
              (GetGPUDescriptorHandleForHeapStart device_ok heap)]"
    by blast
  then have 3: "root_value_commands device_ok root_values_state True 3
                  (RootValues root_values_state ! 3) = [bind_table True 3 0x700000]"
    by (auto simp: root_values_state_def device_ok_def root_slot_def)
  from t4 have 4: "binding_kind D3D12_RESOURCE_STATE_COPY_DEST = ShaderResourceView"
    "root_slot 3 (RootValues root_values_state ! 3) = 3"
    "root_slot 2 (RootValues root_values_state ! 2) = 5"
    by (simp_all add: root_values_state_def)
  from root_values_state_run 1 2 3 4 n show ?thesis
    by (simp only: simp_thms)
qed


end
